theory Spec2Isabelle
  imports Complex_Main
begin

section \<open>Strings and numbers\<close>

text \<open>
  A JavaScript string is modelled as a \<^typ>\<open>string\<close> whose characters are read as the code
  units 0..255 (ASCII and Latin-1), and a JavaScript number as a \<^typ>\<open>real\<close> (rounding,
  overflow and NaN of IEEE doubles are not modelled).  The character classes are those of
  a regular expression without the \<open>u\<close> flag: \<open>\w\<close> is \<open>[A-Za-z0-9_]\<close>, \<open>\d\<close> is \<open>[0-9]\<close>,
  \<open>\s\<close> is tab, line feed, vertical tab, form feed, carriage return, space and no-break
  space, and the line terminators are line feed and carriage return.
\<close>

definition code :: "char \<Rightarrow> nat" where
  "code c = of_char c"

definition toLowerCh :: "char \<Rightarrow> char" where
  "toLowerCh c = (if (65 \<le> code c \<and> code c \<le> 90) \<or> (192 \<le> code c \<and> code c \<le> 222 \<and> code c \<noteq> 215)
                  then char_of (code c + 32) else c)"

text \<open>\<open>c === c.toUpperCase()\<close>: false exactly for the letters that have another upper case.\<close>

definition eqUpperCh :: "char \<Rightarrow> bool" where
  "eqUpperCh c = (\<not> ((97 \<le> code c \<and> code c \<le> 122) \<or> (224 \<le> code c \<and> code c \<le> 254 \<and> code c \<noteq> 247)
                     \<or> code c = 255 \<or> code c = 181 \<or> code c = 223))"

definition isWordCh :: "char \<Rightarrow> bool" where
  "isWordCh c = ((48 \<le> code c \<and> code c \<le> 57) \<or> (65 \<le> code c \<and> code c \<le> 90) \<or> code c = 95 \<or> (97 \<le> code c \<and> code c \<le> 122))"

definition isDigitCh :: "char \<Rightarrow> bool" where
  "isDigitCh c = (48 \<le> code c \<and> code c \<le> 57)"

definition isSpaceCh :: "char \<Rightarrow> bool" where
  "isSpaceCh c = ((9 \<le> code c \<and> code c \<le> 13) \<or> code c = 32 \<or> code c = 160)"

definition isLineTerm :: "char \<Rightarrow> bool" where
  "isLineTerm c = (code c = 10 \<or> code c = 13)"

definition toLowerCase :: "string \<Rightarrow> string" where
  "toLowerCase s = map toLowerCh s"

definition trim :: "string \<Rightarrow> string" where
  "trim s = rev (dropWhile isSpaceCh (rev (dropWhile isSpaceCh s)))"

text \<open>\<open>s.replace(/\s+/g, ' ')\<close>; the flag says that the previous character was white space.\<close>

fun collapseWs :: "bool \<Rightarrow> string \<Rightarrow> string" where
  "collapseWs inRun [] = []"
| "collapseWs inRun (c # cs) =
     (if isSpaceCh c then (if inRun then collapseWs True cs else CHR '' '' # collapseWs True cs)
      else c # collapseWs False cs)"

text \<open>\<open>normalizeTextForMatching\<close>: lower case, \<open>/[^\w\s]/g\<close> to a space, \<open>/\s+/g\<close> to a space, trim.\<close>

definition normalizeTextForMatching :: "string \<Rightarrow> string" where
  "normalizeTextForMatching text =
     trim (collapseWs False (map (\<lambda>c. if isWordCh c \<or> isSpaceCh c then c else CHR '' '') (toLowerCase text)))"

text \<open>\<open>s.split(/\s+/)\<close> (a leading or trailing run of white space gives an empty first or last
  piece), \<open>s.split(c)\<close> for one character, and \<open>xs.join(sep)\<close>.\<close>

fun splitWsFrom :: "string \<Rightarrow> bool \<Rightarrow> string \<Rightarrow> string list" where
  "splitWsFrom cur inRun [] = [rev cur]"
| "splitWsFrom cur inRun (c # cs) =
     (if isSpaceCh c then (if inRun then splitWsFrom cur True cs else rev cur # splitWsFrom [] True cs)
      else splitWsFrom (c # cur) False cs)"

definition splitWs :: "string \<Rightarrow> string list" where
  "splitWs s = splitWsFrom [] False s"

fun splitOnFrom :: "char \<Rightarrow> string \<Rightarrow> string \<Rightarrow> string list" where
  "splitOnFrom d cur [] = [rev cur]"
| "splitOnFrom d cur (c # cs) = (if c = d then rev cur # splitOnFrom d [] cs else splitOnFrom d (c # cur) cs)"

definition splitOn :: "char \<Rightarrow> string \<Rightarrow> string list" where
  "splitOn d s = splitOnFrom d [] s"

fun join :: "string \<Rightarrow> string list \<Rightarrow> string" where
  "join sep [] = []"
| "join sep [w] = w"
| "join sep (w # v # ws) = w @ sep @ join sep (v # ws)"

text \<open>\<open>hay.includes(needle)\<close>.\<close>

fun strIncludes :: "string \<Rightarrow> string \<Rightarrow> bool" where
  "strIncludes [] needle = (needle = [])"
| "strIncludes (c # cs) needle = (take (length needle) (c # cs) = needle \<or> strIncludes cs needle)"

text \<open>A stable sort by a comparison (\<open>Array.prototype.sort\<close> with a comparator that is a total
  preorder); \<open>le a b\<close> says that \<open>a\<close> may stand before \<open>b\<close>.\<close>

fun insortBy :: "('a \<Rightarrow> 'a \<Rightarrow> bool) \<Rightarrow> 'a \<Rightarrow> 'a list \<Rightarrow> 'a list" where
  "insortBy le x [] = [x]"
| "insortBy le x (y # ys) = (if le x y then x # y # ys else y # insortBy le x ys)"

definition sortBy :: "('a \<Rightarrow> 'a \<Rightarrow> bool) \<Rightarrow> 'a list \<Rightarrow> 'a list" where
  "sortBy le xs = foldr (insortBy le) xs []"

subsection \<open>The vector store's cosine similarity\<close>

text \<open>The similarity as the route uses it: a real number that is compared with bounds and
  added to the score.  The arithmetic of the doubles (rounding, overflow, NaN) is not in this
  reading; the last section of the definitions gives the function on doubles.\<close>

datatype error = Error string

definition cosineSimilarity :: "real list \<Rightarrow> real list \<Rightarrow> error + real" where
  "cosineSimilarity vecA vecB =
     (if length vecA \<noteq> length vecB then Inl (Error ''Vectors must have the same length'')
      else case foldl (\<lambda>(dotProduct, normA, normB) (a, b). (dotProduct + a * b, normA + a * a, normB + b * b))
                  (0, 0, 0) (zip vecA vecB) of
        (dotProduct, normA, normB) \<Rightarrow>
          Inr (if sqrt normA * sqrt normB = 0 then 0 else dotProduct / (sqrt normA * sqrt normB)))"

text \<open>The shape of a normalized string: lower-case word characters and single spaces.\<close>

definition nch :: "char \<Rightarrow> bool" where
  "nch c = (toLowerCh c = c \<and> (isWordCh c \<or> c = CHR '' ''))"

fun okWs :: "bool \<Rightarrow> string \<Rightarrow> bool" where
  "okWs inRun [] = True"
| "okWs inRun (c # cs) = (if isSpaceCh c then c = CHR '' '' \<and> \<not> inRun \<and> okWs True cs else okWs False cs)"

section \<open>Regular expressions\<close>

text \<open>
  The route decides almost everything with \<open>RegExp.test\<close>, \<open>String.match\<close> and
  \<open>String.search\<close>.  A regular expression is a term of \<open>rx\<close>, and \<open>ms r s\<close> lists the states
  a backtracking matcher can reach from the state \<open>s\<close>, in the order in which it tries them:
  the left alternative first, the longer repetition first when the quantifier is greedy.
  A state holds the character before the position (for \<open>\b\<close> and \<open>^\<close>), the text still to
  read, and the captured groups, the latest first.  \<open>Rep m n g r\<close> is \<open>r{m,n}\<close> (no upper bound
  for \<open>None\<close>), greedy when \<open>g\<close>; an iteration past the first \<open>m\<close> has to read a character.
\<close>

datatype rx = Eps | Sym "char \<Rightarrow> bool" | Seq rx rx | Alt rx rx
  | Rep nat "nat option" bool rx | Grp nat rx | WordB | Bol | Eol | BolM | EolM

datatype mstate = MS (prevc: "char option") (rest: string) (caps: "(nat \<times> string) list")

primrec must :: "nat \<Rightarrow> (mstate \<Rightarrow> mstate list) \<Rightarrow> (mstate \<Rightarrow> mstate list) \<Rightarrow> mstate \<Rightarrow> mstate list" where
  "must 0 f k s = k s"
| "must (Suc m) f k s = concat (map (must m f k) (f s))"

primrec loop :: "nat \<Rightarrow> (mstate \<Rightarrow> mstate list) \<Rightarrow> bool \<Rightarrow> nat option \<Rightarrow> mstate \<Rightarrow> mstate list" where
  "loop 0 f g mx s = [s]"
| "loop (Suc n) f g mx s =
     (if mx = Some 0 then [s]
      else if g
        then concat (map (\<lambda>t. if length (rest t) < length (rest s)
                                then loop n f g (map_option (\<lambda>m. m - 1) mx) t else []) (f s)) @ [s]
        else s # concat (map (\<lambda>t. if length (rest t) < length (rest s)
                                   then loop n f g (map_option (\<lambda>m. m - 1) mx) t else []) (f s)))"

definition isWordO :: "char option \<Rightarrow> bool" where
  "isWordO oc = (case oc of None \<Rightarrow> False | Some c \<Rightarrow> isWordCh c)"

definition nextc :: "mstate \<Rightarrow> char option" where
  "nextc s = (case rest s of [] \<Rightarrow> None | c # _ \<Rightarrow> Some c)"

primrec ms :: "rx \<Rightarrow> mstate \<Rightarrow> mstate list" where
  "ms Eps s = [s]"
| "ms (Sym p) s = (case rest s of [] \<Rightarrow> [] | c # cs \<Rightarrow> if p c then [MS (Some c) cs (caps s)] else [])"
| "ms (Seq a b) s = concat (map (ms b) (ms a s))"
| "ms (Alt a b) s = ms a s @ ms b s"
| "ms (Rep mn mx g r) s =
     must mn (ms r) (\<lambda>t. loop (length (rest t)) (ms r) g (map_option (\<lambda>m. m - mn) mx) t) s"
| "ms (Grp k r) s =
     map (\<lambda>t. MS (prevc t) (rest t) ((k, take (length (rest s) - length (rest t)) (rest s)) # caps t)) (ms r s)"
| "ms WordB s = (if isWordO (prevc s) \<noteq> isWordO (nextc s) then [s] else [])"
| "ms Bol s = (if prevc s = None then [s] else [])"
| "ms Eol s = (if rest s = [] then [s] else [])"
| "ms BolM s = (case prevc s of None \<Rightarrow> [s] | Some c \<Rightarrow> if isLineTerm c then [s] else [])"
| "ms EolM s = (case rest s of [] \<Rightarrow> [s] | c # _ \<Rightarrow> if isLineTerm c then [s] else [])"

text \<open>\<open>r.exec(s)\<close> for a regular expression without the \<open>g\<close> flag: the first position with a
  match, and the first state the matcher reaches there.\<close>

fun exec_from :: "rx \<Rightarrow> char option \<Rightarrow> string \<Rightarrow> nat \<Rightarrow> (nat \<times> mstate) option" where
  "exec_from r p s i =
     (case ms r (MS p s []) of
        t # _ \<Rightarrow> Some (i, t)
      | [] \<Rightarrow> (case s of [] \<Rightarrow> None | c # cs \<Rightarrow> exec_from r (Some c) cs (Suc i)))"

definition rx_exec :: "rx \<Rightarrow> string \<Rightarrow> (nat \<times> mstate) option" where
  "rx_exec r s = exec_from r None s 0"

definition rx_test :: "rx \<Rightarrow> string \<Rightarrow> bool" where
  "rx_test r s = (rx_exec r s \<noteq> None)"

text \<open>\<open>s.search(r)\<close> and \<open>s.match(r).index\<close> (\<open>None\<close> for -1 and for no match), the matched text
  \<open>m[0]\<close>, the group \<open>m[k]\<close> (\<open>None\<close> for \<open>undefined\<close>), and \<open>s.replace(r, t)\<close>.\<close>

definition rx_index :: "rx \<Rightarrow> string \<Rightarrow> nat option" where
  "rx_index r s = map_option fst (rx_exec r s)"

definition rx_match0 :: "rx \<Rightarrow> string \<Rightarrow> string option" where
  "rx_match0 r s =
     (case rx_exec r s of None \<Rightarrow> None
      | Some (i, t) \<Rightarrow> Some (take (length s - i - length (rest t)) (drop i s)))"

definition rx_group :: "nat \<Rightarrow> rx \<Rightarrow> string \<Rightarrow> string option" where
  "rx_group k r s = (case rx_exec r s of None \<Rightarrow> None | Some (i, t) \<Rightarrow> map_of (caps t) k)"

definition rx_replace :: "rx \<Rightarrow> string \<Rightarrow> string \<Rightarrow> string" where
  "rx_replace r t s = (case rx_exec r s of None \<Rightarrow> s | Some (i, u) \<Rightarrow> take i s @ t @ rest u)"

subsection \<open>Writing the source's patterns\<close>

text \<open>\<open>ch\<close> is a character as it stands, \<open>chi\<close> a character under the \<open>i\<close> flag; \<open>str\<close> and
  \<open>stri\<close> are literal texts (a text built by the source with its regex escape is such a
  literal); \<open>phrase [u, v, w]\<close> is \<open>u\s+v\s+w\<close> under the \<open>i\<close> flag.\<close>

definition ch :: "char \<Rightarrow> rx" where
  "ch c = Sym (\<lambda>x. x = c)"

definition chi :: "char \<Rightarrow> rx" where
  "chi c = Sym (\<lambda>x. toLowerCh x = toLowerCh c)"

definition notCh :: "string \<Rightarrow> rx" where
  "notCh cs = Sym (\<lambda>x. x \<notin> set cs)"

definition seqs :: "rx list \<Rightarrow> rx" where
  "seqs rs = foldr Seq rs Eps"

fun alts :: "rx list \<Rightarrow> rx" where
  "alts [] = Sym (\<lambda>x. False)"
| "alts [r] = r"
| "alts (r # q # rs) = Alt r (alts (q # rs))"

definition str :: "string \<Rightarrow> rx" where
  "str w = seqs (map ch w)"

definition stri :: "string \<Rightarrow> rx" where
  "stri w = seqs (map chi w)"

definition stris :: "string list \<Rightarrow> rx" where
  "stris ws = alts (map stri ws)"

definition opt :: "rx \<Rightarrow> rx" where
  "opt r = Rep 0 (Some 1) True r"

definition star :: "rx \<Rightarrow> rx" where
  "star r = Rep 0 None True r"

definition plus :: "rx \<Rightarrow> rx" where
  "plus r = Rep 1 None True r"

definition upto :: "nat \<Rightarrow> nat \<Rightarrow> rx \<Rightarrow> rx" where
  "upto m n r = Rep m (Some n) True r"

definition sp :: rx where
  "sp = Sym isSpaceCh"

definition sps :: rx where
  "sps = plus sp"

definition sp0 :: rx where
  "sp0 = star sp"

definition digit :: rx where
  "digit = Sym isDigitCh"

definition dot :: rx where
  "dot = Sym (\<lambda>c. \<not> isLineTerm c)"

definition anyCh :: rx where
  "anyCh = Sym (\<lambda>c. True)"

fun phrase :: "string list \<Rightarrow> rx" where
  "phrase [] = Eps"
| "phrase [w] = stri w"
| "phrase (w # v # ws) = Seq (stri w) (Seq sps (phrase (v # ws)))"

text \<open>\<open>\b\<close> \<open>r\<close> \<open>\b\<close>, and \<open>list.some(p => p.test(s))\<close>.\<close>

definition bounded :: "rx \<Rightarrow> rx" where
  "bounded r = seqs [WordB, r, WordB]"

definition someTest :: "rx list \<Rightarrow> string \<Rightarrow> bool" where
  "someTest ps s = list_ex (\<lambda>p. rx_test p s) ps"

section \<open>The data model\<close>

text \<open>\<open>DocumentChunk\<close> and \<open>DocumentVector\<close> of the document processor and the vector store;
  the field \<open>text\<close> of a chunk is \<open>textOf\<close> here.\<close>

record chunk =
  textOf :: string
  sourceFile :: string
  chunkIndex :: nat
  startIndex :: nat
  endIndex :: nat
  fileSize :: "nat option"

record docVector =
  chunk :: chunk
  embedding :: "real list"

text \<open>What the route answers.  The snippet extractors are not modelled: on the ranking path
  the answer is \<open>Snippet t ws\<close>, the snippet of the chunk text \<open>t\<close> for the query words \<open>ws\<close>.\<close>

datatype answer = Text string | Snippet string "string list"

datatype response =
    BadRequest
  | ServerError
  | Json (answer: answer) (source: string) (confidence: real) (explanation: "string option")

text \<open>A \<open>Map\<close> from document names to their vectors, in insertion order.\<close>

fun pushGroup :: "(string \<times> docVector list) list \<Rightarrow> docVector \<Rightarrow> (string \<times> docVector list) list" where
  "pushGroup [] v = [(sourceFile (chunk v), [v])]"
| "pushGroup ((n, g) # gs) v =
     (if n = sourceFile (chunk v) then (n, g @ [v]) # gs else (n, g) # pushGroup gs v)"

definition groupByDoc :: "docVector list \<Rightarrow> (string \<times> docVector list) list" where
  "groupByDoc vs = foldl pushGroup [] vs"

definition sortByIndex :: "docVector list \<Rightarrow> docVector list" where
  "sortByIndex vs = sort_key (\<lambda>v. chunkIndex (chunk v)) vs"

section \<open>Steps 2.5 to 2.7: the comparison filters\<close>

text \<open>\<open>/\bvs\.?\b/i\<close>, and \<open>comparisonKeywordsEarly\<close>.\<close>

definition vsPattern :: rx where
  "vsPattern = seqs [WordB, stri ''vs'', opt (ch CHR ''.''), WordB]"

definition comparisonKeywordsEarly :: "rx list" where
  "comparisonKeywordsEarly =
     [bounded (stri ''difference''), vsPattern, bounded (stri ''versus''),
      bounded (stri ''compare''), bounded (stri ''comparison'')]"

definition isComparisonQueryEarly :: "string \<Rightarrow> bool" where
  "isComparisonQueryEarly query = someTest comparisonKeywordsEarly query"

definition stopWordsEarly :: "string list" where
  "stopWordsEarly =
     [''what'', ''how'', ''does'', ''do'', ''is'', ''are'', ''the'', ''a'', ''an'', ''and'', ''or'', ''but'',
      ''in'', ''on'', ''at'', ''to'', ''for'', ''of'', ''with'', ''by'', ''from'', ''as'', ''use'', ''uses'',
      ''using'', ''used'', ''data'', ''ai'', ''artificial'', ''intelligence'', ''machine'', ''learning'',
      ''difference'', ''between'', ''compare'', ''comparison'', ''vs'', ''versus'', ''different'',
      ''platforms'', ''agentic'']"

text \<open>\<open>word.replace(/[^\w]/g, '')\<close>, and the test that a clean word starts with a capital.\<close>

definition cleanWord :: "string \<Rightarrow> string" where
  "cleanWord word = filter isWordCh word"

definition capitalized :: "string \<Rightarrow> bool" where
  "capitalized w = (eqUpperCh (hd w) \<and> toLowerCh (hd w) \<noteq> hd w)"

definition extractEntityEarly :: "string \<Rightarrow> string option" where
  "extractEntityEarly queryText =
     find (\<lambda>w. length w > 2 \<and> capitalized w \<and> toLowerCase w \<notin> set stopWordsEarly)
       (map cleanWord (splitWs queryText))"

definition whatIsPattern :: rx where
  "whatIsPattern = seqs [Bol, stri ''what'', sps, stri ''is'', WordB]"

definition definePattern :: rx where
  "definePattern = seqs [Bol, stri ''define'', WordB]"

definition isDefinitionQueryEarly :: "string \<Rightarrow> bool" where
  "isDefinitionQueryEarly query =
     (rx_test whatIsPattern (trim query) \<or> rx_test definePattern (trim query))"

text \<open>\<open>new RegExp(`\\b${entity}\\b`, 'i')\<close>: the entity is a clean word, its escape changes nothing.\<close>

definition entityPattern :: "string \<Rightarrow> rx" where
  "entityPattern e = bounded (stri e)"

text \<open>Step 2.5: only the documents with a chunk that mentions the entity stay.\<close>

definition strictDocumentFilter :: "string \<Rightarrow> docVector list \<Rightarrow> docVector list" where
  "strictDocumentFilter e allVectors =
     (let eligibleDocs =
        map fst (filter (\<lambda>(docName, docVectors).
                   list_ex (\<lambda>v. rx_test (entityPattern e) (textOf (chunk v))) docVectors)
                 (groupByDoc allVectors))
      in filter (\<lambda>v. sourceFile (chunk v) \<in> set eligibleDocs) allVectors)"

text \<open>Step 2.6: the chunks of a section whose header names the entity and a comparison.\<close>

definition comparisonSectionKeywords :: "rx list" where
  "comparisonSectionKeywords =
     [bounded (stri ''difference''), bounded (stri ''compare''), bounded (stri ''comparison''),
      vsPattern, bounded (stri ''versus'')]"

text \<open>\<open>/^(\d+\.[\d.]*)\s+(.+)$/\<close>\<close>

definition numberedHeader :: rx where
  "numberedHeader =
     seqs [Bol, Grp 1 (seqs [plus digit, ch CHR ''.'', star (Sym (\<lambda>c. isDigitCh c \<or> c = CHR ''.''))]),
           sps, Grp 2 (plus dot), Eol]"

definition sectionTitleOf :: "string \<Rightarrow> string option" where
  "sectionTitleOf trimmedLine =
     (case rx_group 2 numberedHeader trimmedLine of
        Some sectionTitle \<Rightarrow> Some sectionTitle
      | None \<Rightarrow>
          (let words = splitWs trimmedLine in
           if length words \<ge> 2 \<and> length words \<le> 15
              \<and> real (length (filter (\<lambda>w. length w > 0 \<and> capitalized w) words)) \<ge> real (length words) * 0.5
           then Some trimmedLine else None))"

text \<open>The state of the scan is the pair of \<open>currentSectionIsMatch\<close> and \<open>foundMatchingSection\<close>.\<close>

definition scanLine :: "string \<Rightarrow> bool \<times> bool \<Rightarrow> string \<Rightarrow> bool \<times> bool" where
  "scanLine e st line =
     (if length (trim line) = 0 \<or> length (trim line) > 120 then st
      else case sectionTitleOf (trim line) of
          None \<Rightarrow> st
        | Some sectionTitle \<Rightarrow>
            (if sectionTitle = [] then st
             else if rx_test (entityPattern e) sectionTitle \<and> someTest comparisonSectionKeywords sectionTitle
               then (True, True)
             else if fst st then (False, snd st)
             else st))"

definition scanChunk :: "string \<Rightarrow> bool \<times> bool \<times> docVector list \<Rightarrow> docVector \<Rightarrow> bool \<times> bool \<times> docVector list" where
  "scanChunk e st v =
     (case st of (cur, found, matchingSectionChunks) \<Rightarrow>
      case foldl (scanLine e) (cur, found) (splitOn (CHR 0x0A) (textOf (chunk v))) of
        (cur', found') \<Rightarrow>
          (cur', found', if cur' then matchingSectionChunks @ [v] else matchingSectionChunks))"

definition scanDoc :: "string \<Rightarrow> bool \<times> docVector list \<Rightarrow> string \<times> docVector list \<Rightarrow> bool \<times> docVector list" where
  "scanDoc e st doc =
     (case st of (found, matchingSectionChunks) \<Rightarrow>
      case foldl (scanChunk e) (False, found, matchingSectionChunks) (sortByIndex (snd doc)) of
        (cur, found', acc) \<Rightarrow> (found', acc))"

definition sectionAwareRetrieval :: "string \<Rightarrow> docVector list \<Rightarrow> docVector list" where
  "sectionAwareRetrieval e allVectors =
     (case foldl (scanDoc e) (False, []) (groupByDoc allVectors) of
        (foundMatchingSection, matchingSectionChunks) \<Rightarrow>
          if foundMatchingSection \<and> length matchingSectionChunks > 0 then matchingSectionChunks
          else allVectors)"

text \<open>Step 2.7: the TC-5 filter.  Without an entity of the query, the entity pattern is the
  literal \<open>/\bcelonis\b/i\<close>.\<close>

definition entity1Pattern :: "string option \<Rightarrow> rx" where
  "entity1Pattern earlyEntity =
     (case earlyEntity of Some e \<Rightarrow> entityPattern e | None \<Rightarrow> bounded (stri ''celonis''))"

text \<open>\<open>/\b(difference|compare|comparison|vs\.?|versus)\b/i\<close> and \<open>/^\d+\.\s+/\<close>\<close>

definition comparisonSectionHeaderPattern :: rx where
  "comparisonSectionHeaderPattern =
     bounded (alts [stri ''difference'', stri ''compare'', stri ''comparison'',
                    Seq (stri ''vs'') (opt (ch CHR ''.'')), stri ''versus''])"

definition anySectionHeaderPattern :: rx where
  "anySectionHeaderPattern = seqs [Bol, plus digit, ch CHR ''.'', sps]"

definition overviewScopePatterns :: "rx list" where
  "overviewScopePatterns =
     [bounded (phrase [''provides'', ''a'', ''detailed'', ''understanding'']),
      bounded (phrase [''covers'', ''its'', ''purpose'']),
      bounded (phrase [''this'', ''document'', ''provides'']),
      bounded (phrase [''platform'', ''overview'']),
      bounded (phrase [''this'', ''document'', ''covers'']),
      bounded (phrase [''this'', ''document'', ''explains'']),
      seqs [WordB, phrase [''overview'', ''of''], sps],
      seqs [WordB, phrase [''introduction'', ''to''], sps],
      seqs [WordB, stri ''covering'', sps, stris [''its'', ''the''], sps],
      bounded (phrase [''detailed'', ''understanding'', ''of''])]"

definition topicListingPatterns :: "rx list" where
  "topicListingPatterns =
     [seqs [stri ''purpose'', star dot, stri ''architecture'', star dot, stri ''ai'', star dot,
            stri ''differentiation''],
      seqs [stri ''covering'', star dot, stri ''purpose'', star dot, stri ''architecture''],
      seqs [bounded (stri ''purpose''), star dot, bounded (stri ''architecture''), star dot,
            bounded (stri ''ai'')]]"

definition isOverviewOrScope :: "string \<Rightarrow> bool" where
  "isOverviewOrScope t = (someTest overviewScopePatterns t \<or> someTest topicListingPatterns t)"

definition hasComparisonSectionHeader :: "string \<Rightarrow> bool" where
  "hasComparisonSectionHeader t =
     list_ex (\<lambda>line. rx_test anySectionHeaderPattern (trim line)
                    \<and> rx_test comparisonSectionHeaderPattern (trim line))
       (splitOn (CHR 0x0A) t)"

definition startsWithNewSectionHeader :: "string \<Rightarrow> bool" where
  "startsWithNewSectionHeader t =
     (case find (\<lambda>line. length (trim line) > 0) (splitOn (CHR 0x0A) t) of
        None \<Rightarrow> False
      | Some line \<Rightarrow> rx_test anySectionHeaderPattern (trim line)
                    \<and> \<not> rx_test comparisonSectionHeaderPattern (trim line))"

text \<open>The positions, in the sorted chunks of a document, of the comparison section: from the
  first chunk with a comparison header to the next chunk that starts a new section.\<close>

definition comparisonSectionRange :: "docVector list \<Rightarrow> (nat \<times> nat) option" where
  "comparisonSectionRange sortedChunks =
     (case find (\<lambda>i. hasComparisonSectionHeader (textOf (chunk (sortedChunks ! i)))) [0 ..< length sortedChunks] of
        None \<Rightarrow> None
      | Some i \<Rightarrow>
          Some (i, case find (\<lambda>j. startsWithNewSectionHeader (textOf (chunk (sortedChunks ! j))))
                          [Suc i ..< length sortedChunks] of
                     None \<Rightarrow> length sortedChunks
                   | Some j \<Rightarrow> j))"

datatype verdict = InComparisonSection | OtherValid | Excluded string

definition isInComparisonSection :: "(nat \<times> nat) option \<Rightarrow> nat \<Rightarrow> bool" where
  "isInComparisonSection rng i =
     (case rng of None \<Rightarrow> False
      | Some (comparisonSectionStartIndex, comparisonSectionEndIndex) \<Rightarrow>
          i \<ge> comparisonSectionStartIndex \<and> i < comparisonSectionEndIndex)"

definition categorize :: "string option \<Rightarrow> (nat \<times> nat) option \<Rightarrow> nat \<Rightarrow> docVector \<Rightarrow> verdict" where
  "categorize earlyEntity rng i v =
     (let hasEntity1 = rx_test (entity1Pattern earlyEntity) (textOf (chunk v));
          isFirstChunk = (chunkIndex (chunk v) = 0);
          isOverviewChunk = isOverviewOrScope (textOf (chunk v));
          inSection = isInComparisonSection rng i
      in if isFirstChunk then Excluded ''first chunk (intro/title)''
         else if isOverviewChunk \<and> \<not> inSection
           then Excluded ''overview/scope summary (not in comparison section)''
         else if \<not> hasEntity1 \<and> \<not> inSection
           then Excluded (''missing entity 1 ('' @ (case earlyEntity of Some e \<Rightarrow> e | None \<Rightarrow> ''Celonis'') @ '')'')
         else if inSection then InComparisonSection
         else if hasEntity1 then OtherValid
         else Excluded ''not in comparison section and missing entity'')"

definition categorizeAll :: "string option \<Rightarrow> docVector list \<Rightarrow> (verdict \<times> docVector) list" where
  "categorizeAll earlyEntity allVectors =
     concat (map (\<lambda>doc.
               map (\<lambda>(i, v). (categorize earlyEntity (comparisonSectionRange (sortByIndex (snd doc))) i v, v))
                 (enumerate 0 (sortByIndex (snd doc))))
             (groupByDoc allVectors))"

definition noComparisonResponse :: response where
  "noComparisonResponse =
     Json (Text ''No clear comparison found in the provided documents.'') '''' 0 None"

definition tc5Filter :: "string option \<Rightarrow> docVector list \<Rightarrow> response + docVector list" where
  "tc5Filter earlyEntity allVectors =
     (let verdicts = categorizeAll earlyEntity allVectors;
          comparisonSectionChunks = map snd (filter (\<lambda>p. fst p = InComparisonSection) verdicts);
          otherChunks = map snd (filter (\<lambda>p. fst p = OtherValid) verdicts)
      in if length comparisonSectionChunks > 0 then Inr comparisonSectionChunks
         else if length otherChunks > 0 then Inr otherChunks
         else Inl noComparisonResponse)"

text \<open>The three steps in their order; each tests the vectors the one before has left.\<close>

definition comparisonStages :: "string \<Rightarrow> docVector list \<Rightarrow> response + docVector list" where
  "comparisonStages query store =
     (let isComparison = isComparisonQueryEarly query;
          earlyEntity = extractEntityEarly query;
          isDefinition = isDefinitionQueryEarly query;
          v1 = (case earlyEntity of
                  Some e \<Rightarrow> if isComparison \<and> \<not> isDefinition then strictDocumentFilter e store else store
                | None \<Rightarrow> store);
          v2 = (case earlyEntity of
                  Some e \<Rightarrow> if isComparison \<and> \<not> isDefinition \<and> length v1 > 0
                            then sectionAwareRetrieval e v1 else v1
                | None \<Rightarrow> v1)
      in if isComparison \<and> \<not> isDefinition \<and> length v2 > 0 then tc5Filter earlyEntity v2 else Inr v2)"

section \<open>Steps 3 to 5.5: query words, intent, entity, subject, relevant documents\<close>

text \<open>Step 3: \<open>normalizedQuery.split(' ').filter(w => w.length > 0)\<close>.\<close>

definition queryWordsOf :: "string \<Rightarrow> string list" where
  "queryWordsOf query =
     filter (\<lambda>w. length w > 0) (splitOn CHR '' '' (normalizeTextForMatching query))"

text \<open>\<open>Array.from(new Set(xs))\<close>, and more generally the first element of every key.\<close>

fun dedupBy :: "('a \<Rightarrow> 'k) \<Rightarrow> 'k list \<Rightarrow> 'a list \<Rightarrow> 'a list" where
  "dedupBy key seen [] = []"
| "dedupBy key seen (x # xs) =
     (if key x \<in> set seen then dedupBy key seen xs else x # dedupBy key (key x # seen) xs)"

text \<open>\<open>/\buses?\b/\<close> without its boundaries.\<close>

definition usesPattern :: rx where
  "usesPattern = Seq (stri ''use'') (opt (chi CHR ''s''))"

text \<open>Step 3.5: \<open>detectIntentKeywords\<close>.\<close>

definition detectIntentKeywords :: "string \<Rightarrow> string list" where
  "detectIntentKeywords query =
     (let queryLower = toLowerCase query;
          normalizedQueryLower = toLowerCase (normalizeTextForMatching query)
      in dedupBy (\<lambda>k. k) []
           ((if rx_test (bounded (stri ''data'')) queryLower
                \<or> rx_test (bounded (stri ''data'')) normalizedQueryLower
                \<or> rx_test (seqs [WordB, usesPattern, sps, stri ''data'', WordB]) queryLower
                \<or> rx_test (bounded (phrase [''data'', ''does''])) queryLower
                \<or> rx_test (bounded (phrase [''what'', ''data''])) queryLower
             then [''data''] else [])
            @ (if rx_test (bounded (stri ''ai'')) queryLower
                  \<or> rx_test (bounded (stri ''ai'')) normalizedQueryLower
                  \<or> rx_test (bounded (phrase [''artificial'', ''intelligence''])) queryLower
                  \<or> rx_test (bounded (phrase [''machine'', ''learning''])) queryLower
                  \<or> rx_test (bounded (stri ''ml'')) queryLower
                  \<or> rx_test (seqs [WordB, usesPattern, sps, stri ''ai'', WordB]) queryLower
                  \<or> rx_test (seqs [WordB, stri ''how'', sps, star dot, sps, usesPattern, sps, stri ''ai'', WordB]) queryLower
               then [''ai'', ''artificial intelligence'', ''machine learning''] else [])))"

text \<open>Step 3.6: \<open>extractPrimaryEntity\<close>; its second loop does not ask for a letter.\<close>

definition stopWordsPrimary :: "string list" where
  "stopWordsPrimary =
     [''what'', ''how'', ''does'', ''do'', ''is'', ''are'', ''the'', ''a'', ''an'', ''and'', ''or'', ''but'',
      ''in'', ''on'', ''at'', ''to'', ''for'', ''of'', ''with'', ''by'', ''from'', ''as'', ''use'', ''uses'',
      ''using'', ''used'', ''data'', ''ai'', ''artificial'', ''intelligence'', ''machine'', ''learning'']"

definition extractPrimaryEntity :: "string \<Rightarrow> string option" where
  "extractPrimaryEntity query =
     (case find (\<lambda>w. length w > 2 \<and> capitalized w \<and> toLowerCase w \<notin> set stopWordsPrimary)
             (map cleanWord (splitWs query)) of
        Some w \<Rightarrow> Some w
      | None \<Rightarrow>
          find (\<lambda>w. length w > 2 \<and> eqUpperCh (hd w) \<and> toLowerCase w \<notin> set stopWordsPrimary)
            (map cleanWord (splitWs query)))"

text \<open>Step 3.7: \<open>detectDefinitionQuery\<close>.  The subject patterns are \<open>/^what\s+is\s+([^?]+)/i\<close>,
  \<open>/^define\s+([^:?]+)/i\<close> and \<open>/^(a|an|the)\s+/i\<close>; an empty text stands for a subject that
  JavaScript takes as false (\<open>null\<close> or the empty string).\<close>

definition isDefinition :: "string \<Rightarrow> bool" where
  "isDefinition query =
     (let queryLower = trim (toLowerCase query);
          normalizedQueryLower = trim (toLowerCase (normalizeTextForMatching query))
      in rx_test whatIsPattern queryLower \<or> rx_test definePattern queryLower
         \<or> rx_test whatIsPattern normalizedQueryLower \<or> rx_test definePattern normalizedQueryLower)"

definition whatIsSubject :: rx where
  "whatIsSubject = seqs [Bol, stri ''what'', sps, stri ''is'', sps, Grp 1 (plus (notCh ''?''))]"

definition defineSubject :: rx where
  "defineSubject = seqs [Bol, stri ''define'', sps, Grp 1 (plus (notCh '':?''))]"

definition leadingArticle :: rx where
  "leadingArticle = seqs [Bol, stris [''a'', ''an'', ''the''], sps]"

definition skipWords :: "string list" where
  "skipWords = [''what'', ''is'', ''define'', ''a'', ''an'', ''the'']"

definition cleanSubject :: "string \<Rightarrow> string list \<Rightarrow> string" where
  "cleanSubject subject queryWords =
     (let cleaned = trim (rx_replace leadingArticle [] subject) in
      if length cleaned = 0 \<and> length queryWords > 2
      then (let remainingWords = filter (\<lambda>w. toLowerCase w \<notin> set skipWords) queryWords in
            if length remainingWords > 0 then join '' '' remainingWords else cleaned)
      else cleaned)"

definition definitionSubject :: "string \<Rightarrow> string option" where
  "definitionSubject query =
     (if \<not> isDefinition query then None
      else
        let s1 = (case rx_group 1 whatIsSubject query of Some g \<Rightarrow> trim g | None \<Rightarrow> []);
            s2 = (if s1 = [] then (case rx_group 1 defineSubject query of Some g \<Rightarrow> trim g | None \<Rightarrow> [])
                  else s1);
            s3 = (if s2 = [] then (case extractPrimaryEntity query of Some e \<Rightarrow> e | None \<Rightarrow> []) else s2);
            s4 = (if s3 = [] then [] else cleanSubject s3 (queryWordsOf query))
        in if s4 = [] then None else Some s4)"

text \<open>\<open>chunksByDocument.get(name) || []\<close>, and the number of chunks of a document.\<close>

definition chunksOfDocument :: "docVector list \<Rightarrow> string \<Rightarrow> docVector list" where
  "chunksOfDocument allVectors name =
     (case map_of (groupByDoc allVectors) name of Some vs \<Rightarrow> vs | None \<Rightarrow> [])"

definition totalChunks :: "docVector list \<Rightarrow> docVector \<Rightarrow> nat" where
  "totalChunks allVectors v = length (chunksOfDocument allVectors (sourceFile (chunk v)))"

text \<open>Step 5.5: a document is relevant when its name, its chunk 0 or one of its first chunks
  (15 percent of them, rounded up, at least one) holds the entity.\<close>

definition mentionsEntity :: "string \<Rightarrow> string \<Rightarrow> bool" where
  "mentionsEntity e t =
     (strIncludes (toLowerCase t) (toLowerCase e) \<or> rx_test (entityPattern e) t
      \<or> strIncludes (normalizeTextForMatching t) (toLowerCase e))"

definition isRelevantDocument :: "string \<Rightarrow> string \<times> docVector list \<Rightarrow> bool" where
  "isRelevantDocument e doc =
     (case doc of (fileName, documentChunks) \<Rightarrow>
        (strIncludes (toLowerCase fileName) (toLowerCase e) \<or> rx_test (entityPattern e) fileName)
        \<or> (length documentChunks > 0
            \<and> (case find (\<lambda>v. chunkIndex (chunk v) = 0) documentChunks of
                  Some titleChunk \<Rightarrow> mentionsEntity e (textOf (chunk titleChunk))
                | None \<Rightarrow> False))
        \<or> (length documentChunks > 0
            \<and> list_ex (\<lambda>v. mentionsEntity e (textOf (chunk v)))
                 (take (max 1 ((length documentChunks * 15 + 99) div 100)) documentChunks)))"

definition vectorsToSearch :: "string \<Rightarrow> docVector list \<Rightarrow> docVector list" where
  "vectorsToSearch query allVectors =
     (case extractPrimaryEntity query of
        None \<Rightarrow> allVectors
      | Some e \<Rightarrow>
          (let relevantDocumentNames = map fst (filter (isRelevantDocument e) (groupByDoc allVectors)) in
           if length relevantDocumentNames > 0
           then filter (\<lambda>v. sourceFile (chunk v) \<in> set relevantDocumentNames) allVectors
           else allVectors))"

section \<open>Step 6: candidate selection and scoring\<close>

record candidate =
  vector :: docVector
  semanticSimilarity :: real
  hasQueryKeywords :: bool
  keywordCoverage :: real
  positionBonus :: real
  explicitTermBonus :: real
  definitionBonus :: real
  comparisonBonus :: real
  comparisonIntroPenalty :: real
  finalScore :: real

text \<open>The position of a chunk in its document, \<open>chunkIndex / totalChunks\<close>, compared with a
  bound.  Where the source divides without a guard, a document without chunks gives NaN or
  Infinity, and the comparison is false.\<close>

definition positionLe :: "docVector list \<Rightarrow> docVector \<Rightarrow> real \<Rightarrow> bool" where
  "positionLe allVectors v bound =
     (totalChunks allVectors v > 0
      \<and> real (chunkIndex (chunk v)) / real (totalChunks allVectors v) \<le> bound)"

text \<open>The same with the source's guard \<open>totalChunks > 0 ? chunkIndex / totalChunks : 0\<close>.\<close>

definition chunkPosition :: "docVector list \<Rightarrow> docVector \<Rightarrow> real" where
  "chunkPosition allVectors v =
     (if totalChunks allVectors v > 0
      then real (chunkIndex (chunk v)) / real (totalChunks allVectors v) else 0)"

subsection \<open>Keywords\<close>

text \<open>\<open>w.replace(/s$/, '').replace(/es$/, '').replace(/ies$/, 'y')\<close>\<close>

definition stem :: "string \<Rightarrow> string" where
  "stem w =
     rx_replace (Seq (str ''ies'') Eol) ''y''
       (rx_replace (Seq (str ''es'') Eol) [] (rx_replace (Seq (str ''s'') Eol) [] w))"

definition wordFound :: "string \<Rightarrow> string \<Rightarrow> bool" where
  "wordFound normalizedChunkText queryWord =
     (rx_test (bounded (stri queryWord)) normalizedChunkText
      \<or> list_ex (\<lambda>chunkWord. chunkWord = queryWord
                      \<or> (stem chunkWord = stem queryWord \<and> length (stem queryWord) > 3))
           (filter (\<lambda>w. length w > 0) (splitWs normalizedChunkText)))"

definition foundWords :: "string list \<Rightarrow> docVector \<Rightarrow> nat" where
  "foundWords queryWords v =
     length (filter (wordFound (normalizeTextForMatching (textOf (chunk v)))) queryWords)"

definition keywordCoverageOf :: "string list \<Rightarrow> docVector \<Rightarrow> real" where
  "keywordCoverageOf queryWords v =
     (if length queryWords > 0 then real (foundWords queryWords v) / real (length queryWords) else 0)"

subsection \<open>Position and explicit terms\<close>

definition introPatternsForPosition :: "rx list" where
  "introPatternsForPosition =
     [phrase [''this'', ''document'', ''provides''],
      phrase [''detailed'', ''understanding''],
      seqs [stri ''covering'', sps, stris [''its'', ''the'']],
      seqs [stri ''this'', sps, stris [''document'', ''guide'', ''manual''], sps,
            stris [''provides'', ''covers'', ''explains'']]]"

definition positionBonusOf :: "bool \<Rightarrow> docVector list \<Rightarrow> docVector \<Rightarrow> real" where
  "positionBonusOf isDef allVectors v =
     (let isIntroChunkForPosition = someTest introPatternsForPosition (textOf (chunk v)) in
      if chunkIndex (chunk v) = 0
        then (if isDef \<and> isIntroChunkForPosition then 0.1 else 0.5)
      else if positionLe allVectors v 0.15
        then (if isDef \<and> isIntroChunkForPosition then 0.05 else 0.2)
      else 0)"

definition explicitTermBonusOf :: "string list \<Rightarrow> docVector \<Rightarrow> real" where
  "explicitTermBonusOf intentKeywords v =
     (let chunkTextLower = toLowerCase (textOf (chunk v));
          normalizedChunkTextLower = toLowerCase (normalizeTextForMatching (textOf (chunk v)))
      in if list_ex (\<lambda>intentKeyword.
                if CHR '' '' \<in> set intentKeyword
                then strIncludes chunkTextLower intentKeyword \<or> strIncludes normalizedChunkTextLower intentKeyword
                else rx_test (bounded (stri intentKeyword)) chunkTextLower
                     \<or> rx_test (bounded (stri intentKeyword)) normalizedChunkTextLower)
              intentKeywords
         then 0.3 else 0)"

subsection \<open>Definition bonus and penalty\<close>

definition introPatterns :: "rx list" where
  "introPatterns =
     [phrase [''this'', ''document'', ''provides''],
      phrase [''detailed'', ''understanding''],
      seqs [stri ''covering'', sps, stris [''its'', ''the'']],
      seqs [stri ''this'', sps, stris [''document'', ''guide'', ''manual''], sps,
            stris [''provides'', ''covers'', ''explains'']],
      phrase [''overview'', ''of''],
      seqs [Bol, stri ''this'', sps, stris [''document'', ''guide'', ''manual'']]]"

text \<open>\<open>S\s+is\s+(a|an|the)\<close> for a literal \<open>S\<close>, the four \<open>definitionPatterns\<close> of a subject, and
  the two question patterns.\<close>

definition isA :: "string \<Rightarrow> rx" where
  "isA s = seqs [stri s, sps, stri ''is'', sps, stris [''a'', ''an'', ''the'']]"

definition definitionPatterns :: "string \<Rightarrow> rx list" where
  "definitionPatterns subject =
     [seqs [WordB, isA subject, sps],
      seqs [WordB, isA subject, WordB],
      seqs [WordB, stri subject, plus (Sym (\<lambda>c. c = CHR '','' \<or> isSpaceCh c \<or> c = CHR ''-'')),
            stris [''a'', ''an'', ''the''], sps],
      seqs [isA (toLowerCase subject), sps]]"

definition anyQuestion :: rx where
  "anyQuestion = seqs [stri ''what'', sps, stri ''is'', sps, star (notCh ''?''), ch CHR ''?'']"

definition subjectQuestion :: "string \<Rightarrow> rx" where
  "subjectQuestion subject =
     seqs [stri ''what'', sps, stri ''is'', sps, stri (toLowerCase subject), star (notCh ''?''), ch CHR ''?'']"

text \<open>One turn of the loop over the definition patterns: whether this pattern sets the bonus.\<close>

definition patternGivesBonus :: "string \<Rightarrow> rx \<Rightarrow> bool" where
  "patternGivesBonus chunkText pattern =
     ((rx_test pattern chunkText \<or> rx_test pattern (toLowerCase chunkText))
      \<and> (case rx_index pattern (toLowerCase chunkText) of
            None \<Rightarrow> False
          | Some matchIndex \<Rightarrow>
              (let beforeMatch = trim (take matchIndex chunkText);
                   afterMatch = toLowerCase (take 100 (drop matchIndex chunkText));
                   isQuestionOnly = (rx_test (Seq anyQuestion Eol) beforeMatch \<and> length afterMatch < 30)
               in \<not> isQuestionOnly \<and> rx_test pattern chunkText)))"

definition definitionBonusOf :: "string \<Rightarrow> docVector list \<Rightarrow> docVector \<Rightarrow> real" where
  "definitionBonusOf subject allVectors v =
     (if positionLe allVectors v 0.30 \<or> positionLe allVectors v 0.70
      then (if list_ex (patternGivesBonus (textOf (chunk v))) (definitionPatterns subject)
            then (if positionLe allVectors v 0.30 then 1.0
                  else if positionLe allVectors v 0.70 then 0.8 else 0.6)
                 + (if rx_test anyQuestion (textOf (chunk v)) then 0.2 else 0)
            else 0)
      else 0)"

definition definitionPenaltyOf :: "string \<Rightarrow> docVector list \<Rightarrow> docVector \<Rightarrow> real" where
  "definitionPenaltyOf subject allVectors v =
     (let chunkText = textOf (chunk v);
          isIntroChunk = someTest introPatterns chunkText;
          p1 = (if isIntroChunk \<and> \<not> rx_test (isA (toLowerCase subject)) chunkText then - 1.0 else 0)
      in if (positionLe allVectors v 0.30 \<or> positionLe allVectors v 0.70)
            \<and> definitionBonusOf subject allVectors v = 0
         then (let hasQuestion = rx_test (subjectQuestion subject) chunkText;
                   hasDefinitionPattern =
                     list_ex (\<lambda>p. rx_test p chunkText \<or> rx_test p (toLowerCase chunkText))
                       (definitionPatterns subject)
               in if isIntroChunk \<and> hasQuestion \<and> \<not> hasDefinitionPattern then - 1.5
                  else if hasQuestion \<and> \<not> hasDefinitionPattern then - 0.7
                  else p1)
         else p1)"

subsection \<open>Comparison bonus and penalty\<close>

definition contrastLanguagePatterns :: "rx list" where
  "contrastLanguagePatterns =
     [bounded (stri ''while''), bounded (stri ''whereas''), bounded (phrase [''in'', ''contrast'']),
      bounded (phrase [''compared'', ''to'']), bounded (stri ''unlike''),
      bounded (phrase [''rather'', ''than'']), bounded (phrase [''on'', ''the'', ''other'', ''hand'']),
      bounded (stri ''however''), bounded (stri ''but''), bounded (phrase [''instead'', ''of''])]"

text \<open>\<open>vs\.?\<close>\<close>

definition vsDot :: rx where
  "vsDot = Seq (stri ''vs'') (opt (ch CHR ''.''))"

definition dualFramingPatterns :: "rx list" where
  "dualFramingPatterns =
     [seqs [stri ''celonis'', sps, star dot, sps, stris [''while'', ''whereas'', ''but''], sps, star dot, sps,
            stri ''agentic''],
      seqs [stri ''celonis'', sps, star dot, sps, stris [''while'', ''whereas'', ''but''], sps, star dot, sps,
            stri ''platform''],
      seqs [phrase [''what'', ''should''], sps, star dot, sps, vsDot, sps, phrase [''how'', ''to'']],
      seqs [stri ''problem'', sps, star dot, sps, alts [stri ''while'', stri ''whereas'', vsDot], sps,
            star dot, sps, stris [''solution'', ''execution'', ''task'']],
      seqs [stri ''discover'', star dot, sps, alts [stri ''while'', stri ''whereas'', vsDot], sps,
            star dot, sps, stri ''execut''],
      seqs [stri ''identify'', star dot, sps, alts [stri ''while'', stri ''whereas'', vsDot], sps,
            star dot, sps, stri ''automat'']]"

definition explicitDualEntityPatterns :: "rx list" where
  "explicitDualEntityPatterns =
     [seqs [stri ''celonis'', sps, upto 5 80 dot, sps, stris [''while'', ''whereas''], sps, upto 0 20 dot,
            phrase [''agentic'', ''platform'']],
      seqs [stri ''celonis'', sps, stris [''answers'', ''focuses'', ''discovers'', ''finds'', ''identifies''],
            upto 5 60 dot, stris [''while'', ''whereas''], upto 0 30 dot, stri ''agentic''],
      seqs [phrase [''agentic'', ''platform''], upto 5 60 dot, stris [''while'', ''whereas''], upto 0 30 dot,
            stri ''celonis''],
      seqs [stri ''celonis'', upto 10 80 dot, phrase [''in'', ''contrast''], upto 0 30 dot, stri ''agentic''],
      seqs [phrase [''unlike'', ''agentic'', ''platform''], upto 0 30 dot, stri ''celonis''],
      seqs [stri ''discover'', opt (chi CHR ''s''), sps, stri ''and'', sps, stri ''prioritiz'', upto 0 30 dot,
            stris [''while'', ''whereas''], upto 0 30 dot, stri ''automat''],
      seqs [stri ''find'', opt (chi CHR ''s''), sps, stri ''problem'', opt (chi CHR ''s''), upto 0 30 dot,
            stris [''while'', ''whereas''], upto 0 30 dot, stri ''execut''],
      seqs [phrase [''what'', ''should''], sps, upto 0 30 dot,
            alts [stri ''while'', stri ''whereas'', vsDot], upto 0 30 dot, phrase [''how'', ''to'']],
      seqs [phrase [''problem'', ''discovery''], upto 0 30 dot,
            alts [stri ''while'', stri ''whereas'', vsDot], upto 0 30 dot, phrase [''task'', ''execution'']],
      seqs [stri ''prioritiz'', upto 0 30 dot, stri ''problem'', upto 0 30 dot,
            stris [''while'', ''whereas''], upto 0 30 dot, stri ''automat'']]"

definition isComparisonQueryForScoring :: "string \<Rightarrow> bool" where
  "isComparisonQueryForScoring query = someTest comparisonKeywordsEarly query"

definition isDataQueryForComparison :: "string \<Rightarrow> bool" where
  "isDataQueryForComparison query =
     (rx_test (bounded (phrase [''what'', ''data''])) query
      \<or> rx_test (bounded (phrase [''data'', ''does''])) query
      \<or> rx_test (seqs [WordB, usesPattern, sps, stri ''data'', WordB]) query)"

definition isAIQueryForComparison :: "string \<Rightarrow> bool" where
  "isAIQueryForComparison query =
     (rx_test (seqs [WordB, usesPattern, sps, stri ''ai'', WordB]) query
      \<or> rx_test (bounded (phrase [''artificial'', ''intelligence''])) query
      \<or> rx_test (bounded (phrase [''machine'', ''learning''])) query)"

text \<open>Whether the comparison bonus and penalty are computed at all for a query.\<close>

definition comparisonScoring :: "string \<Rightarrow> bool" where
  "comparisonScoring query =
     (isComparisonQueryForScoring query \<and> \<not> isDefinition query
      \<and> \<not> isDataQueryForComparison query \<and> \<not> isAIQueryForComparison query)"

definition hasContrast :: "string \<Rightarrow> bool" where
  "hasContrast chunkText =
     (someTest contrastLanguagePatterns chunkText \<or> someTest dualFramingPatterns chunkText)"

definition mentionsBothEntities :: "string \<Rightarrow> bool" where
  "mentionsBothEntities chunkText =
     (rx_test (bounded (stri ''celonis'')) (toLowerCase chunkText)
      \<and> rx_test (bounded (stri ''agentic'')) (toLowerCase chunkText))"

definition comparisonBonusOf :: "string \<Rightarrow> real" where
  "comparisonBonusOf chunkText =
     (if someTest explicitDualEntityPatterns chunkText then 0.6
      else if hasContrast chunkText \<and> mentionsBothEntities chunkText then 0.4
      else if hasContrast chunkText then 0.2
      else - 0.4)"

text \<open>\<open>s.indexOf(t)\<close>, \<open>None\<close> for -1.\<close>

fun indexOfFrom :: "nat \<Rightarrow> string \<Rightarrow> string \<Rightarrow> nat option" where
  "indexOfFrom i [] needle = (if needle = [] then Some i else None)"
| "indexOfFrom i (c # cs) needle =
     (if take (length needle) (c # cs) = needle then Some i else indexOfFrom (Suc i) cs needle)"

definition headerPatterns :: "rx list" where
  "headerPatterns =
     [seqs [plus digit, ch CHR ''.'', sp0, stri ''Difference'', sps, stri ''Between''],
      seqs [plus digit, ch CHR ''.'', sp0, stri ''Difference'', sps],
      seqs [plus digit, ch CHR ''.'', sp0, stri ''Compare''],
      seqs [plus digit, ch CHR ''.'', sp0, stri ''Comparison''],
      seqs [plus digit, ch CHR ''.'', sp0, star (notCh [CHR 0x0A]), sps, vsDot, sps]]"

text \<open>The penalty of the first header pattern that matches; no other pattern is tried then.\<close>

fun headerLatePenalty :: "rx list \<Rightarrow> string \<Rightarrow> real" where
  "headerLatePenalty [] chunkText = 0"
| "headerLatePenalty (headerPattern # ps) chunkText =
     (case rx_match0 headerPattern chunkText of
        None \<Rightarrow> headerLatePenalty ps chunkText
      | Some m \<Rightarrow>
          (case indexOfFrom 0 chunkText m of
             None \<Rightarrow> 0
           | Some headerPosition \<Rightarrow>
               if real headerPosition / real (length chunkText) > 0.5 then - 1.2
               else if real headerPosition / real (length chunkText) > 0.3 then - 0.6
               else 0))"

definition comparisonIntroPenaltyOf :: "docVector list \<Rightarrow> docVector \<Rightarrow> real" where
  "comparisonIntroPenaltyOf allVectors v =
     (let chunkText = textOf (chunk v);
          hasAnyComparisonTerms =
            (hasContrast chunkText \<or> someTest explicitDualEntityPatterns chunkText
             \<or> rx_test (bounded (stri ''difference'')) (toLowerCase chunkText)
             \<or> rx_test (Seq WordB (stri ''compare'')) (toLowerCase chunkText)
             \<or> rx_test vsPattern (toLowerCase chunkText))
      in (if positionLe allVectors v 0.15 \<and> \<not> hasAnyComparisonTerms then - 0.3 else 0)
         + headerLatePenalty headerPatterns chunkText)"

subsection \<open>The loop over the vectors to search\<close>

text \<open>The context of one request: the query, the vectors the comparison filters have left,
  and the embedding of the query.\<close>

definition scoreChunk :: "string \<Rightarrow> docVector list \<Rightarrow> real list \<Rightarrow> docVector \<Rightarrow> error + candidate option" where
  "scoreChunk query allVectors queryEmbedding v =
     (case cosineSimilarity queryEmbedding (embedding v) of
        Inl e \<Rightarrow> Inl e
      | Inr sim \<Rightarrow>
          (let hasKw = (foundWords (queryWordsOf query) v > 0) in
           if \<not> hasKw \<and> sim < 0.80 then Inr None
           else
             let cov = keywordCoverageOf (queryWordsOf query) v;
                 pos = positionBonusOf (isDefinition query) allVectors v;
                 expl = (if length (detectIntentKeywords query) > 0
                         then explicitTermBonusOf (detectIntentKeywords query) v else 0);
                 defB = (case definitionSubject query of
                           Some subject \<Rightarrow> definitionBonusOf subject allVectors v | None \<Rightarrow> 0);
                 defP = (case definitionSubject query of
                           Some subject \<Rightarrow> definitionPenaltyOf subject allVectors v | None \<Rightarrow> 0);
                 cmpB = (if comparisonScoring query then comparisonBonusOf (textOf (chunk v)) else 0);
                 cmpP = (if comparisonScoring query then comparisonIntroPenaltyOf allVectors v else 0)
             in Inr (Some \<lparr> vector = v, semanticSimilarity = sim, hasQueryKeywords = hasKw,
                              keywordCoverage = cov, positionBonus = pos, explicitTermBonus = expl,
                              definitionBonus = defB, comparisonBonus = cmpB,
                              comparisonIntroPenalty = cmpP,
                              finalScore = sim + cov * 0.3 + pos + expl + defB + defP + cmpB + cmpP \<rparr>)))"

fun scoreAll :: "string \<Rightarrow> docVector list \<Rightarrow> real list \<Rightarrow> docVector list \<Rightarrow> error + candidate list" where
  "scoreAll query allVectors queryEmbedding [] = Inr []"
| "scoreAll query allVectors queryEmbedding (v # vs) =
     (case scoreChunk query allVectors queryEmbedding v of
        Inl e \<Rightarrow> Inl e
      | Inr None \<Rightarrow> scoreAll query allVectors queryEmbedding vs
      | Inr (Some c) \<Rightarrow>
          (case scoreAll query allVectors queryEmbedding vs of
             Inl e \<Rightarrow> Inl e
           | Inr cs \<Rightarrow> Inr (c # cs)))"

section \<open>Step 7: the two definition tiers and the synthesis fallback\<close>

subsection \<open>Hard exclusion\<close>

definition architectureIndicators :: "rx list" where
  "architectureIndicators =
     [bounded (phrase [''not'', ''embedded'']),
      bounded (phrase [''sits'', ''on'', ''top'']),
      bounded (phrase [''connects'', ''to'']),
      bounded (phrase [''integrates'', ''with'']),
      bounded (phrase [''standalone'', ''platform'', ''that'']),
      bounded (phrase [''standalone'', ''that'']),
      bounded (phrase [''sits'', ''on'', ''top'', ''of'']),
      bounded (seqs [stri ''positioned'', sps, stris [''on'', ''above'', ''over'']]),
      bounded (seqs [stri ''layer'', sps, stris [''on'', ''above'', ''over'']]),
      bounded (seqs [stri ''architecture'', sps, stris [''of'', ''for'']]),
      bounded (seqs [stri ''how'', sps, star dot, sps, stri ''works'']),
      bounded (seqs [stri ''how'', sps, star dot, sps, stri ''integrates'']),
      bounded (seqs [stri ''integration'', sps, stris [''with'', ''to'', ''into'']]),
      bounded (seqs [stri ''deployed'', sps, stris [''on'', ''to'', ''in'']]),
      bounded (phrase [''runs'', ''on'', ''top'', ''of'']),
      bounded (phrase [''built'', ''on'', ''top'', ''of''])]"

definition comparisonExplanationIndicators :: "rx list" where
  "comparisonExplanationIndicators =
     [bounded (phrase [''difference'', ''between'']),
      bounded (phrase [''differences'', ''between'']),
      vsPattern,
      bounded (stri ''versus''),
      bounded (phrase [''in'', ''simple'', ''terms'']),
      bounded (phrase [''compared'', ''to'']),
      bounded (seqs [stri ''comparison'', sps, stris [''of'', ''between'', ''with'']]),
      bounded (stri ''agentic''),
      bounded (phrase [''how'', ''it'', ''works'']),
      bounded (seqs [stri ''how'', sps, star dot, sps, stri ''works'']),
      bounded (stri ''capabilities''),
      bounded (seqs [stri ''use'', sps, stri ''case'', opt (chi CHR ''s'')]),
      bounded (seqs [stri ''what'', sps, star dot, sps, stri ''does'']),
      bounded (seqs [stri ''what'', sps, star dot, sps, phrase [''can'', ''do'']]),
      bounded (seqs [stri ''feature'', opt (chi CHR ''s''), sps, stris [''of'', ''include'']]),
      bounded (seqs [stri ''benefit'', opt (chi CHR ''s''), sps, stris [''of'', ''include'']]),
      bounded (seqs [stri ''advantage'', opt (chi CHR ''s''), sps, stris [''of'', ''over'']]),
      bounded (seqs [stri ''disadvantage'', opt (chi CHR ''s''), sps, stri ''of'']),
      bounded (phrase [''pros'', ''and'', ''cons'']),
      bounded (seqs [stri ''why'', sps, stris [''use'', ''choose'']]),
      bounded (phrase [''when'', ''to'', ''use'']),
      bounded (phrase [''example'', ''of'']),
      bounded (seqs [stri ''example'', opt (chi CHR ''s''), sps, stris [''include'', ''are'']])]"

definition isBlockedForDefinition :: "string \<Rightarrow> bool" where
  "isBlockedForDefinition chunkText =
     (someTest architectureIndicators chunkText \<or> someTest comparisonExplanationIndicators chunkText)"

subsection \<open>Tier 1 and tier 2\<close>

text \<open>\<open>new RegExp(`\\b${escapedSubject}\\s+is\\s+(a|an|the)\\s+`, 'i')\<close>\<close>

definition tier1Pattern :: "string \<Rightarrow> rx" where
  "tier1Pattern subject = seqs [WordB, isA subject, sps]"

definition isTier1Chunk :: "string \<Rightarrow> docVector list \<Rightarrow> docVector \<Rightarrow> bool" where
  "isTier1Chunk subject allVectors v =
     (chunkPosition allVectors v \<le> 0.40
      \<and> rx_test (tier1Pattern subject) (textOf (chunk v))
      \<and> \<not> isBlockedForDefinition (textOf (chunk v)))"

definition tier1Candidates :: "string \<Rightarrow> docVector list \<Rightarrow> candidate list \<Rightarrow> candidate list" where
  "tier1Candidates subject allVectors candidates =
     filter (\<lambda>c. isTier1Chunk subject allVectors (vector c)) candidates"

definition tier2Patterns :: "string \<Rightarrow> rx list" where
  "tier2Patterns subject =
     [bounded (seqs [stri subject, sps, phrase [''is'', ''a'', ''platform'', ''that'']]),
      bounded (seqs [stri subject, sps, phrase [''is'', ''a'', ''solution'', ''that'']]),
      bounded (seqs [stri subject, sps, phrase [''is'', ''a'', ''tool'', ''that'']]),
      bounded (seqs [stri subject, sps, phrase [''is'', ''a'', ''system'', ''that'']]),
      bounded (seqs [stri subject, sps, phrase [''is'', ''a'', ''software'', ''that'']]),
      bounded (seqs [phrase [''overview'', ''of''], sps, stri subject]),
      bounded (seqs [phrase [''introduction'', ''to''], sps, stri subject]),
      bounded (seqs [stri ''introducing'', sps, stri subject]),
      seqs [phrase [''this'', ''document'', ''provides''], star (notCh ''.''), stri subject],
      seqs [phrase [''this'', ''guide''], sps, stris [''provides'', ''covers'', ''explains''],
            star (notCh ''.''), stri subject],
      bounded (seqs [stri ''about'', sps, stri subject]),
      seqs [WordB, phrase [''what'', ''is''], sps, stri subject, star (notCh ''?''), ch CHR ''?'',
            star anyCh, stri subject, sps, stri ''is'', sps]]"

definition isTier2Chunk :: "string \<Rightarrow> docVector list \<Rightarrow> docVector \<Rightarrow> bool" where
  "isTier2Chunk subject allVectors v =
     (chunkPosition allVectors v \<le> 0.25
      \<and> \<not> isBlockedForDefinition (textOf (chunk v))
      \<and> list_ex (\<lambda>pattern.
            case rx_index pattern (textOf (chunk v)) of
              None \<Rightarrow> False
            | Some i \<Rightarrow> real i / real (length (textOf (chunk v))) \<le> 0.30)
          (tier2Patterns subject))"

definition tier2Candidates :: "string \<Rightarrow> docVector list \<Rightarrow> candidate list \<Rightarrow> candidate list" where
  "tier2Candidates subject allVectors candidates =
     dedupBy (\<lambda>c. (chunkIndex (chunk (vector c)), sourceFile (chunk (vector c)))) []
       (filter (\<lambda>c. isTier2Chunk subject allVectors (vector c)) candidates)"

subsection \<open>Synthesis: the intro chunk\<close>

text \<open>The vectors are sorted by document name and chunk index.  The names are compared by
  \<open>String.localeCompare\<close>, the collation of the host's locale: it is a parameter \<open>le\<close> here.\<close>

definition byPosition :: "(string \<Rightarrow> string \<Rightarrow> bool) \<Rightarrow> docVector \<Rightarrow> docVector \<Rightarrow> bool" where
  "byPosition le a b =
     (if sourceFile (chunk a) \<noteq> sourceFile (chunk b) then le (sourceFile (chunk a)) (sourceFile (chunk b))
      else chunkIndex (chunk a) \<le> chunkIndex (chunk b))"

definition archIndicatorCount :: "string \<Rightarrow> nat" where
  "archIndicatorCount chunkText = length (filter (\<lambda>p. rx_test p chunkText) architectureIndicators)"

definition introEligible :: "string \<Rightarrow> docVector list \<Rightarrow> docVector \<Rightarrow> bool" where
  "introEligible subject allVectors v =
     (chunkPosition allVectors v \<le> 0.30 \<and> rx_test (bounded (stri subject)) (textOf (chunk v)))"

fun pickIntroChunk :: "string \<Rightarrow> docVector list \<Rightarrow> docVector option \<Rightarrow> docVector list \<Rightarrow> docVector option" where
  "pickIntroChunk subject allVectors bestIntroChunk [] = bestIntroChunk"
| "pickIntroChunk subject allVectors bestIntroChunk (v # vs) =
     (if \<not> introEligible subject allVectors v then pickIntroChunk subject allVectors bestIntroChunk vs
      else if chunkIndex (chunk v) = 0 then Some v
      else if archIndicatorCount (textOf (chunk v)) \<le> 2
        then pickIntroChunk subject allVectors
               (case bestIntroChunk of None \<Rightarrow> Some v | Some b \<Rightarrow> Some b) vs
      else pickIntroChunk subject allVectors bestIntroChunk vs)"

definition bestIntroChunk :: "(string \<Rightarrow> string \<Rightarrow> bool) \<Rightarrow> string \<Rightarrow> docVector list \<Rightarrow> docVector list \<Rightarrow> docVector option" where
  "bestIntroChunk le subject allVectors toSearch =
     pickIntroChunk subject allVectors None (sortBy (byPosition le) toSearch)"

subsection \<open>Synthesis: category, purpose, domain keywords\<close>

definition platformWords :: "string list" where
  "platformWords = [''platform'', ''software'', ''solution'']"

definition categoryPatterns :: "rx list" where
  "categoryPatterns =
     [bounded (phrase [''process'', ''intelligence'']),
      bounded (phrase [''process'', ''mining'']),
      bounded (phrase [''execution'', ''management'']),
      bounded (seqs [phrase [''business'', ''process''], sps, stris [''management'', ''automation'', ''optimization'']]),
      bounded (seqs [stri ''enterprise'', sps, stris platformWords]),
      bounded (seqs [stri ''analytics'', sps, stris platformWords]),
      bounded (seqs [stri ''data'', sps, stris [''platform'', ''analytics'']]),
      bounded (seqs [stri ''automation'', sps, stris platformWords]),
      bounded (seqs [stri ''intelligence'', sps, stris platformWords]),
      bounded (stri ''platform''), bounded (stri ''software''), bounded (stri ''solution''),
      bounded (stri ''tool''), bounded (stri ''system'')]"

fun pushNew :: "string list \<Rightarrow> string \<Rightarrow> string list" where
  "pushNew xs x = (if x \<in> set xs then xs else xs @ [x])"

definition foundCategories :: "string \<Rightarrow> string list" where
  "foundCategories chunkText =
     foldl (\<lambda>found pattern.
              case rx_match0 pattern chunkText of
                None \<Rightarrow> found
              | Some m \<Rightarrow> pushNew found (trim (toLowerCase m)))
       [] categoryPatterns"

definition categoryOf :: "string \<Rightarrow> string" where
  "categoryOf chunkText =
     (case sortBy (\<lambda>a b. length a \<ge> length b) (foundCategories chunkText) of
        [] \<Rightarrow> []
      | primaryCategory # others \<Rightarrow>
          (case filter (\<lambda>c. \<not> strIncludes primaryCategory c \<and> \<not> strIncludes c primaryCategory)
                  (take 2 others) of
             [] \<Rightarrow> primaryCategory
           | secondary # further \<Rightarrow>
               if length primaryCategory < 25 then primaryCategory @ '' and '' @ secondary
               else primaryCategory))"

text \<open>The purpose patterns with the number of their groups; the text of a purpose is the
  group \<open>m[m.length > 2 ? 2 : 1] || m[1]\<close>.\<close>

definition orgs4 :: rx where
  "orgs4 = alts [Seq (stri ''organization'') (opt (chi CHR ''s'')), Seq (stri ''companie'') (opt (chi CHR ''s'')),
                Seq (stri ''businesse'') (opt (chi CHR ''s'')), Seq (stri ''enterprise'') (opt (chi CHR ''s''))]"

definition orgs3 :: rx where
  "orgs3 = alts [Seq (stri ''organization'') (opt (chi CHR ''s'')), Seq (stri ''companie'') (opt (chi CHR ''s'')),
                Seq (stri ''businesse'') (opt (chi CHR ''s''))]"

definition toEnd :: "nat \<Rightarrow> rx" where
  "toEnd k = Grp k (plus (notCh ''.''))"

definition purposePatterns :: "(rx \<times> nat) list" where
  "purposePatterns =
     [(seqs [stri ''help'', opt (chi CHR ''s''), sps, Grp 1 orgs4, sps, toEnd 2], 2),
      (seqs [stri ''enable'', opt (chi CHR ''s''), sps, Grp 1 orgs4, sps, stri ''to'', sps, toEnd 2], 2),
      (seqs [stri ''allow'', opt (chi CHR ''s''), sps, Grp 1 orgs4, sps, stri ''to'', sps, toEnd 2], 2),
      (seqs [phrase [''used'', ''to''], sps, toEnd 1], 1),
      (seqs [phrase [''designed'', ''to''], sps, toEnd 1], 1),
      (seqs [stri ''provide'', opt (chi CHR ''s''), sps, Grp 1 (Rep 1 None False (notCh ''.'')), sps,
             Grp 2 (stris [''for'', ''to'']), sps, Grp 3 orgs3], 3),
      (seqs [stri ''analyze'', opt (chi CHR ''s''), sps, toEnd 1], 1),
      (seqs [phrase [''understand'', ''and''], sps, toEnd 1], 1),
      (seqs [stri ''improve'', sps, toEnd 1], 1),
      (seqs [stri ''optimize'', sps, toEnd 1], 1),
      (seqs [phrase [''covering'', ''its''], sps, toEnd 1], 1)]"

definition purposeTextOf :: "rx \<times> nat \<Rightarrow> string \<Rightarrow> string option" where
  "purposeTextOf p chunkText =
     (case rx_exec (fst p) chunkText of
        None \<Rightarrow> None
      | Some (i, t) \<Rightarrow>
          (let g = (case map_of (caps t) (if snd p + 1 > 2 then 2 else 1) of
                      None \<Rightarrow> map_of (caps t) 1
                    | Some u \<Rightarrow> if u = [] then map_of (caps t) 1 else Some u)
           in case g of
                None \<Rightarrow> None
              | Some purposeText \<Rightarrow>
                  if purposeText = [] then None
                  else Some (trim (rx_replace (seqs [ch CHR ''.'', sp0, Eol]) []
                                    (rx_replace (seqs [ch CHR '','', sp0, Eol]) []
                                       (collapseWs False purposeText))))))"

fun purposeOf :: "(rx \<times> nat) list \<Rightarrow> string \<Rightarrow> string" where
  "purposeOf [] chunkText = []"
| "purposeOf (p # ps) chunkText =
     (case purposeTextOf p chunkText of
        None \<Rightarrow> purposeOf ps chunkText
      | Some purposeText \<Rightarrow>
          if length purposeText \<ge> 10 \<and> length purposeText \<le> 150 then purposeText
          else purposeOf ps chunkText)"

definition domainPatterns :: "rx list" where
  "domainPatterns =
     [bounded (phrase [''process'', ''mining'']),
      bounded (phrase [''process'', ''intelligence'']),
      bounded (phrase [''execution'', ''management'']),
      bounded (phrase [''operational'', ''data'']),
      bounded (phrase [''enterprise'', ''data'']),
      bounded (seqs [phrase [''business'', ''process''], opt (stri ''es'')]),
      bounded (seqs [stri ''event'', sps, stri ''log'', opt (chi CHR ''s'')]),
      bounded (stri ''ERP''), bounded (stri ''CRM''), bounded (stri ''SAP''),
      bounded (stri ''Salesforce''), bounded (stri ''workflow''), bounded (stri ''automation''),
      bounded (stri ''optimization''), bounded (stri ''analytics''), bounded (stri ''AI''),
      bounded (phrase [''machine'', ''learning''])]"

definition domainKeywords :: "string \<Rightarrow> string list" where
  "domainKeywords chunkText =
     foldl (\<lambda>found pattern.
              case rx_match0 pattern chunkText of
                None \<Rightarrow> found
              | Some m \<Rightarrow> pushNew found (toLowerCase m))
       [] domainPatterns"

definition categoryPartOf :: "string \<Rightarrow> string" where
  "categoryPartOf chunkText =
     (let category = categoryOf chunkText in
      if category \<noteq> [] then category
      else case filter (\<lambda>k. strIncludes k ''process'' \<or> strIncludes k ''intelligence''
                            \<or> strIncludes k ''mining'' \<or> strIncludes k ''analytics'')
                  (domainKeywords chunkText) of
             [] \<Rightarrow> ''platform''
           | relevantKeywords \<Rightarrow> join '' and '' (take 2 relevantKeywords) @ '' platform'')"

text \<open>\<open>/^(helps?|enables?|allows?|provides?|analyzes?|understand|improve|optimize)/i\<close>\<close>

definition startsWithVerb :: rx where
  "startsWithVerb =
     Seq Bol (alts [Seq (stri ''help'') (opt (chi CHR ''s'')), Seq (stri ''enable'') (opt (chi CHR ''s'')),
                    Seq (stri ''allow'') (opt (chi CHR ''s'')), Seq (stri ''provide'') (opt (chi CHR ''s'')),
                    Seq (stri ''analyze'') (opt (chi CHR ''s'')), stri ''understand'', stri ''improve'',
                    stri ''optimize''])"

definition purposePartOf :: "string \<Rightarrow> string" where
  "purposePartOf chunkText =
     (let purpose = purposeOf purposePatterns chunkText in
      if purpose \<noteq> []
      then (if \<not> rx_test startsWithVerb (toLowerCase purpose)
            then ''helps organizations '' @ toLowerCase purpose else toLowerCase purpose)
      else
        let processKeywords = filter (\<lambda>k. strIncludes k ''process'' \<or> strIncludes k ''business'')
                                (domainKeywords chunkText);
            dataKeywords = filter (\<lambda>k. strIncludes k ''data'' \<or> strIncludes k ''event'')
                             (domainKeywords chunkText)
        in if length processKeywords > 0 \<or> length dataKeywords > 0
           then ''analyzes '' @ (case dataKeywords of [] \<Rightarrow> ''enterprise data'' | d # ds \<Rightarrow> d)
                @ '' to help organizations understand and improve ''
                @ (case processKeywords of [] \<Rightarrow> ''business processes'' | p # ps \<Rightarrow> p)
           else ''helps organizations analyze and optimize their operations'')"

definition synthesizedAnswer :: "string \<Rightarrow> string \<Rightarrow> string" where
  "synthesizedAnswer subject chunkText =
     subject @ '' is a '' @ categoryPartOf chunkText @ '' that '' @ purposePartOf chunkText @ ''.''"

subsection \<open>The stage\<close>

definition synthesizedResponse :: "string \<Rightarrow> docVector \<Rightarrow> response" where
  "synthesizedResponse subject v =
     Json (Text (synthesizedAnswer subject (textOf (chunk v)))) (sourceFile (chunk v)) 0.70
       (Some ''Definition synthesized due to absence of explicit definition sentence'')"

definition noDefinitionResponse :: "candidate list \<Rightarrow> response" where
  "noDefinitionResponse candidates =
     Json (Text ''No clear definition found in the provided documents.'')
       (case candidates of [] \<Rightarrow> [] | c # cs \<Rightarrow> sourceFile (chunk (vector c))) 0
       (Some ''Definition query could not be answered - no explicit definition, soft definition, or synthesizable intro content found'')"

definition definitionStage ::
  "(string \<Rightarrow> string \<Rightarrow> bool) \<Rightarrow> string \<Rightarrow> docVector list \<Rightarrow> candidate list \<Rightarrow> response + candidate list" where
  "definitionStage le query allVectors candidates =
     (case definitionSubject query of
        None \<Rightarrow> Inr candidates
      | Some subject \<Rightarrow>
          if length (tier1Candidates subject allVectors candidates) > 0
            then Inr (tier1Candidates subject allVectors candidates)
          else if length (tier2Candidates subject allVectors candidates) > 0
            then Inr (tier2Candidates subject allVectors candidates)
          else case bestIntroChunk le subject allVectors (vectorsToSearch query allVectors) of
                 Some v \<Rightarrow> Inl (synthesizedResponse subject v)
               | None \<Rightarrow> Inl (noDefinitionResponse candidates))"

section \<open>Steps 7.5 to 12: usage filters, ranking, topic coverage, the response\<close>

subsection \<open>Data-usage and AI-usage filters\<close>

definition dataUsagePatterns :: "rx list" where
  "dataUsagePatterns =
     [bounded (phrase [''what'', ''data'']),
      bounded (phrase [''data'', ''does'']),
      seqs [WordB, usesPattern, sps, stri ''data'', WordB],
      bounded (phrase [''data'', ''used'', ''by'']),
      bounded (phrase [''what'', ''kind'', ''of'', ''data'']),
      bounded (phrase [''type'', ''of'', ''data'']),
      bounded (seqs [stri ''data'', sps, stri ''source'', opt (chi CHR ''s'')]),
      bounded (seqs [stri ''data'', sps, stri ''input'', opt (chi CHR ''s'')])]"

definition isDataUsageQuery :: "string \<Rightarrow> bool" where
  "isDataUsageQuery query = (\<not> isDefinition query \<and> someTest dataUsagePatterns query)"

definition dataRelatedTerms :: "rx list" where
  "dataRelatedTerms =
     [bounded (seqs [stri ''event'', sps, stri ''log'', opt (chi CHR ''s'')]),
      bounded (phrase [''event'', ''data'']),
      bounded (seqs [stri ''case'', sps, stri ''identifier'', opt (chi CHR ''s'')]),
      bounded (phrase [''case'', ''id'']),
      bounded (seqs [stri ''activit'', stris [''y'', ''ies'']]),
      bounded (seqs [stri ''timestamp'', opt (chi CHR ''s'')]),
      bounded (phrase [''enterprise'', ''data'']),
      bounded (phrase [''operational'', ''data'']),
      bounded (phrase [''transaction'', ''data'']),
      bounded (phrase [''process'', ''data'']),
      bounded (seqs [stri ''data'', sps, stri ''extract'', opt (chi CHR ''s'')]),
      bounded (seqs [stri ''data'', sps, stri ''connector'', opt (chi CHR ''s'')])]"

text \<open>\<open>/\bwhat\s+is\s+\w+\?\s*$/im\<close>, and the intro indicators of the two filters.\<close>

definition questionLine :: rx where
  "questionLine = seqs [WordB, phrase [''what'', ''is''], sps, plus (Sym isWordCh), ch CHR ''?'', sp0, EolM]"

definition introChunkIndicators :: "rx list" where
  "introChunkIndicators =
     [bounded (phrase [''this'', ''document'', ''provides'']),
      bounded (phrase [''platform'', ''overview'']),
      bounded (phrase [''detailed'', ''understanding'']),
      bounded (phrase [''covering'', ''its'', ''purpose'']),
      questionLine]"

text \<open>The last indicator is \<open>/^celonis\s+[\<dots>-]\s+platform\s+overview/im\<close>; the class also holds
  an en dash, which is no code unit of this model.\<close>

definition introChunkIndicatorsAI :: "rx list" where
  "introChunkIndicatorsAI =
     introChunkIndicators
     @ [seqs [BolM, stri ''celonis'', sps, ch CHR ''-'', sps, phrase [''platform'', ''overview'']]]"

definition usageFilter :: "rx list \<Rightarrow> rx list \<Rightarrow> candidate list \<Rightarrow> candidate list" where
  "usageFilter terms intro candidatesToRank =
     (let related = filter (\<lambda>c. someTest terms (textOf (chunk (vector c)))
                              \<and> \<not> someTest intro (textOf (chunk (vector c))))
                      candidatesToRank
      in if length related > 0 then related else candidatesToRank)"

definition aiUsagePatterns :: "rx list" where
  "aiUsagePatterns =
     [seqs [WordB, usesPattern, sps, stri ''ai'', WordB],
      bounded (phrase [''ai'', ''usage'']),
      bounded (phrase [''artificial'', ''intelligence'']),
      bounded (phrase [''machine'', ''learning'']),
      seqs [WordB, phrase [''ml'', ''capabilit'']],
      seqs [WordB, phrase [''ai'', ''capabilit'']],
      bounded (seqs [stri ''how'', sps, star dot, sps, stri ''ai'']),
      bounded (phrase [''what'', ''ai''])]"

definition isAIUsageQuery :: "string \<Rightarrow> bool" where
  "isAIUsageQuery query =
     (\<not> isDefinition query \<and> \<not> isDataUsageQuery query \<and> someTest aiUsagePatterns query)"

definition aiRelatedTerms :: "rx list" where
  "aiRelatedTerms =
     [bounded (stri ''ai''),
      bounded (phrase [''artificial'', ''intelligence'']),
      bounded (phrase [''machine'', ''learning'']),
      bounded (stri ''ml''),
      bounded (seqs [stri ''predict'', opt (stris [''s'', ''ion'', ''ive'', ''ing''])]),
      bounded (seqs [stri ''pattern'', opt (chi CHR ''s'')]),
      bounded (phrase [''root'', ''cause'']),
      bounded (seqs [stri ''anomal'', stris [''y'', ''ies'']]),
      bounded (stri ''automation''),
      seqs [WordB, stri ''algorithm''],
      bounded (seqs [stri ''model'', opt (stris [''s'', ''ing''])]),
      bounded (seqs [stri ''insight'', opt (chi CHR ''s'')])]"

definition usageFilters :: "string \<Rightarrow> candidate list \<Rightarrow> candidate list" where
  "usageFilters query candidatesToRank =
     (let afterData = (if isDataUsageQuery query
                       then usageFilter dataRelatedTerms introChunkIndicators candidatesToRank
                       else candidatesToRank)
      in if isAIUsageQuery query then usageFilter aiRelatedTerms introChunkIndicatorsAI afterData
         else afterData)"

subsection \<open>Step 8: the ranking\<close>

definition ranked :: "string \<Rightarrow> candidate list \<Rightarrow> candidate list" where
  "ranked query candidatesToRank =
     sortBy (\<lambda>a b. finalScore a \<ge> finalScore b) (usageFilters query candidatesToRank)"

subsection \<open>Topic coverage\<close>

definition topicStopWords :: "string list" where
  "topicStopWords =
     [''what'', ''how'', ''where'', ''when'', ''why'', ''who'', ''which'', ''whom'',
      ''is'', ''are'', ''was'', ''were'', ''be'', ''been'', ''being'',
      ''have'', ''has'', ''had'', ''do'', ''does'', ''did'', ''done'',
      ''the'', ''a'', ''an'', ''and'', ''or'', ''but'', ''in'', ''on'', ''at'', ''to'', ''for'',
      ''of'', ''with'', ''by'', ''from'', ''as'', ''into'', ''through'', ''during'',
      ''can'', ''could'', ''will'', ''would'', ''shall'', ''should'', ''may'', ''might'', ''must'',
      ''this'', ''that'', ''these'', ''those'', ''it'', ''its'',
      ''i'', ''you'', ''he'', ''she'', ''we'', ''they'', ''me'', ''him'', ''her'', ''us'', ''them'',
      ''my'', ''your'', ''his'', ''her'', ''our'', ''their'',
      ''about'', ''after'', ''before'', ''between'', ''under'', ''over'', ''above'', ''below'',
      ''all'', ''any'', ''both'', ''each'', ''few'', ''more'', ''most'', ''other'', ''some'',
      ''such'', ''no'', ''not'', ''only'', ''same'', ''so'', ''than'', ''too'', ''very'',
      ''just'', ''also'', ''now'', ''here'', ''there'', ''then'', ''once'',
      ''explain'', ''tell'', ''show'', ''give'', ''find'', ''get'', ''make'', ''know'',
      ''actually'', ''really'', ''please'', ''help'']"

definition topicWordsOf :: "string \<Rightarrow> string list" where
  "topicWordsOf query =
     (let entityLower = (case extractPrimaryEntity query of Some e \<Rightarrow> toLowerCase e | None \<Rightarrow> []) in
      filter (\<lambda>word. toLowerCase word \<notin> set topicStopWords
                    \<and> \<not> (entityLower \<noteq> [] \<and> toLowerCase word = toLowerCase entityLower)
                    \<and> \<not> length (toLowerCase word) < 3)
        (queryWordsOf query))"

text \<open>\<open>w.replace(/s$/, '').replace(/es$/, '').replace(/ing$/, '').replace(/ed$/, '')\<close>\<close>

definition topicStem :: "string \<Rightarrow> string" where
  "topicStem w =
     rx_replace (Seq (str ''ed'') Eol) []
       (rx_replace (Seq (str ''ing'') Eol) []
          (rx_replace (Seq (str ''es'') Eol) [] (rx_replace (Seq (str ''s'') Eol) [] w)))"

definition topicWordFound :: "string \<Rightarrow> string \<Rightarrow> bool" where
  "topicWordFound allChunksText topicWord =
     (rx_test (bounded (stri topicWord)) allChunksText
      \<or> (length (topicStem topicWord) > 3 \<and> rx_test (Seq WordB (stri (topicStem topicWord))) allChunksText))"

definition allChunksTextOf :: "docVector list \<Rightarrow> string \<Rightarrow> string" where
  "allChunksTextOf toSearch name =
     join '' '' (map (\<lambda>v. normalizeTextForMatching (textOf (chunk v)))
                  (filter (\<lambda>v. sourceFile (chunk v) = name) toSearch))"

definition topicCoverageFails :: "string \<Rightarrow> docVector list \<Rightarrow> candidate \<Rightarrow> bool" where
  "topicCoverageFails query allVectors bestCandidate =
     (\<not> isDefinition query \<and> length (queryWordsOf query) \<ge> 2
      \<and> length (topicWordsOf query) > 0
      \<and> length (filter (topicWordFound (allChunksTextOf (vectorsToSearch query allVectors)
                                          (sourceFile (chunk (vector bestCandidate)))))
                  (topicWordsOf query)) = 0
      \<and> \<not> keywordCoverage bestCandidate \<ge> 0.66
      \<and> \<not> semanticSimilarity bestCandidate \<ge> 0.85)"

definition missingTopicWords :: "string \<Rightarrow> docVector list \<Rightarrow> candidate \<Rightarrow> string list" where
  "missingTopicWords query allVectors bestCandidate =
     filter (\<lambda>w. \<not> topicWordFound (allChunksTextOf (vectorsToSearch query allVectors)
                                      (sourceFile (chunk (vector bestCandidate)))) w)
       (topicWordsOf query)"

definition noTopicResponse :: "string \<Rightarrow> docVector list \<Rightarrow> candidate \<Rightarrow> response" where
  "noTopicResponse query allVectors bestCandidate =
     Json (Text (''No information about '' @ [CHR 0x22]
                 @ join '', '' (missingTopicWords query allVectors bestCandidate)
                 @ [CHR 0x22] @ '' found in the documents''
                 @ (case extractPrimaryEntity query of Some e \<Rightarrow> '' about '' @ e | None \<Rightarrow> []) @ ''.''))
       (sourceFile (chunk (vector bestCandidate))) 0
       (Some (''The document contains information about ''
              @ (case extractPrimaryEntity query of Some e \<Rightarrow> e | None \<Rightarrow> ''the subject'')
              @ '' but not about the specific topic: ''
              @ join '', '' (missingTopicWords query allVectors bestCandidate)))"

subsection \<open>Steps 9 to 12\<close>

text \<open>\<open>Math.min(1.0, finalScore / 3.1)\<close> and \<open>Math.round(confidence * 100) / 100\<close>.\<close>

definition confidenceOf :: "real \<Rightarrow> real" where
  "confidenceOf score = min 1.0 (score / 3.1)"

definition round2 :: "real \<Rightarrow> real" where
  "round2 x = of_int \<lfloor>x * 100 + 1 / 2\<rfloor> / 100"

definition noDocumentsResponse :: response where
  "noDocumentsResponse =
     Json (Text ''No documents have been uploaded yet. Please upload documents first before searching.'')
       '''' 0 None"

definition noRelevantResponse :: response where
  "noRelevantResponse =
     Json (Text ''No relevant information found in the uploaded documents.'') '''' 0 None"

definition rankedResponse :: "string \<Rightarrow> candidate \<Rightarrow> response" where
  "rankedResponse query bestCandidate =
     Json (Snippet (textOf (chunk (vector bestCandidate))) (queryWordsOf query))
       (sourceFile (chunk (vector bestCandidate)))
       (round2 (confidenceOf (finalScore bestCandidate))) None"

definition finalStage :: "string \<Rightarrow> docVector list \<Rightarrow> candidate list \<Rightarrow> response" where
  "finalStage query allVectors rankedCandidates =
     (case rankedCandidates of
        [] \<Rightarrow> noRelevantResponse
      | bestCandidate # others \<Rightarrow>
          if topicCoverageFails query allVectors bestCandidate
          then noTopicResponse query allVectors bestCandidate
          else rankedResponse query bestCandidate)"

subsection \<open>The route\<close>

text \<open>\<open>router.post('/')\<close>: the query, the vectors of the store, and what \<open>getEmbedding(query)\<close>
  gives (\<open>None\<close> when it throws).  \<open>le\<close> is the collation of document names.  An exception
  anywhere becomes the status 500.\<close>

definition search :: "(string \<Rightarrow> string \<Rightarrow> bool) \<Rightarrow> string \<Rightarrow> docVector list \<Rightarrow> real list option \<Rightarrow> response" where
  "search le query store emb =
     (if length (trim query) = 0 then BadRequest
      else if length store = 0 then noDocumentsResponse
      else case comparisonStages query store of
          Inl r \<Rightarrow> r
        | Inr allVectors \<Rightarrow>
            (case emb of
               None \<Rightarrow> ServerError
             | Some queryEmbedding \<Rightarrow>
                 (case scoreAll query allVectors queryEmbedding (vectorsToSearch query allVectors) of
                    Inl e \<Rightarrow> ServerError
                  | Inr candidates \<Rightarrow>
                      (case definitionStage le query allVectors candidates of
                         Inl r \<Rightarrow> r
                       | Inr candidatesToRank \<Rightarrow>
                           finalStage query allVectors (ranked query candidatesToRank)))))"

section \<open>A collation, and the stores and queries of the examples\<close>

text \<open>The order of the code units of two names.  On names of lower-case letters, digits and a
  dot, as the examples use them, \<open>localeCompare\<close> orders two names that differ as this order
  does.\<close>

fun lexLe :: "nat list \<Rightarrow> nat list \<Rightarrow> bool" where
  "lexLe [] ys = True"
| "lexLe (x # xs) [] = False"
| "lexLe (x # xs) (y # ys) = (x < y \<or> (x = y \<and> lexLe xs ys))"

definition codeUnitLe :: "string \<Rightarrow> string \<Rightarrow> bool" where
  "codeUnitLe a b = lexLe (map code a) (map code b)"

text \<open>A vector of the store: the text of its chunk, the name of its document, the index of the
  chunk and the embedding.\<close>

definition mkVector :: "string \<Rightarrow> string \<Rightarrow> nat \<Rightarrow> real list \<Rightarrow> docVector" where
  "mkVector t name i e =
     \<lparr>chunk = \<lparr>textOf = t, sourceFile = name, chunkIndex = i, startIndex = 0, endIndex = length t,
                fileSize = None\<rparr>,
      embedding = e\<rparr>"

text \<open>A scored candidate, field by field.\<close>

definition mkCandidate ::
  "docVector \<Rightarrow> real \<Rightarrow> bool \<Rightarrow> real \<Rightarrow> real \<Rightarrow> real \<Rightarrow> real \<Rightarrow> real \<Rightarrow> real \<Rightarrow> real \<Rightarrow> candidate" where
  "mkCandidate v sim kw cov pos expl defB cmpB cmpP final =
     \<lparr>vector = v, semanticSimilarity = sim, hasQueryKeywords = kw, keywordCoverage = cov,
      positionBonus = pos, explicitTermBonus = expl, definitionBonus = defB, comparisonBonus = cmpB,
      comparisonIntroPenalty = cmpP, finalScore = final\<rparr>"

definition whatIsAcme :: string where
  "whatIsAcme = ''What is Acme?''"

subsection \<open>A guide that only asks the question\<close>

definition guideStore :: "docVector list" where
  "guideStore = [mkVector ''This guide covers Acme. What is Acme?'' ''g.txt'' 0 [1]]"

subsection \<open>A definition sentence in a document that is not relevant\<close>

definition toolSentence :: docVector where
  "toolSentence = mkVector ''Acme is a tool.'' ''b.txt'' 1 [1]"

definition twoDocStore :: "docVector list" where
  "twoDocStore =
     [mkVector ''Acme notes'' ''acme.txt'' 0 [1], mkVector ''Preface'' ''b.txt'' 0 [1],
      toolSentence, mkVector ''End'' ''b.txt'' 2 [1]]"

subsection \<open>A definition sentence in the first chunk\<close>

definition toolStore :: "docVector list" where
  "toolStore = [mkVector ''Acme is a tool.'' ''a.txt'' 0 [1]]"

definition toolCandidate :: candidate where
  "toolCandidate = mkCandidate (mkVector ''Acme is a tool.'' ''a.txt'' 0 [1]) 1 True (2 / 3) 0.5 0 1 0 0 2.7"

subsection \<open>A comparison: a chunk with contrast language and one without\<close>

definition compareAcme :: string where
  "compareAcme = ''compare Acme''"

definition contrastChunk :: docVector where
  "contrastChunk = mkVector ''Acme is fast but costly'' ''d.txt'' 1 [0, 1]"

definition plainChunk :: docVector where
  "plainChunk = mkVector ''we compare Acme plans'' ''d.txt'' 2 [1, 0]"

definition compareStore :: "docVector list" where
  "compareStore = [mkVector ''Intro'' ''d.txt'' 0 [1, 0], contrastChunk, plainChunk]"

definition contrastCandidate :: candidate where
  "contrastCandidate = mkCandidate contrastChunk 0 True (1 / 2) 0 0 0 0.2 0 0.35"

definition plainCandidate :: candidate where
  "plainCandidate = mkCandidate plainChunk 1 True 1 0 0 0 (- 0.4) 0 0.9"

subsection \<open>A document on Acme without a word on pricing\<close>

definition acmePricing :: string where
  "acmePricing = ''What is Acme's pricing?''"

definition makerStore :: "docVector list" where
  "makerStore = [mkVector ''Acme makes tools.'' ''a.txt'' 0 [1]]"

definition makerCandidate :: candidate where
  "makerCandidate = mkCandidate (mkVector ''Acme makes tools.'' ''a.txt'' 0 [1]) 1 True (1 / 5) 0.5 0 0 0 0 1.56"

subsection \<open>Two documents for the synthesis\<close>

definition acmeRocks :: docVector where
  "acmeRocks = mkVector ''Acme rocks'' ''acme.txt'' 1 [1]"

definition rocksStore :: "docVector list" where
  "rocksStore =
     [mkVector ''Preface'' ''acme.txt'' 0 [1], acmeRocks, mkVector ''x'' ''acme.txt'' 2 [1],
      mkVector ''y'' ''acme.txt'' 3 [1], mkVector ''Acme rules'' ''b.txt'' 0 [1]]"

definition notesStore :: "docVector list" where
  "notesStore = [mkVector ''Acme notes'' ''a.txt'' 0 [1]]"

definition notesCandidate :: candidate where
  "notesCandidate = mkCandidate (mkVector ''Acme notes'' ''a.txt'' 0 [1]) 1 True (1 / 3) 0.5 0 0 0 0 1.6"

text \<open>The choice of the intro chunk as the specification words it: the first chunk, in the
  order of document name and chunk index, of all chunks, that lies in the first 30 percent of
  its document, holds the subject, and is chunk 0 or has at most two architecture indicators.\<close>

definition specIntroChunk :: "(string \<Rightarrow> string \<Rightarrow> bool) \<Rightarrow> string \<Rightarrow> docVector list \<Rightarrow> docVector option" where
  "specIntroChunk le subject allChunks =
     find (\<lambda>v. chunkPosition allChunks v \<le> 0.30
              \<and> rx_test (bounded (stri subject)) (textOf (chunk v))
              \<and> (chunkIndex (chunk v) = 0 \<or> archIndicatorCount (textOf (chunk v)) \<le> 2))
       (sortBy (byPosition le) allChunks)"

subsection \<open>A chunk without the words of the query\<close>

definition strayChunk :: docVector where
  "strayChunk = mkVector ''zzz'' ''a.txt'' 1 [0, 1]"

definition strayStore :: "docVector list" where
  "strayStore = [mkVector ''Acme tool'' ''a.txt'' 0 [1, 0], strayChunk]"

definition acmeToolCandidate :: candidate where
  "acmeToolCandidate = mkCandidate (mkVector ''Acme tool'' ''a.txt'' 0 [1, 0]) 1 True 1 0.5 0 0 0 0 1.8"

subsection \<open>A comparison that names no entity\<close>

definition compareTools :: string where
  "compareTools = ''compare tools''"

definition celonisChunk :: docVector where
  "celonisChunk = mkVector ''Celonis is fast'' ''d.txt'' 1 [1]"

definition toolsStore :: "docVector list" where
  "toolsStore = [mkVector ''Intro'' ''d.txt'' 0 [1], celonisChunk, mkVector ''Other tools'' ''d.txt'' 2 [1]]"

definition findsProblems :: string where
  "findsProblems = ''It finds problems while we execute''"

definition celonisAgentic :: string where
  "celonisAgentic = ''Celonis acts but agentic waits''"

subsection \<open>Queries of more than one intent\<close>

definition compareDataSources :: string where
  "compareDataSources = ''compare data sources of Acme''"

definition eventChunk :: docVector where
  "eventChunk = mkVector ''Acme reads event logs but slowly'' ''d.txt'' 1 [0, 1]"

definition eventStore :: "docVector list" where
  "eventStore = [mkVector ''Intro'' ''d.txt'' 0 [1, 0], eventChunk, plainChunk]"

definition eventCandidate :: candidate where
  "eventCandidate = mkCandidate eventChunk 0 True (1 / 5) 0 0 0 0.2 0 0.26"

definition plainDataCandidate :: candidate where
  "plainDataCandidate = mkCandidate plainChunk 1 True (2 / 5) 0 0 0 (- 0.4) 0 0.72"

text \<open>The question ``What is Acme vs Zeta?'' typed with its quotation marks.\<close>

definition quotedQuestion :: string where
  "quotedQuestion = [CHR 0x22] @ ''What is Acme vs Zeta?'' @ [CHR 0x22]"

subsection \<open>A chunk with the two literal entities\<close>

definition unlikeAgentic :: string where
  "unlikeAgentic = ''Unlike agentic platforms, Celonis finds''"

section \<open>Notions for reasoning on matches\<close>

text \<open>\<open>containsCI w s\<close>: the text \<open>s\<close> holds the literal \<open>w\<close> up to the case of its letters.
  \<open>needs w r\<close>: whatever the regular expression \<open>r\<close> matches, from whatever state, the text
  still to read at that state holds \<open>w\<close>.\<close>

definition containsCI :: "string \<Rightarrow> string \<Rightarrow> bool" where
  "containsCI w s = (\<exists>u x v. s = u @ x @ v \<and> map toLowerCh x = map toLowerCh w)"

definition needs :: "string \<Rightarrow> rx \<Rightarrow> bool" where
  "needs w r = (\<forall>s t. t \<in> set (ms r s) \<longrightarrow> containsCI w (rest s))"

section \<open>The cosine similarity on IEEE 754 doubles\<close>

text \<open>The route's theorems take a similarity as the real number the vector store returns.
  What \<open>cosineSimilarity\<close> does at a zero denominator, at an overflow and with NaN can only be
  seen on the doubles of JavaScript, so the function is given here a second time, on them.

  A double is a finite number, an infinity or NaN.  The two zeros are one value, \<open>Fin 0\<close>: the
  test \<open>=== 0\<close> does not tell them apart, and \<open>cosineSimilarity\<close> never divides by one.  An
  operation on finite numbers takes the exact result, rounds it with \<open>rd\<close>, and gives an
  infinity when the rounded result lies beyond the largest double, \<open>(2^53 - 1) * 2^971\<close>.
  The rounding \<open>rd\<close> is a parameter: rounding to nearest with gradual underflow, as IEEE 754
  has it, is one function of this kind, and the identity is the arithmetic without rounding.\<close>

datatype double = Fin real | PInf | NInf | NaN

definition maxDouble :: real where
  "maxDouble = (2 ^ 53 - 1) * 2 ^ 971"

definition fl :: "(real \<Rightarrow> real) \<Rightarrow> real \<Rightarrow> double" where
  "fl rd x = (if rd x > maxDouble then PInf else if rd x < - maxDouble then NInf else Fin (rd x))"

fun dadd :: "(real \<Rightarrow> real) \<Rightarrow> double \<Rightarrow> double \<Rightarrow> double" where
  "dadd rd (Fin x) (Fin y) = fl rd (x + y)"
| "dadd rd (Fin x) PInf = PInf"
| "dadd rd (Fin x) NInf = NInf"
| "dadd rd PInf (Fin y) = PInf"
| "dadd rd PInf PInf = PInf"
| "dadd rd PInf NInf = NaN"
| "dadd rd NInf (Fin y) = NInf"
| "dadd rd NInf PInf = NaN"
| "dadd rd NInf NInf = NInf"
| "dadd rd NaN y = NaN"
| "dadd rd x NaN = NaN"

text \<open>An infinity times a number has the sign of the product, and an infinity times zero is
  NaN.\<close>

definition signedInf :: "bool \<Rightarrow> double" where
  "signedInf positive = (if positive then PInf else NInf)"

fun dmul :: "(real \<Rightarrow> real) \<Rightarrow> double \<Rightarrow> double \<Rightarrow> double" where
  "dmul rd (Fin x) (Fin y) = fl rd (x * y)"
| "dmul rd (Fin x) PInf = (if x = 0 then NaN else signedInf (x > 0))"
| "dmul rd (Fin x) NInf = (if x = 0 then NaN else signedInf (x < 0))"
| "dmul rd PInf (Fin y) = (if y = 0 then NaN else signedInf (y > 0))"
| "dmul rd NInf (Fin y) = (if y = 0 then NaN else signedInf (y < 0))"
| "dmul rd PInf PInf = PInf"
| "dmul rd PInf NInf = NInf"
| "dmul rd NInf PInf = NInf"
| "dmul rd NInf NInf = PInf"
| "dmul rd NaN y = NaN"
| "dmul rd x NaN = NaN"

fun dsqrt :: "(real \<Rightarrow> real) \<Rightarrow> double \<Rightarrow> double" where
  "dsqrt rd (Fin x) = (if x < 0 then NaN else fl rd (sqrt x))"
| "dsqrt rd PInf = PInf"
| "dsqrt rd NInf = NaN"
| "dsqrt rd NaN = NaN"

text \<open>A division by zero gives NaN for \<open>0 / 0\<close> and an infinity otherwise; its sign is that of
  the dividend here, the sign of the zero being lost.\<close>

fun ddiv :: "(real \<Rightarrow> real) \<Rightarrow> double \<Rightarrow> double \<Rightarrow> double" where
  "ddiv rd (Fin x) (Fin y) =
     (if y = 0 then (if x = 0 then NaN else signedInf (x > 0)) else fl rd (x / y))"
| "ddiv rd (Fin x) PInf = Fin 0"
| "ddiv rd (Fin x) NInf = Fin 0"
| "ddiv rd PInf (Fin y) = signedInf (y \<ge> 0)"
| "ddiv rd NInf (Fin y) = signedInf (y < 0)"
| "ddiv rd PInf PInf = NaN"
| "ddiv rd PInf NInf = NaN"
| "ddiv rd NInf PInf = NaN"
| "ddiv rd NInf NInf = NaN"
| "ddiv rd NaN y = NaN"
| "ddiv rd x NaN = NaN"

text \<open>\<open>VectorStore.cosineSimilarity\<close>, statement by statement.\<close>

definition cosineSimilarityIEEE :: "(real \<Rightarrow> real) \<Rightarrow> double list \<Rightarrow> double list \<Rightarrow> error + double" where
  "cosineSimilarityIEEE rd vecA vecB =
     (if length vecA \<noteq> length vecB then Inl (Error ''Vectors must have the same length'')
      else case foldl (\<lambda>(dotProduct, normA, normB) (a, b).
                         (dadd rd dotProduct (dmul rd a b), dadd rd normA (dmul rd a a),
                          dadd rd normB (dmul rd b b)))
                  (Fin 0, Fin 0, Fin 0) (zip vecA vecB) of
        (dotProduct, normA, normB) \<Rightarrow>
          (let denominator = dmul rd (dsqrt rd normA) (dsqrt rd normB) in
           Inr (if denominator = Fin 0 then Fin 0 else ddiv rd dotProduct denominator)))"

text \<open>The same function without its test of the denominator, to compare with.\<close>

definition cosineUnguardedIEEE :: "(real \<Rightarrow> real) \<Rightarrow> double list \<Rightarrow> double list \<Rightarrow> error + double" where
  "cosineUnguardedIEEE rd vecA vecB =
     (if length vecA \<noteq> length vecB then Inl (Error ''Vectors must have the same length'')
      else case foldl (\<lambda>(dotProduct, normA, normB) (a, b).
                         (dadd rd dotProduct (dmul rd a b), dadd rd normA (dmul rd a a),
                          dadd rd normB (dmul rd b b)))
                  (Fin 0, Fin 0, Fin 0) (zip vecA vecB) of
        (dotProduct, normA, normB) \<Rightarrow>
          Inr (ddiv rd dotProduct (dmul rd (dsqrt rd normA) (dsqrt rd normB))))"

text \<open>The three sums of the loop, each on its own.\<close>

definition squaredNorm :: "(real \<Rightarrow> real) \<Rightarrow> double list \<Rightarrow> double" where
  "squaredNorm rd v = foldl (\<lambda>norm x. dadd rd norm (dmul rd x x)) (Fin 0) v"

definition dotProductOf :: "(real \<Rightarrow> real) \<Rightarrow> double list \<Rightarrow> double list \<Rightarrow> double" where
  "dotProductOf rd vecA vecB =
     foldl (\<lambda>dotProduct (a, b). dadd rd dotProduct (dmul rd a b)) (Fin 0) (zip vecA vecB)"

definition denominatorOf :: "(real \<Rightarrow> real) \<Rightarrow> double list \<Rightarrow> double list \<Rightarrow> double" where
  "denominatorOf rd vecA vecB = dmul rd (dsqrt rd (squaredNorm rd vecA)) (dsqrt rd (squaredNorm rd vecB))"

text \<open>A double whose square is beyond the largest double: \<open>2^700\<close>, about \<open>5.3e210\<close>.  It is
  a power of two, so every operation on it below is exact or overflows, with any rounding.\<close>

definition hugeDouble :: double where
  "hugeDouble = Fin (2 ^ 700)"

section \<open>Evaluating the model\<close>

text \<open>
  The theorems at concrete inputs are proved by rewriting with the defining equations.  The
  character classes are given on the bits of a character, so that no arithmetic is needed
  to evaluate them, and the square root on the two numbers the concrete vectors need.
\<close>

lemma code_Char:
  "code (Char b0 b1 b2 b3 b4 b5 b6 b7) =
     of_bool b0 + 2 * of_bool b1 + 4 * of_bool b2 + 8 * of_bool b3 + 16 * of_bool b4
     + 32 * of_bool b5 + 64 * of_bool b6 + 128 * of_bool b7"
  by (simp add: code_def)

lemma isWordCh_code [code]:
  "isWordCh (Char b0 b1 b2 b3 b4 b5 b6 b7) =
     (\<not> b7 \<and> ((\<not> b6 \<and> b5 \<and> b4 \<and> (\<not> b3 \<or> (\<not> b2 \<and> \<not> b1)))
            \<or> (b6 \<and> (b0 \<or> b1 \<or> b2 \<or> b3 \<or> b4) \<and> \<not> (b4 \<and> b3 \<and> (b2 \<or> (b1 \<and> b0))))
            \<or> (b6 \<and> \<not> b5 \<and> b4 \<and> b3 \<and> b2 \<and> b1 \<and> b0)))"
  unfolding isWordCh_def code_Char
  by (cases b0; cases b1; cases b2; cases b3; cases b4; cases b5; cases b6; cases b7; simp)

lemma isDigitCh_code [code]:
  "isDigitCh (Char b0 b1 b2 b3 b4 b5 b6 b7) =
     (\<not> b7 \<and> \<not> b6 \<and> b5 \<and> b4 \<and> (\<not> b3 \<or> (\<not> b2 \<and> \<not> b1)))"
  unfolding isDigitCh_def code_Char
  by (cases b0; cases b1; cases b2; cases b3; cases b4; cases b5; cases b6; cases b7; simp)

lemma isSpaceCh_code [code]:
  "isSpaceCh (Char b0 b1 b2 b3 b4 b5 b6 b7) =
     ((\<not> b7 \<and> \<not> b6 \<and> \<not> b5 \<and> \<not> b4 \<and> b3 \<and> ((\<not> b2 \<and> (b1 \<or> b0)) \<or> (b2 \<and> \<not> b1)))
      \<or> (\<not> b6 \<and> b5 \<and> \<not> b4 \<and> \<not> b3 \<and> \<not> b2 \<and> \<not> b1 \<and> \<not> b0))"
  unfolding isSpaceCh_def code_Char
  by (cases b0; cases b1; cases b2; cases b3; cases b4; cases b5; cases b6; cases b7; simp)

lemma isLineTerm_code [code]:
  "isLineTerm (Char b0 b1 b2 b3 b4 b5 b6 b7) =
     (\<not> b7 \<and> \<not> b6 \<and> \<not> b5 \<and> \<not> b4 \<and> b3 \<and> ((\<not> b2 \<and> b1 \<and> \<not> b0) \<or> (b2 \<and> \<not> b1 \<and> b0)))"
  unfolding isLineTerm_def code_Char
  by (cases b0; cases b1; cases b2; cases b3; cases b4; cases b5; cases b6; cases b7; simp)

lemma toLowerCh_code [code]:
  "toLowerCh (Char b0 b1 b2 b3 b4 b5 b6 b7) =
     (if b6 \<and> \<not> b5
         \<and> ((\<not> b7 \<and> (b0 \<or> b1 \<or> b2 \<or> b3 \<or> b4) \<and> \<not> (b4 \<and> b3 \<and> (b2 \<or> (b1 \<and> b0))))
              \<or> (b7 \<and> \<not> (b4 \<and> b3 \<and> b2 \<and> b1 \<and> b0) \<and> \<not> (b4 \<and> \<not> b3 \<and> b2 \<and> b1 \<and> b0)))
      then Char b0 b1 b2 b3 b4 True b6 b7 else Char b0 b1 b2 b3 b4 b5 b6 b7)"
  unfolding toLowerCh_def code_Char
  by (cases b0; cases b1; cases b2; cases b3; cases b4; cases b5; cases b6; cases b7;
      simp add: char_of_def bit_Suc_0_iff)

lemma eqUpperCh_code [code]:
  "eqUpperCh (Char b0 b1 b2 b3 b4 b5 b6 b7) =
     (\<not> ((b6 \<and> b5
            \<and> ((\<not> b7 \<and> (b0 \<or> b1 \<or> b2 \<or> b3 \<or> b4) \<and> \<not> (b4 \<and> b3 \<and> (b2 \<or> (b1 \<and> b0))))
                 \<or> (b7 \<and> \<not> (b4 \<and> \<not> b3 \<and> b2 \<and> b1 \<and> b0))))
          \<or> (b7 \<and> \<not> b6 \<and> b5 \<and> b4 \<and> \<not> b3 \<and> b2 \<and> \<not> b1 \<and> b0)
          \<or> (b7 \<and> b6 \<and> \<not> b5 \<and> b4 \<and> b3 \<and> b2 \<and> b1 \<and> b0)))"
  unfolding eqUpperCh_def code_Char
  by (cases b0; cases b1; cases b2; cases b3; cases b4; cases b5; cases b6; cases b7; simp)

lemma sqrt_code [code]:
  "sqrt x = (if x = 0 then 0 else if x = 1 then 1 else sqrt x)"
  by simp


section \<open>Normalization: proofs\<close>

lemma code_lt: "code c < 256"
  unfolding code_def by (cases c) (simp)

lemma toLowerCh_idem: "toLowerCh (toLowerCh c) = toLowerCh c"
proof -
  have "code (char_of (code c + 32)) = code c + 32" if "code c \<le> 222"
    using that unfolding code_def by simp
  then show ?thesis
    unfolding toLowerCh_def by auto
qed

lemma space_code: "code CHR '' '' = 32"
  by (simp add: code_def)

lemma isSpace_space: "isSpaceCh CHR '' ''"
  by (simp add: isSpaceCh_def space_code)

lemma lower_space: "toLowerCh CHR '' '' = CHR '' ''"
  by (simp add: toLowerCh_def space_code)

lemma not_word_space: "isSpaceCh c \<Longrightarrow> \<not> isWordCh c"
  by (auto simp: isSpaceCh_def isWordCh_def)

lemma okWs_weaken: "okWs True s \<Longrightarrow> okWs False s"
  by (cases s) auto

lemma collapse_True_shape: "collapseWs True s = [] \<or> \<not> isSpaceCh (hd (collapseWs True s))"
  by (induction s) auto

lemma okWs_collapse: "okWs False (collapseWs b s)"
proof (induction s arbitrary: b)
  case Nil
  then show ?case by simp
next
  case (Cons c cs)
  have t: "okWs True (collapseWs True cs)"
    using Cons.IH[of True] collapse_True_shape[of cs]
    by (cases "collapseWs True cs") auto
  show ?case using Cons.IH t by (auto simp: isSpace_space)
qed

lemma okWs_fix: "okWs False s \<Longrightarrow> collapseWs False s = s"
proof (induction s)
  case Nil
  then show ?case by simp
next
  case (Cons c cs)
  show ?case
  proof (cases "isSpaceCh c")
    case True
    with Cons.prems have c: "c = CHR '' ''" and t: "okWs True cs" by auto
    have "collapseWs True cs = cs"
    proof (cases cs)
      case Nil then show ?thesis by simp
    next
      case (Cons d ds)
      with t have nd: "\<not> isSpaceCh d" and "okWs False ds" by (auto split: if_splits)
      with Cons.IH show ?thesis using Cons \<open>okWs False ds\<close> nd
        using \<open>okWs True cs\<close> Cons.IH okWs_weaken
        by (metis collapseWs.simps(2) local.Cons okWs.simps(2) okWs_weaken)
    qed
    then show ?thesis using True c by simp
  next
    case False
    with Cons show ?thesis by auto
  qed
qed

lemma set_collapseWs: "c \<in> set (collapseWs b s) \<Longrightarrow> c = CHR '' '' \<or> (c \<in> set s \<and> \<not> isSpaceCh c)"
  by (induction s arbitrary: b) (auto split: if_splits)

lemma set_trim: "c \<in> set (trim s) \<Longrightarrow> c \<in> set s"
  unfolding trim_def by (metis set_dropWhileD set_rev)

lemma nch_normalize: "c \<in> set (normalizeTextForMatching x) \<Longrightarrow> nch c"
proof -
  assume "c \<in> set (normalizeTextForMatching x)"
  then have "c \<in> set (collapseWs False (map (\<lambda>c. if isWordCh c \<or> isSpaceCh c then c else CHR '' '') (toLowerCase x)))"
    unfolding normalizeTextForMatching_def by (rule set_trim)
  then consider "c = CHR '' ''"
    | "c \<in> set (map (\<lambda>c. if isWordCh c \<or> isSpaceCh c then c else CHR '' '') (toLowerCase x))" "\<not> isSpaceCh c"
    using set_collapseWs by blast
  then show "nch c"
  proof cases
    case 1
    then show ?thesis by (simp add: nch_def lower_space)
  next
    case 2
    then obtain d where d: "d \<in> set x" "c = (if isWordCh (toLowerCh d) \<or> isSpaceCh (toLowerCh d) then toLowerCh d else CHR '' '')"
      unfolding toLowerCase_def by auto
    with 2(2) have "c = toLowerCh d" "isWordCh (toLowerCh d)"
      by (auto simp: isSpace_space split: if_splits)
    then show ?thesis by (simp add: nch_def toLowerCh_idem)
  qed
qed

lemma okWs_dropWhile: "okWs False s \<Longrightarrow> okWs False (dropWhile isSpaceCh s)"
proof (induction s)
  case Nil
  then show ?case by simp
next
  case (Cons c cs)
  show ?case
  proof (cases "isSpaceCh c")
    case True
    with Cons.prems have "okWs True cs" by simp
    then have "okWs False cs" by (rule okWs_weaken)
    then show ?thesis using True Cons.IH by simp
  next
    case False
    then show ?thesis using Cons.prems by simp
  qed
qed

lemma okWs_prefix: "okWs b (xs @ ys) \<Longrightarrow> okWs b xs"
  by (induction xs arbitrary: b) (auto split: if_splits)

lemma dropEnd_prefix: "u = rev (dropWhile P (rev u)) @ rev (takeWhile P (rev u))"
proof -
  have "rev u = takeWhile P (rev u) @ dropWhile P (rev u)" by simp
  then have "rev (rev u) = rev (takeWhile P (rev u) @ dropWhile P (rev u))" by (rule arg_cong)
  then show ?thesis by (simp only: rev_rev_ident rev_append)
qed

lemma okWs_trim: "okWs False s \<Longrightarrow> okWs False (trim s)"
proof -
  assume "okWs False s"
  then have "okWs False (dropWhile isSpaceCh s)" by (rule okWs_dropWhile)
  then have "okWs False (rev (dropWhile isSpaceCh (rev (dropWhile isSpaceCh s))) @ rev (takeWhile isSpaceCh (rev (dropWhile isSpaceCh s))))"
    using dropEnd_prefix[of "dropWhile isSpaceCh s" isSpaceCh] by simp
  then show ?thesis unfolding trim_def by (rule okWs_prefix)
qed

lemma trim_shape:
  "trim w = [] \<or> (\<not> isSpaceCh (hd (trim w)) \<and> \<not> isSpaceCh (last (trim w)))"
proof (cases "trim w = []")
  case True
  then show ?thesis by simp
next
  case False
  let ?u = "dropWhile isSpaceCh w"
  let ?y = "rev (dropWhile isSpaceCh (rev ?u))"
  have y: "trim w = ?y" by (simp add: trim_def)
  have ne: "dropWhile isSpaceCh (rev ?u) \<noteq> []" using False y by simp
  then have "\<not> isSpaceCh (hd (dropWhile isSpaceCh (rev ?u)))" by (rule hd_dropWhile)
  then have l: "\<not> isSpaceCh (last ?y)" using ne by (simp add: last_rev)
  have pre: "?u = ?y @ rev (takeWhile isSpaceCh (rev ?u))" by (rule dropEnd_prefix)
  have yne: "?y \<noteq> []" using ne by simp
  then have une: "?u \<noteq> []" using pre by (metis append_is_Nil_conv)
  have "hd ?u = hd ?y" using pre yne by (metis hd_append2)
  moreover have "\<not> isSpaceCh (hd ?u)" using une by (rule hd_dropWhile)
  ultimately show ?thesis using l y by simp
qed

lemma trim_fix: "s = [] \<or> (\<not> isSpaceCh (hd s) \<and> \<not> isSpaceCh (last s)) \<Longrightarrow> trim s = s"
proof (cases s)
  case Nil
  then show ?thesis by (simp add: trim_def)
next
  case (Cons c cs)
  assume "s = [] \<or> (\<not> isSpaceCh (hd s) \<and> \<not> isSpaceCh (last s))"
  with Cons have h: "\<not> isSpaceCh c" and l: "\<not> isSpaceCh (last s)" by auto
  have 1: "dropWhile isSpaceCh s = s" using Cons h by simp
  have "rev s \<noteq> []" using Cons by simp
  moreover have "hd (rev s) = last s" using Cons by (simp add: hd_rev)
  ultimately have 2: "dropWhile isSpaceCh (rev s) = rev s" using l
    by (cases "rev s") (simp, metis dropWhile.simps(2) list.sel(1))
  show ?thesis by (simp add: trim_def 1 2)
qed

text \<open>
  Claim C8.  Text normalization is idempotent: normalizing a normalized string changes
  nothing, for every string.
\<close>

theorem normalize_idempotent:
  "normalizeTextForMatching (normalizeTextForMatching x) = normalizeTextForMatching x"
proof -
  let ?y = "normalizeTextForMatching x"
  have n: "\<And>c. c \<in> set ?y \<Longrightarrow> nch c" by (rule nch_normalize)
  have 1: "toLowerCase ?y = ?y"
    unfolding toLowerCase_def using n by (intro map_idI) (simp add: nch_def)
  have 2: "map (\<lambda>c. if isWordCh c \<or> isSpaceCh c then c else CHR '' '') ?y = ?y"
    using n by (intro map_idI) (auto simp: nch_def)
  have "okWs False ?y"
    unfolding normalizeTextForMatching_def by (intro okWs_trim okWs_collapse)
  then have 3: "collapseWs False ?y = ?y" by (rule okWs_fix)
  have 4: "trim ?y = ?y"
    unfolding normalizeTextForMatching_def by (intro trim_fix trim_shape)
  have "normalizeTextForMatching ?y = trim (collapseWs False (map (\<lambda>c. if isWordCh c \<or> isSpaceCh c then c else CHR '' '') (toLowerCase ?y)))"
    by (simp only: normalizeTextForMatching_def [of ?y])
  also have "\<dots> = ?y" by (simp only: 1 2 3 4)
  finally show ?thesis .
qed

section \<open>Lemmas on the ranking and the stages\<close>

lemma set_insortBy: "set (insortBy le x xs) = insert x (set xs)"
  by (induction xs) auto

lemma set_sortBy: "set (sortBy le xs) = set xs"
  unfolding sortBy_def by (induction xs) (auto simp: set_insortBy)

lemma sortBy_Nil_iff: "sortBy le xs = [] \<longleftrightarrow> xs = []"
  using set_sortBy[of le xs] by (metis set_empty)

lemma sorted_insortBy_score:
  "sorted_wrt (\<lambda>a b. (f b :: real) \<le> f a) xs \<Longrightarrow> sorted_wrt (\<lambda>a b. f b \<le> f a) (insortBy (\<lambda>a b. f a \<ge> f b) x xs)"
proof (induction xs)
  case Nil
  then show ?case by simp
next
  case (Cons y ys)
  show ?case
  proof (cases "f x \<ge> f y")
    case True
    then show ?thesis using Cons.prems by (auto intro: order_trans)
  next
    case False
    then have "f x \<le> f y" by simp
    then show ?thesis using Cons by (auto simp: set_insortBy)
  qed
qed

lemma sorted_sortBy_score: "sorted_wrt (\<lambda>a b. (f b :: real) \<le> f a) (sortBy (\<lambda>a b. f a \<ge> f b) xs)"
  unfolding sortBy_def by (induction xs) (auto intro: sorted_insortBy_score)

lemma sortBy_score_head:
  assumes "sortBy (\<lambda>a b. (f a :: real) \<ge> f b) xs = b # bs"
  shows "b \<in> set xs \<and> (\<forall>x\<in>set xs. f x \<le> f b)"
proof -
  have s: "set (b # bs) = set xs" using assms set_sortBy by metis
  have "sorted_wrt (\<lambda>a b. f b \<le> f a) (b # bs)" using sorted_sortBy_score[of f xs] assms by simp
  then have "\<forall>x\<in>set bs. f x \<le> f b" by simp
  then show ?thesis using s by auto
qed

lemma scoreChunk_vector: "scoreChunk query allVectors qe v = Inr (Some c) \<Longrightarrow> vector c = v"
  by (auto simp: scoreChunk_def Let_def split: sum.splits if_splits)

lemma scoreAll_member:
  "scoreAll query allVectors qe vs = Inr cands \<Longrightarrow> c \<in> set cands \<Longrightarrow>
   \<exists>v\<in>set vs. scoreChunk query allVectors qe v = Inr (Some c)"
proof (induction vs arbitrary: cands)
  case Nil
  then show ?case by simp
next
  case (Cons v vs)
  then show ?case
    by (auto split: sum.splits option.splits)
qed

lemma scoreAll_vectors:
  "scoreAll query allVectors qe vs = Inr cands \<Longrightarrow> c \<in> set cands \<Longrightarrow> vector c \<in> set vs"
  using scoreAll_member scoreChunk_vector by blast

lemma set_dedupBy: "set (dedupBy key seen xs) \<subseteq> set xs"
  by (induction xs arbitrary: seen) auto

lemma set_usageFilter: "set (usageFilter terms intro cs) \<subseteq> set cs"
  by (auto simp: usageFilter_def Let_def)

lemma set_usageFilters: "set (usageFilters query cs) \<subseteq> set cs"
proof -
  have 1: "set (usageFilter dataRelatedTerms introChunkIndicators cs) \<subseteq> set cs"
    by (rule set_usageFilter)
  have 2: "\<And>ds. set (usageFilter aiRelatedTerms introChunkIndicatorsAI ds) \<subseteq> set ds"
    by (rule set_usageFilter)
  show ?thesis
  proof (cases "isDataUsageQuery query")
    case True
    then show ?thesis
      unfolding usageFilters_def Let_def
      using 1 2[of "usageFilter dataRelatedTerms introChunkIndicators cs"] by auto
  next
    case False
    then show ?thesis
      unfolding usageFilters_def Let_def using 2[of cs] by auto
  qed
qed

lemma set_ranked: "set (ranked query cs) \<subseteq> set cs"
  unfolding ranked_def using set_usageFilters by (simp add: set_sortBy)

lemma definitionStage_subset:
  "definitionStage le query allVectors cands = Inr toRank \<Longrightarrow> set toRank \<subseteq> set cands"
proof -
  assume a: "definitionStage le query allVectors cands = Inr toRank"
  have 1: "\<And>s. set (tier1Candidates s allVectors cands) \<subseteq> set cands"
    by (auto simp: tier1Candidates_def)
  have 2: "\<And>s. set (tier2Candidates s allVectors cands) \<subseteq> set cands"
    unfolding tier2Candidates_def using set_dedupBy by fastforce
  from a consider "toRank = cands" | s where "toRank = tier1Candidates s allVectors cands"
    | s where "toRank = tier2Candidates s allVectors cands"
    by (auto simp: definitionStage_def split: option.splits if_splits)
  then show ?thesis using 1 2 by cases auto
qed

lemma trim_Nil_iff: "trim q = [] \<longleftrightarrow> (\<forall>c\<in>set q. isSpaceCh c)"
proof
  assume t: "trim q = []"
  then have d: "dropWhile isSpaceCh (rev (dropWhile isSpaceCh q)) = []" by (simp add: trim_def)
  have "dropWhile isSpaceCh q = []"
  proof (rule ccontr)
    assume ne: "dropWhile isSpaceCh q \<noteq> []"
    then have h: "\<not> isSpaceCh (hd (dropWhile isSpaceCh q))" by (rule hd_dropWhile)
    have m: "hd (dropWhile isSpaceCh q) \<in> set (rev (dropWhile isSpaceCh q))" using ne by simp
    have "\<forall>c\<in>set (rev (dropWhile isSpaceCh q)). isSpaceCh c"
      using d by (simp only: dropWhile_eq_Nil_conv)
    then have "isSpaceCh (hd (dropWhile isSpaceCh q))" using m by (rule bspec)
    then show False using h by simp
  qed
  then show "\<forall>c\<in>set q. isSpaceCh c" by (simp only: dropWhile_eq_Nil_conv)
next
  assume "\<forall>c\<in>set q. isSpaceCh c"
  then have e: "dropWhile isSpaceCh q = []" by (simp only: dropWhile_eq_Nil_conv)
  show "trim q = []" unfolding trim_def e by simp
qed

lemma isSpace_lower: "isSpaceCh c \<Longrightarrow> toLowerCh c = c"
proof -
  assume "isSpaceCh c"
  then have "code c \<le> 32 \<or> code c = 160" unfolding isSpaceCh_def by linarith
  then have "\<not> ((65 \<le> code c \<and> code c \<le> 90) \<or> (192 \<le> code c \<and> code c \<le> 222 \<and> code c \<noteq> 215))"
    by linarith
  then show ?thesis unfolding toLowerCh_def by (simp only: if_False)
qed

lemma trim_lower_Nil: "trim q = [] \<Longrightarrow> trim (toLowerCase q) = []"
  by (auto simp: trim_Nil_iff toLowerCase_def isSpace_lower)

lemma normalize_Nil: "trim q = [] \<Longrightarrow> normalizeTextForMatching q = []"
proof -
  assume "trim q = []"
  then have a: "\<forall>c\<in>set q. isSpaceCh c" by (simp add: trim_Nil_iff)
  have "\<forall>c\<in>set (collapseWs False (map (\<lambda>c. if isWordCh c \<or> isSpaceCh c then c else CHR '' '') (toLowerCase q))). isSpaceCh c"
  proof
    fix c assume "c \<in> set (collapseWs False (map (\<lambda>c. if isWordCh c \<or> isSpaceCh c then c else CHR '' '') (toLowerCase q)))"
    then consider "c = CHR '' ''"
      | "c \<in> set (map (\<lambda>c. if isWordCh c \<or> isSpaceCh c then c else CHR '' '') (toLowerCase q))" "\<not> isSpaceCh c"
      using set_collapseWs by blast
    then show "isSpaceCh c"
    proof cases
      case 1 then show ?thesis by (simp add: isSpace_space)
    next
      case 2
      then obtain d where "d \<in> set q" "c = (if isWordCh (toLowerCh d) \<or> isSpaceCh (toLowerCh d) then toLowerCh d else CHR '' '')"
        by (auto simp: toLowerCase_def)
      then have "isSpaceCh c" using a by (auto simp: isSpace_lower isSpace_space)
      then show ?thesis using 2 by simp
    qed
  qed
  then show ?thesis unfolding normalizeTextForMatching_def by (simp only: trim_Nil_iff)
qed

lemma no_definition_Nil: "\<not> rx_test whatIsPattern [] \<and> \<not> rx_test definePattern []"
  by code_simp

lemma isDefinition_nonblank: "isDefinition query \<Longrightarrow> trim query \<noteq> []"
proof
  assume d: "isDefinition query" and t: "trim query = []"
  have 1: "trim (toLowerCase query) = []" using t by (rule trim_lower_Nil)
  have 2: "trim (toLowerCase (normalizeTextForMatching query)) = []"
    using normalize_Nil[OF t] by (simp add: toLowerCase_def trim_def)
  show False using d no_definition_Nil unfolding isDefinition_def Let_def 1 2 by simp
qed

lemma subject_isDefinition: "definitionSubject query = Some s \<Longrightarrow> isDefinition query"
proof (rule ccontr)
  assume a: "definitionSubject query = Some s" and "\<not> isDefinition query"
  then have "definitionSubject query = None" by (simp add: definitionSubject_def)
  then show False using a by simp
qed

lemma comparisonStages_Nil: "comparisonStages query [] = Inr []"
  by (auto simp: comparisonStages_def Let_def strictDocumentFilter_def split: option.splits)

lemma vectorsToSearch_Nil: "vectorsToSearch query [] = []"
  by (auto simp: vectorsToSearch_def Let_def split: option.splits)

lemma usageFilters_definition: "isDefinition query \<Longrightarrow> usageFilters query cs = cs"
  by (simp add: usageFilters_def isDataUsageQuery_def isAIUsageQuery_def)

lemma finalStage_definition:
  "isDefinition query \<Longrightarrow> finalStage query allVectors (b # bs) = rankedResponse query b"
  by (simp add: finalStage_def topicCoverageFails_def)

text \<open>what the route does once the candidates are known\<close>

lemma search_after_scoring:
  assumes "trim query \<noteq> []" and "store \<noteq> []"
      and "comparisonStages query store = Inr allVectors"
      and "scoreAll query allVectors qe (vectorsToSearch query allVectors) = Inr candidates"
  shows "search le query store (Some qe) =
           (case definitionStage le query allVectors candidates of
              Inl r \<Rightarrow> r
            | Inr candidatesToRank \<Rightarrow> finalStage query allVectors (ranked query candidatesToRank))"
  using assms by (simp add: search_def)

lemma candidates_store_nonempty:
  assumes "comparisonStages query store = Inr allVectors"
      and "scoreAll query allVectors qe (vectorsToSearch query allVectors) = Inr candidates"
      and "candidates \<noteq> []"
  shows "store \<noteq> []"
proof
  assume "store = []"
  then have "allVectors = []" using assms(1) by (simp add: comparisonStages_Nil)
  then have "candidates = []" using assms(2) by (simp add: vectorsToSearch_Nil)
  then show False using assms(3) by simp
qed

lemma pickIntroChunk_eq:
  "pickIntroChunk s av best vs =
     (case find (\<lambda>u. introEligible s av u \<and> chunkIndex (chunk u) = 0) vs of
        Some z \<Rightarrow> Some z
      | None \<Rightarrow> (case best of
                   Some b \<Rightarrow> Some b
                 | None \<Rightarrow> find (\<lambda>u. introEligible s av u \<and> archIndicatorCount (textOf (chunk u)) \<le> 2) vs))"
  by (induction vs arbitrary: best) (auto split: option.splits)

lemma comparisonStages_definition:
  "isDefinitionQueryEarly query \<Longrightarrow> comparisonStages query store = Inr store"
  by (simp add: comparisonStages_def Let_def split: option.splits)

section \<open>What a match reads\<close>

text \<open>A matcher only moves forward: the text left at a state it reaches is a suffix of the
  text it started with.\<close>

lemma must_forward:
  assumes f: "\<And>s t. t \<in> set (f s) \<Longrightarrow> \<exists>u. rest s = u @ rest t"
      and k: "\<And>s t. t \<in> set (k s) \<Longrightarrow> \<exists>u. rest s = u @ rest t"
  shows "t \<in> set (must m f k s) \<Longrightarrow> \<exists>u. rest s = u @ rest t"
proof (induction m arbitrary: s)
  case 0
  then show ?case using k by simp
next
  case (Suc m)
  then obtain s' where s': "s' \<in> set (f s)" "t \<in> set (must m f k s')" by auto
  obtain u where u: "rest s = u @ rest s'" using f[OF s'(1)] by blast
  obtain u' where "rest s' = u' @ rest t" using Suc.IH[OF s'(2)] by blast
  then have "rest s = (u @ u') @ rest t" using u by simp
  then show ?case by blast
qed

lemma loop_forward:
  assumes f: "\<And>s t. t \<in> set (f s) \<Longrightarrow> \<exists>u. rest s = u @ rest t"
  shows "t \<in> set (loop n f g mx s) \<Longrightarrow> \<exists>u. rest s = u @ rest t"
proof (induction n arbitrary: s mx)
  case 0
  then show ?case by simp
next
  case (Suc n)
  show ?case
  proof (cases "t = s")
    case True
    then show ?thesis by simp
  next
    case False
    then obtain s' where s': "s' \<in> set (f s)"
        "t \<in> set (loop n f g (map_option (\<lambda>m. m - 1) mx) s')"
      using Suc.prems by (auto split: if_splits)
    obtain u where u: "rest s = u @ rest s'" using f[OF s'(1)] by blast
    obtain u' where "rest s' = u' @ rest t" using Suc.IH[OF s'(2)] by blast
    then have "rest s = (u @ u') @ rest t" using u by simp
    then show ?thesis by blast
  qed
qed

lemma ms_forward: "t \<in> set (ms r s) \<Longrightarrow> \<exists>u. rest s = u @ rest t"
proof (induction r arbitrary: s t)
  case (Sym p)
  then show ?case by (cases "rest s") (auto split: if_splits)
next
  case (Seq a b)
  then obtain s' where s': "s' \<in> set (ms a s)" "t \<in> set (ms b s')" by auto
  obtain u where u: "rest s = u @ rest s'" using Seq.IH(1)[OF s'(1)] by blast
  obtain u' where "rest s' = u' @ rest t" using Seq.IH(2)[OF s'(2)] by blast
  then have "rest s = (u @ u') @ rest t" using u by simp
  then show ?case by blast
next
  case (Alt a b)
  then show ?case by auto
next
  case (Rep mn mx g r)
  have f: "\<And>s t. t \<in> set (ms r s) \<Longrightarrow> \<exists>u. rest s = u @ rest t" using Rep.IH by blast
  have k: "\<And>s t. t \<in> set (loop (length (rest s)) (ms r) g (map_option (\<lambda>m. m - mn) mx) s)
              \<Longrightarrow> \<exists>u. rest s = u @ rest t"
    using loop_forward[of "ms r"] f by blast
  show ?case using must_forward[of "ms r" _ t mn s, OF f k] Rep.prems by simp
next
  case (Grp k r)
  then show ?case by auto
next
  case BolM
  then show ?case by (auto split: option.splits if_splits)
next
  case EolM
  then show ?case by (auto split: list.splits if_splits)
qed (auto split: if_splits)

lemma containsCI_forward: "containsCI w t \<Longrightarrow> containsCI w (u @ t)"
proof -
  assume "containsCI w t"
  then obtain a x b where "t = a @ x @ b" "map toLowerCh x = map toLowerCh w"
    unfolding containsCI_def by blast
  then have "u @ t = (u @ a) @ x @ b \<and> map toLowerCh x = map toLowerCh w" by simp
  then show ?thesis unfolding containsCI_def by blast
qed

lemma ms_stri:
  "t \<in> set (ms (stri w) s) \<Longrightarrow> \<exists>x. rest s = x @ rest t \<and> map toLowerCh x = map toLowerCh w"
proof (induction w arbitrary: s)
  case Nil
  then show ?case by (simp add: stri_def seqs_def)
next
  case (Cons c w)
  from Cons.prems obtain s' where s': "s' \<in> set (ms (chi c) s)" "t \<in> set (ms (stri w) s')"
    by (auto simp: stri_def seqs_def)
  from s'(1) obtain d where d: "rest s = d # rest s'" "toLowerCh d = toLowerCh c"
    by (cases "rest s") (auto simp: chi_def split: if_splits)
  obtain x where x: "rest s' = x @ rest t" "map toLowerCh x = map toLowerCh w"
    using Cons.IH[OF s'(2)] by blast
  have "rest s = (d # x) @ rest t \<and> map toLowerCh (d # x) = map toLowerCh (c # w)"
    using d x by simp
  then show ?case by blast
qed

lemma needs_stri: "needs w (stri w)"
proof -
  have "containsCI w (rest s)" if m: "t \<in> set (ms (stri w) s)" for s t
  proof -
    obtain x where "rest s = x @ rest t" "map toLowerCh x = map toLowerCh w"
      using ms_stri[OF m] by blast
    then have "rest s = [] @ x @ rest t \<and> map toLowerCh x = map toLowerCh w" by simp
    then show ?thesis unfolding containsCI_def by blast
  qed
  then show ?thesis unfolding needs_def by blast
qed

lemma needs_Seq1: "needs w a \<Longrightarrow> needs w (Seq a b)"
  unfolding needs_def by auto

lemma needs_Seq2: "needs w b \<Longrightarrow> needs w (Seq a b)"
proof -
  assume n: "needs w b"
  have "containsCI w (rest s)" if m: "t \<in> set (ms (Seq a b) s)" for s t
  proof -
    from m obtain s' where s': "s' \<in> set (ms a s)" "t \<in> set (ms b s')" by auto
    have c: "containsCI w (rest s')" using n s'(2) unfolding needs_def by blast
    obtain u where "rest s = u @ rest s'" using ms_forward[OF s'(1)] by blast
    then show ?thesis using containsCI_forward[OF c] by simp
  qed
  then show ?thesis unfolding needs_def by blast
qed

lemma needs_seqs: "\<exists>r\<in>set rs. needs w r \<Longrightarrow> needs w (seqs rs)"
proof (induction rs)
  case Nil
  then show ?case by simp
next
  case (Cons a rs)
  have e: "seqs (a # rs) = Seq a (seqs rs)" by (simp add: seqs_def)
  show ?case
  proof (cases "needs w a")
    case True
    then show ?thesis unfolding e by (rule needs_Seq1)
  next
    case False
    then have "\<exists>r\<in>set rs. needs w r" using Cons.prems by auto
    then have "needs w (seqs rs)" by (rule Cons.IH)
    then show ?thesis unfolding e by (rule needs_Seq2)
  qed
qed

lemma needs_bounded: "needs w r \<Longrightarrow> needs w (bounded r)"
  unfolding bounded_def by (rule needs_seqs) simp

lemma exec_from_needs:
  "needs w r \<Longrightarrow> exec_from r p s i = Some m \<Longrightarrow> containsCI w s"
proof (induction s arbitrary: p i)
  case Nil
  then obtain t where "t \<in> set (ms r (MS p [] []))"
    by (cases "ms r (MS p [] [])") auto
  then have "containsCI w (rest (MS p [] []))" using Nil.prems(1) unfolding needs_def by blast
  then show ?case by simp
next
  case (Cons c cs)
  show ?case
  proof (cases "ms r (MS p (c # cs) [])")
    case Nil
    then have "exec_from r (Some c) cs (Suc i) = Some m" using Cons.prems(2) by simp
    then have "containsCI w cs" using Cons.IH Cons.prems(1) by blast
    then have "containsCI w ([c] @ cs)" by (rule containsCI_forward)
    then show ?thesis by simp
  next
    case (Cons t ts)
    then have "t \<in> set (ms r (MS p (c # cs) []))" by simp
    then have "containsCI w (rest (MS p (c # cs) []))" using Cons.prems(1) unfolding needs_def by blast
    then show ?thesis by simp
  qed
qed

lemma rx_test_needs: "needs w r \<Longrightarrow> rx_test r s \<Longrightarrow> containsCI w s"
  unfolding rx_test_def rx_exec_def using exec_from_needs by fastforce

lemma rx_index_needs: "needs w r \<Longrightarrow> rx_index r s = Some i \<Longrightarrow> containsCI w s"
  unfolding rx_index_def rx_exec_def using exec_from_needs by fastforce

text \<open>From a literal to a part of it, and to \<open>includes\<close> on the lower-case text.\<close>

lemma containsCI_part: "containsCI (a @ w @ b) s \<Longrightarrow> containsCI w s"
proof -
  assume "containsCI (a @ w @ b) s"
  then obtain u x v where s: "s = u @ x @ v" and x: "map toLowerCh x = map toLowerCh (a @ w @ b)"
    unfolding containsCI_def by blast
  from x have "map toLowerCh x = map toLowerCh a @ (map toLowerCh w @ map toLowerCh b)" by simp
  then have "\<exists>us vs. x = us @ vs \<and> map toLowerCh a = map toLowerCh us
               \<and> map toLowerCh w @ map toLowerCh b = map toLowerCh vs"
    by (simp only: map_eq_append_conv)
  then obtain xa xr where 1: "x = xa @ xr" "map toLowerCh w @ map toLowerCh b = map toLowerCh xr"
    by blast
  from 1(2) have "\<exists>us vs. xr = us @ vs \<and> map toLowerCh w = map toLowerCh us
               \<and> map toLowerCh b = map toLowerCh vs"
    by (simp only: append_eq_map_conv)
  then obtain xw xb where 2: "xr = xw @ xb" "map toLowerCh xw = map toLowerCh w"
    by metis
  have "s = (u @ xa) @ xw @ (xb @ v) \<and> map toLowerCh xw = map toLowerCh w"
    using s 1 2 by simp
  then show ?thesis unfolding containsCI_def by blast
qed

lemma strIncludes_append: "strIncludes (u @ w @ v) w"
proof (induction u)
  case Nil
  have t: "take (length w) (w @ v) = w" by simp
  show ?case
  proof (cases "w @ v")
    case Nil
    then show ?thesis by simp
  next
    case (Cons a l)
    have "take (length w) (a # l) = w" using t unfolding Cons .
    then show ?thesis using Cons by simp
  qed
next
  case (Cons c u)
  then show ?case by simp
qed

lemma containsCI_includes:
  "containsCI w s \<Longrightarrow> map toLowerCh w = w \<Longrightarrow> strIncludes (toLowerCase s) w"
proof -
  assume "containsCI w s" and l: "map toLowerCh w = w"
  then obtain u x v where "s = u @ x @ v" "map toLowerCh x = map toLowerCh w"
    unfolding containsCI_def by blast
  then have "toLowerCase s = map toLowerCh u @ w @ map toLowerCh v"
    using l by (simp add: toLowerCase_def)
  then show ?thesis using strIncludes_append by simp
qed

section \<open>The examples, evaluated\<close>

lemma subject_whatIsAcme: "definitionSubject whatIsAcme = Some ''Acme''"
  by code_simp

lemma search_guideStore:
  "search codeUnitLe whatIsAcme guideStore (Some [1]) =
     Json (Snippet ''This guide covers Acme. What is Acme?'' [''what'', ''is'', ''acme''])
       ''g.txt'' (- 0.03) None"
  by code_simp

lemma stages_toolStore: "comparisonStages whatIsAcme toolStore = Inr toolStore"
  by code_simp

lemma scoreAll_toolStore:
  "scoreAll whatIsAcme toolStore [1] (vectorsToSearch whatIsAcme toolStore) = Inr [toolCandidate]"
  by code_simp

lemma tier1_toolStore: "tier1Candidates ''Acme'' toolStore [toolCandidate] = [toolCandidate]"
  by code_simp

lemma search_toolStore:
  "search codeUnitLe whatIsAcme toolStore (Some [1]) =
     Json (Snippet ''Acme is a tool.'' [''what'', ''is'', ''acme'']) ''a.txt'' 0.87 None"
  by code_simp

lemma tier1_toolSentence: "isTier1Chunk ''Acme'' twoDocStore toolSentence"
  by code_simp

lemma search_twoDocStore:
  "search codeUnitLe whatIsAcme twoDocStore (Some [1]) =
     Json (Text ''Acme is a platform that helps organizations analyze and optimize their operations.'')
       ''acme.txt'' 0.70
       (Some ''Definition synthesized due to absence of explicit definition sentence'')"
  by code_simp

lemma scoreAll_strayStore:
  "scoreAll ''Acme'' strayStore [1, 0] strayStore = Inr [acmeToolCandidate]"
  by code_simp

lemma foundWords_strayChunk: "foundWords (queryWordsOf ''Acme'') strayChunk = 0"
  by code_simp

lemma cosine_strayChunk: "cosineSimilarity [1, 0] (embedding strayChunk) = Inr 0"
  by code_simp

lemma definitionStage_strayStore:
  "definitionStage codeUnitLe ''Acme'' strayStore [acmeToolCandidate] = Inr [acmeToolCandidate]"
  by code_simp

section \<open>The claims\<close>

subsection \<open>C1: the confidence of a response\<close>

text \<open>Claim C1 says that every response has a confidence between 0 and 1, and that the
  confidence of the ranking path is never negative.  The route computes
  \<open>Math.min(1.0, finalScore / 3.1)\<close> under the comment ``Normalize score to 0.0-1.0 range'', and
  nothing bounds it from below.  For the query ``What is Acme?'' and a store of one chunk
  ``This guide covers Acme. What is Acme?'', the chunk is a soft definition of the second tier,
  its score is 1 + 0.3 + 0.1 - 1.5, and the response has the confidence -0.03.\<close>

theorem confidence_negative:
  "search codeUnitLe whatIsAcme guideStore (Some [1]) =
     Json (Snippet ''This guide covers Acme. What is Acme?'' [''what'', ''is'', ''acme''])
       ''g.txt'' (- 0.03) None
   \<and> confidence (search codeUnitLe whatIsAcme guideStore (Some [1])) < 0"
  by (simp add: search_guideStore)

subsection \<open>C2: the first tier of a definition query\<close>

text \<open>Claim C2, amended.  The first tier is taken among the scored candidates, which are chunks
  of the relevant documents that passed the admission rule, not among all chunks of the corpus.
  For a definition query with a subject, when the comparison filters leave \<open>allVectors\<close>, the
  scoring succeeds and some candidate is of the first tier, the response is the ranked response
  of a candidate of the first tier whose score no other candidate of the first tier exceeds.\<close>


theorem tier1_restricts_ranking:
  assumes "definitionSubject query = Some subject"
      and "comparisonStages query store = Inr allVectors"
      and "scoreAll query allVectors qe (vectorsToSearch query allVectors) = Inr candidates"
      and "tier1Candidates subject allVectors candidates \<noteq> []"
  shows "\<exists>c\<in>set (tier1Candidates subject allVectors candidates).
           search le query store (Some qe) = rankedResponse query c
           \<and> (\<forall>d\<in>set (tier1Candidates subject allVectors candidates). finalScore d \<le> finalScore c)"
proof -
  let ?t1 = "tier1Candidates subject allVectors candidates"
  have d: "isDefinition query" using assms(1) by (rule subject_isDefinition)
  have q: "trim query \<noteq> []" using d by (rule isDefinition_nonblank)
  have "candidates \<noteq> []" using assms(4) by (auto simp: tier1Candidates_def)
  then have s: "store \<noteq> []" using candidates_store_nonempty assms(2,3) by blast
  have st: "definitionStage le query allVectors candidates = Inr ?t1"
    using assms(1,4) by (simp add: definitionStage_def)
  have r: "ranked query ?t1 = sortBy (\<lambda>a b. finalScore a \<ge> finalScore b) ?t1"
    by (simp add: ranked_def usageFilters_definition[OF d])
  obtain b bs where bb: "sortBy (\<lambda>a b. finalScore a \<ge> finalScore b) ?t1 = b # bs"
    using assms(4) sortBy_Nil_iff by (metis list.exhaust)
  have h: "b \<in> set ?t1 \<and> (\<forall>x\<in>set ?t1. finalScore x \<le> finalScore b)"
    using bb by (rule sortBy_score_head)
  have "search le query store (Some qe) = rankedResponse query b"
    using search_after_scoring[OF q s assms(2,3)] st r bb finalStage_definition[OF d] by simp
  then show ?thesis using h by blast
qed

theorem tier1_restricts_ranking_witness:
  "definitionSubject whatIsAcme = Some ''Acme''
   \<and> comparisonStages whatIsAcme toolStore = Inr toolStore
   \<and> scoreAll whatIsAcme toolStore [1] (vectorsToSearch whatIsAcme toolStore) = Inr [toolCandidate]
   \<and> tier1Candidates ''Acme'' toolStore [toolCandidate] = [toolCandidate]
   \<and> search codeUnitLe whatIsAcme toolStore (Some [1]) = rankedResponse whatIsAcme toolCandidate"
proof -
  have t: "tier1Candidates ''Acme'' toolStore [toolCandidate] \<noteq> []"
    by (simp add: tier1_toolStore)
  have "\<exists>c\<in>set (tier1Candidates ''Acme'' toolStore [toolCandidate]).
          search codeUnitLe whatIsAcme toolStore (Some [1]) = rankedResponse whatIsAcme c
          \<and> (\<forall>d\<in>set (tier1Candidates ''Acme'' toolStore [toolCandidate]). finalScore d \<le> finalScore c)"
    by (rule tier1_restricts_ranking[OF subject_whatIsAcme stages_toolStore scoreAll_toolStore t])
  then have "search codeUnitLe whatIsAcme toolStore (Some [1]) = rankedResponse whatIsAcme toolCandidate"
    by (simp add: tier1_toolStore)
  then show ?thesis
    using subject_whatIsAcme stages_toolStore scoreAll_toolStore tier1_toolStore by simp
qed

text \<open>Claim C2 as it is written fails.  In the store below the chunk ``Acme is a tool.'' of
  \<open>b.txt\<close> is of the first tier, but \<open>b.txt\<close> is no relevant document for the entity (its name,
  its chunk 0 and its first chunks do not hold ``Acme''), so the chunk is never scored, and the
  response is synthesized from \<open>acme.txt\<close>.\<close>

theorem tier1_chunk_not_searched:
  "definitionSubject whatIsAcme = Some ''Acme''
   \<and> toolSentence \<in> set twoDocStore
   \<and> isTier1Chunk ''Acme'' twoDocStore toolSentence
   \<and> search codeUnitLe whatIsAcme twoDocStore (Some [1]) =
       Json (Text ''Acme is a platform that helps organizations analyze and optimize their operations.'')
         ''acme.txt'' 0.70
         (Some ''Definition synthesized due to absence of explicit definition sentence'')
   \<and> source (search codeUnitLe whatIsAcme twoDocStore (Some [1])) \<noteq> sourceFile (chunk toolSentence)"
  using subject_whatIsAcme tier1_toolSentence search_twoDocStore
  by (simp add: twoDocStore_def toolSentence_def mkVector_def)

subsection \<open>C7: the admission of a candidate\<close>

text \<open>Claim C7.  A chunk without any word of the query (\<open>hasQueryKeywords\<close> false) and with a
  similarity below 0.80 gives no candidate: the loop drops it before any bonus is computed, it
  is not among the candidates, and it is not in the ranked list, whatever the definition stage
  and the usage filters keep.\<close>


theorem admission_rule:
  assumes "scoreAll query allVectors qe vs = Inr candidates"
      and "foundWords (queryWordsOf query) v = 0"
      and "cosineSimilarity qe (embedding v) = Inr s"
      and "s < 0.80"
  shows "scoreChunk query allVectors qe v = Inr None
         \<and> v \<notin> vector ` set candidates
         \<and> (\<forall>toRank. definitionStage le query allVectors candidates = Inr toRank
               \<longrightarrow> v \<notin> vector ` set (ranked query toRank))"
proof -
  have 1: "scoreChunk query allVectors qe v = Inr None"
    using assms(2,3,4) by (simp add: scoreChunk_def)
  have 2: "v \<notin> vector ` set candidates"
  proof
    assume "v \<in> vector ` set candidates"
    then obtain c where c: "c \<in> set candidates" "vector c = v" by auto
    then obtain u where u: "scoreChunk query allVectors qe u = Inr (Some c)"
      using scoreAll_member[OF assms(1)] by blast
    then have "u = v" using scoreChunk_vector c by blast
    then show False using u 1 by simp
  qed
  have 3: "v \<notin> vector ` set (ranked query toRank)"
    if "definitionStage le query allVectors candidates = Inr toRank" for toRank
  proof -
    have "set (ranked query toRank) \<subseteq> set candidates"
      using set_ranked definitionStage_subset[OF that] by blast
    then show ?thesis using 2 by blast
  qed
  show ?thesis using 1 2 3 by blast
qed

theorem admission_rule_witness:
  "scoreAll ''Acme'' strayStore [1, 0] strayStore = Inr [acmeToolCandidate]
   \<and> foundWords (queryWordsOf ''Acme'') strayChunk = 0
   \<and> cosineSimilarity [1, 0] (embedding strayChunk) = Inr 0
   \<and> scoreChunk ''Acme'' strayStore [1, 0] strayChunk = Inr None
   \<and> strayChunk \<notin> vector ` set [acmeToolCandidate]
   \<and> definitionStage codeUnitLe ''Acme'' strayStore [acmeToolCandidate] = Inr [acmeToolCandidate]
   \<and> strayChunk \<notin> vector ` set (ranked ''Acme'' [acmeToolCandidate])"
proof -
  have lt: "(0 :: real) < 0.80" by simp
  show ?thesis
    using admission_rule[OF scoreAll_strayStore foundWords_strayChunk cosine_strayChunk lt,
                         of codeUnitLe]
      scoreAll_strayStore foundWords_strayChunk cosine_strayChunk definitionStage_strayStore
    by blast
qed

subsection \<open>C6: the synthesis of a definition\<close>

lemma stages_notesStore: "comparisonStages whatIsAcme notesStore = Inr notesStore"
  by code_simp

lemma scoreAll_notesStore:
  "scoreAll whatIsAcme notesStore [1] (vectorsToSearch whatIsAcme notesStore) = Inr [notesCandidate]"
  by code_simp

lemma tier1_notesStore: "tier1Candidates ''Acme'' notesStore [notesCandidate] = []"
  by code_simp

lemma tier2_notesStore: "tier2Candidates ''Acme'' notesStore [notesCandidate] = []"
  by code_simp

lemma intro_notesStore:
  "bestIntroChunk codeUnitLe ''Acme'' notesStore (vectorsToSearch whatIsAcme notesStore) =
     Some (mkVector ''Acme notes'' ''a.txt'' 0 [1])"
  by code_simp

lemma category_notes: "categoryPartOf ''Acme notes'' = ''platform''"
  by code_simp

lemma purpose_notes:
  "purposePartOf ''Acme notes'' = ''helps organizations analyze and optimize their operations''"
  by code_simp

lemma spec_rocksStore: "specIntroChunk codeUnitLe ''Acme'' rocksStore = Some acmeRocks"
  by code_simp

lemma intro_rocksStore:
  "bestIntroChunk codeUnitLe ''Acme'' rocksStore (vectorsToSearch whatIsAcme rocksStore) =
     Some (mkVector ''Acme rules'' ''b.txt'' 0 [1])"
  by code_simp

lemma search_rocksStore:
  "search codeUnitLe whatIsAcme rocksStore (Some [1]) =
     Json (Text ''Acme is a platform that helps organizations analyze and optimize their operations.'')
       ''b.txt'' 0.70
       (Some ''Definition synthesized due to absence of explicit definition sentence'')"
  by code_simp

text \<open>Claim C6, amended.  When the synthesis fires (a definition query with a subject, both
  tiers empty, an intro chunk found), the chunk comes from the vectors of the search (those the
  comparison filters and the document relevance filter have left), sorted by document name and
  chunk index.  A chunk is eligible when it lies in the first 30 percent of its document and
  holds the subject.  The chosen chunk is the first eligible chunk 0 of the sorted list when
  there is one, otherwise the first eligible chunk with at most two architecture indicators.
  The answer reads \<open><subject> is a <category> that <purpose>.\<close>, the confidence is 0.70, the
  source is the document of the chosen chunk, and neither a score nor a snippet enters the
  response.\<close>


theorem synthesis_fallback:
  assumes "definitionSubject query = Some subject"
      and "comparisonStages query store = Inr allVectors"
      and "scoreAll query allVectors qe (vectorsToSearch query allVectors) = Inr candidates"
      and "tier1Candidates subject allVectors candidates = []"
      and "tier2Candidates subject allVectors candidates = []"
      and "bestIntroChunk le subject allVectors (vectorsToSearch query allVectors) = Some v"
      and "store \<noteq> []"
  shows "search le query store (Some qe) =
           Json (Text (subject @ '' is a '' @ categoryPartOf (textOf (chunk v)) @ '' that ''
                       @ purposePartOf (textOf (chunk v)) @ ''.''))
             (sourceFile (chunk v)) 0.70
             (Some ''Definition synthesized due to absence of explicit definition sentence'')
         \<and> v \<in> set (vectorsToSearch query allVectors)
         \<and> introEligible subject allVectors v
         \<and> (chunkIndex (chunk v) = 0 \<or> archIndicatorCount (textOf (chunk v)) \<le> 2)
         \<and> (case find (\<lambda>u. introEligible subject allVectors u \<and> chunkIndex (chunk u) = 0)
                    (sortBy (byPosition le) (vectorsToSearch query allVectors)) of
              Some z \<Rightarrow> v = z
            | None \<Rightarrow>
                find (\<lambda>u. introEligible subject allVectors u \<and> archIndicatorCount (textOf (chunk u)) \<le> 2)
                  (sortBy (byPosition le) (vectorsToSearch query allVectors)) = Some v)"
proof -
  let ?sorted = "sortBy (byPosition le) (vectorsToSearch query allVectors)"
  let ?f0 = "find (\<lambda>u. introEligible subject allVectors u \<and> chunkIndex (chunk u) = 0) ?sorted"
  let ?f2 = "find (\<lambda>u. introEligible subject allVectors u \<and> archIndicatorCount (textOf (chunk u)) \<le> 2) ?sorted"
  have d: "isDefinition query" using assms(1) by (rule subject_isDefinition)
  have q: "trim query \<noteq> []" using d by (rule isDefinition_nonblank)
  have st: "definitionStage le query allVectors candidates = Inl (synthesizedResponse subject v)"
    using assms(1,4,5,6) by (simp add: definitionStage_def)
  have 1: "search le query store (Some qe) = synthesizedResponse subject v"
    using search_after_scoring[OF q assms(7) assms(2,3)] st by simp
  have p: "(case ?f0 of Some z \<Rightarrow> Some z | None \<Rightarrow> ?f2) = Some v"
    using assms(6) by (simp add: bestIntroChunk_def pickIntroChunk_eq split: option.splits)
  have sel: "(case ?f0 of Some z \<Rightarrow> v = z | None \<Rightarrow> ?f2 = Some v)"
    using p by (cases ?f0) auto
  have mem: "v \<in> set ?sorted \<and> introEligible subject allVectors v
             \<and> (chunkIndex (chunk v) = 0 \<or> archIndicatorCount (textOf (chunk v)) \<le> 2)"
  proof (cases ?f0)
    case None
    then have "?f2 = Some v" using p by simp
    then show ?thesis by (auto simp: find_Some_iff)
  next
    case (Some z)
    then have "z = v" using p by simp
    then show ?thesis using Some by (auto simp: find_Some_iff)
  qed
  show ?thesis
    using 1 sel mem by (simp add: synthesizedResponse_def synthesizedAnswer_def set_sortBy)
qed

theorem synthesis_fallback_witness:
  "definitionSubject whatIsAcme = Some ''Acme''
   \<and> comparisonStages whatIsAcme notesStore = Inr notesStore
   \<and> scoreAll whatIsAcme notesStore [1] (vectorsToSearch whatIsAcme notesStore) = Inr [notesCandidate]
   \<and> tier1Candidates ''Acme'' notesStore [notesCandidate] = []
   \<and> tier2Candidates ''Acme'' notesStore [notesCandidate] = []
   \<and> bestIntroChunk codeUnitLe ''Acme'' notesStore (vectorsToSearch whatIsAcme notesStore) =
        Some (mkVector ''Acme notes'' ''a.txt'' 0 [1])
   \<and> search codeUnitLe whatIsAcme notesStore (Some [1]) =
        Json (Text ''Acme is a platform that helps organizations analyze and optimize their operations.'')
          ''a.txt'' 0.70
          (Some ''Definition synthesized due to absence of explicit definition sentence'')"
proof -
  have ne: "notesStore \<noteq> []" by (simp add: notesStore_def)
  have "search codeUnitLe whatIsAcme notesStore (Some [1]) =
          Json (Text (''Acme'' @ '' is a '' @ categoryPartOf (textOf (chunk (mkVector ''Acme notes'' ''a.txt'' 0 [1])))
                      @ '' that '' @ purposePartOf (textOf (chunk (mkVector ''Acme notes'' ''a.txt'' 0 [1]))) @ ''.''))
            (sourceFile (chunk (mkVector ''Acme notes'' ''a.txt'' 0 [1]))) 0.70
            (Some ''Definition synthesized due to absence of explicit definition sentence'')"
    using synthesis_fallback[OF subject_whatIsAcme stages_notesStore scoreAll_notesStore
                                tier1_notesStore tier2_notesStore intro_notesStore ne]
    by (rule conjunct1)
  then have "search codeUnitLe whatIsAcme notesStore (Some [1]) =
        Json (Text ''Acme is a platform that helps organizations analyze and optimize their operations.'')
          ''a.txt'' 0.70
          (Some ''Definition synthesized due to absence of explicit definition sentence'')"
    by (simp add: mkVector_def category_notes purpose_notes)
  then show ?thesis
    using subject_whatIsAcme stages_notesStore scoreAll_notesStore tier1_notesStore tier2_notesStore
      intro_notesStore by simp
qed

text \<open>Claim C6 as it is written fails.  In the store below, the first chunk of the sorted
  list that satisfies the three conditions of the claim is chunk 1 of \<open>acme.txt\<close> (position 1/4,
  no architecture indicator).  The loop keeps it and goes on, and chunk 0 of \<open>b.txt\<close>, later in
  the order, replaces it: the answer comes from \<open>b.txt\<close>.\<close>

theorem later_chunk0_wins:
  "specIntroChunk codeUnitLe ''Acme'' rocksStore = Some acmeRocks
   \<and> sourceFile (chunk acmeRocks) = ''acme.txt''
   \<and> bestIntroChunk codeUnitLe ''Acme'' rocksStore (vectorsToSearch whatIsAcme rocksStore) =
        Some (mkVector ''Acme rules'' ''b.txt'' 0 [1])
   \<and> search codeUnitLe whatIsAcme rocksStore (Some [1]) =
        Json (Text ''Acme is a platform that helps organizations analyze and optimize their operations.'')
          ''b.txt'' 0.70
          (Some ''Definition synthesized due to absence of explicit definition sentence'')"
  using spec_rocksStore intro_rocksStore search_rocksStore
  by (simp add: acmeRocks_def mkVector_def)

subsection \<open>C4: contrast language in the ranking of a comparison\<close>

lemma stages_compareStore: "comparisonStages compareAcme compareStore = Inr [contrastChunk, plainChunk]"
  by code_simp

lemma scoring_compareAcme: "comparisonScoring compareAcme \<and> \<not> isDefinition compareAcme"
  by code_simp

lemma scoreAll_compareStore:
  "scoreAll compareAcme [contrastChunk, plainChunk] [1, 0]
     (vectorsToSearch compareAcme [contrastChunk, plainChunk]) = Inr [contrastCandidate, plainCandidate]"
  by code_simp

lemma contrast_chunks:
  "hasContrast (textOf (chunk contrastChunk)) \<and> \<not> hasContrast (textOf (chunk plainChunk))"
  by code_simp

lemma search_compareStore:
  "search codeUnitLe compareAcme compareStore (Some [1, 0]) =
     Json (Snippet ''we compare Acme plans'' [''compare'', ''acme'']) ''d.txt'' 0.29 None"
  by code_simp

text \<open>Claim C4 says that, for a comparison query, a chunk without contrast language never
  outranks a chunk with contrast language, and the scoring loop states it as its ``HARD RULE''.
  The loop only adds 0.2 to 0.6 to the one and subtracts 0.4 from the other, and the other
  terms of the score can differ by more.  For the query ``compare Acme'' the chunk ``Acme is fast
  but costly'' (contrast language, similarity 0, coverage 1/2) scores 0.35, the chunk ``we
  compare Acme plans'' (no contrast language, similarity 1, coverage 1) scores 0.9 and is the
  answer.\<close>

theorem contrast_rule_broken:
  "comparisonStages compareAcme compareStore = Inr [contrastChunk, plainChunk]
   \<and> comparisonScoring compareAcme \<and> \<not> isDefinition compareAcme
   \<and> scoreAll compareAcme [contrastChunk, plainChunk] [1, 0]
        (vectorsToSearch compareAcme [contrastChunk, plainChunk]) = Inr [contrastCandidate, plainCandidate]
   \<and> hasContrast (textOf (chunk (vector contrastCandidate)))
   \<and> \<not> hasContrast (textOf (chunk (vector plainCandidate)))
   \<and> comparisonBonus contrastCandidate = 0.2 \<and> comparisonBonus plainCandidate = - 0.4
   \<and> finalScore contrastCandidate < finalScore plainCandidate
   \<and> search codeUnitLe compareAcme compareStore (Some [1, 0]) =
        Json (Snippet ''we compare Acme plans'' [''compare'', ''acme'']) ''d.txt'' 0.29 None"
  using stages_compareStore scoring_compareAcme scoreAll_compareStore contrast_chunks search_compareStore
  by (simp add: contrastCandidate_def plainCandidate_def mkCandidate_def)

subsection \<open>C3: the intents of a query\<close>

lemma intents_compareDataSources:
  "isDataUsageQuery compareDataSources \<and> \<not> isDefinition compareDataSources
   \<and> isComparisonQueryEarly compareDataSources \<and> comparisonScoring compareDataSources"
  by code_simp

lemma stages_eventStore: "comparisonStages compareDataSources eventStore = Inr [eventChunk, plainChunk]"
  by code_simp

lemma scoreAll_eventStore:
  "scoreAll compareDataSources [eventChunk, plainChunk] [1, 0]
     (vectorsToSearch compareDataSources [eventChunk, plainChunk]) = Inr [eventCandidate, plainDataCandidate]"
  by code_simp

lemma ranked_eventStore: "ranked compareDataSources [eventCandidate, plainDataCandidate] = [eventCandidate]"
  by code_simp

lemma search_eventStore:
  "search codeUnitLe compareDataSources eventStore (Some [1, 0]) =
     Json (Snippet ''Acme reads event logs but slowly'' [''compare'', ''data'', ''sources'', ''of'', ''acme''])
       ''d.txt'' 0.08 None"
  by code_simp

lemma intents_quotedQuestion:
  "isDefinition quotedQuestion \<and> \<not> isDefinitionQueryEarly quotedQuestion
   \<and> isComparisonQueryEarly quotedQuestion"
  by code_simp

lemma search_quotedQuestion:
  "search codeUnitLe quotedQuestion toolStore (Some [1]) =
     Json (Text ''No clear comparison found in the provided documents.'') [] 0 None"
  by code_simp

text \<open>Claim C3 says that at most one of the four intents handles a request, that a definition
  dominates, and that comparison, data usage and AI usage exclude each other.  The scoring
  loop says so itself: it tests ``if this is a data or AI usage query (to exclude from comparison
  scoring)'', but with three of the eight data-usage patterns only.  The query ``compare data
  sources of Acme'' is a data-usage query that passes this test: the comparison filters drop
  chunk 0, the two other chunks get the comparison bonus (0.2 and -0.4), the data-usage filter
  then removes the chunk with the higher score, and the answer is the chunk that scores 0.26
  against 0.72.  Two intents have handled one request.

  The definition does not dominate either: the early check of the comparison filters tests the
  raw query only, the definition detection of the scoring also its normalized form.  The
  question ``What is Acme vs Zeta?'' typed with its quotation marks is a definition query for
  the scoring and none for the early check, and on a store with the one chunk ``Acme is a
  tool.'' it is answered as a comparison.\<close>

theorem two_intents_one_request:
  "isDataUsageQuery compareDataSources \<and> \<not> isDefinition compareDataSources
   \<and> isComparisonQueryEarly compareDataSources \<and> comparisonScoring compareDataSources
   \<and> comparisonStages compareDataSources eventStore = Inr [eventChunk, plainChunk]
   \<and> scoreAll compareDataSources [eventChunk, plainChunk] [1, 0]
        (vectorsToSearch compareDataSources [eventChunk, plainChunk]) = Inr [eventCandidate, plainDataCandidate]
   \<and> comparisonBonus eventCandidate = 0.2 \<and> comparisonBonus plainDataCandidate = - 0.4
   \<and> finalScore eventCandidate < finalScore plainDataCandidate
   \<and> ranked compareDataSources [eventCandidate, plainDataCandidate] = [eventCandidate]
   \<and> search codeUnitLe compareDataSources eventStore (Some [1, 0]) =
        Json (Snippet ''Acme reads event logs but slowly'' [''compare'', ''data'', ''sources'', ''of'', ''acme''])
          ''d.txt'' 0.08 None
   \<and> isDefinition quotedQuestion \<and> \<not> isDefinitionQueryEarly quotedQuestion
   \<and> isComparisonQueryEarly quotedQuestion
   \<and> search codeUnitLe quotedQuestion toolStore (Some [1]) =
        Json (Text ''No clear comparison found in the provided documents.'') [] 0 None"
  using intents_compareDataSources stages_eventStore scoreAll_eventStore ranked_eventStore
    search_eventStore intents_quotedQuestion search_quotedQuestion
  by (simp add: eventCandidate_def plainDataCandidate_def mkCandidate_def)

subsection \<open>C10: the literal entities of the comparison\<close>

lemma categorize_OtherValid:
  "categorize e rng i v = OtherValid \<Longrightarrow> rx_test (entity1Pattern e) (textOf (chunk v))"
  by (simp add: categorize_def Let_def split: if_splits)

lemma categorizeAll_member:
  "(verdict, v) \<in> set (categorizeAll e vs) \<Longrightarrow> \<exists>rng i. verdict = categorize e rng i v"
  by (auto simp: categorizeAll_def)

lemma tc5Filter_kept:
  assumes "tc5Filter e vs = Inr kept" and "v \<in> set kept"
  shows "(InComparisonSection, v) \<in> set (categorizeAll e vs)
         \<or> rx_test (entity1Pattern e) (textOf (chunk v))"
proof -
  let ?verdicts = "categorizeAll e vs"
  let ?inSection = "map snd (filter (\<lambda>p. fst p = InComparisonSection) ?verdicts)"
  let ?others = "map snd (filter (\<lambda>p. fst p = OtherValid) ?verdicts)"
  from assms(1) consider "kept = ?inSection" | "kept = ?others"
    by (auto simp: tc5Filter_def Let_def split: if_splits)
  then show ?thesis
  proof cases
    case 1
    then have "(InComparisonSection, v) \<in> set ?verdicts" using assms(2) by auto
    then show ?thesis by simp
  next
    case 2
    then have "(OtherValid, v) \<in> set ?verdicts" using assms(2) by auto
    then obtain rng i where "categorize e rng i v = OtherValid"
      using categorizeAll_member by metis
    then show ?thesis using categorize_OtherValid by blast
  qed
qed

lemma needs_phrase: "w \<in> set ws \<Longrightarrow> needs w (phrase ws)"
proof (induction ws rule: phrase.induct)
  case 1
  then show ?case by simp
next
  case (2 u)
  then show ?case by (simp add: needs_stri)
next
  case (3 u v ws)
  show ?case
  proof (cases "w = u")
    case True
    then show ?thesis by (simp add: needs_Seq1 needs_stri)
  next
    case False
    then have "needs w (phrase (v # ws))" using 3 by simp
    then show ?thesis by (simp add: needs_Seq2)
  qed
qed

lemma lower_entities: "map toLowerCh ''celonis'' = ''celonis'' \<and> map toLowerCh ''agentic'' = ''agentic''"
  by code_simp

lemma needs_first_five:
  "p \<in> set (take 5 explicitDualEntityPatterns) \<Longrightarrow> needs ''celonis'' p \<and> needs ''agentic'' p"
  by (auto simp: explicitDualEntityPatterns_def needs_stri needs_phrase simp del: phrase.simps
        intro!: needs_seqs)

lemma first_five_entities:
  assumes "someTest (take 5 explicitDualEntityPatterns) t"
  shows "strIncludes (toLowerCase t) ''celonis'' \<and> strIncludes (toLowerCase t) ''agentic''"
proof -
  from assms obtain p where p: "p \<in> set (take 5 explicitDualEntityPatterns)" "rx_test p t"
    unfolding someTest_def list_ex_iff by blast
  have c: "containsCI ''celonis'' t"
    using needs_first_five[OF p(1)] p(2) rx_test_needs by blast
  have a: "containsCI ''agentic'' t"
    using needs_first_five[OF p(1)] p(2) rx_test_needs by blast
  have lc: "map toLowerCh ''celonis'' = ''celonis''" using lower_entities by (rule conjunct1)
  have la: "map toLowerCh ''agentic'' = ''agentic''" using lower_entities by (rule conjunct2)
  have 1: "strIncludes (toLowerCase t) ''celonis''" using c lc by (rule containsCI_includes)
  have 2: "strIncludes (toLowerCase t) ''agentic''" using a la by (rule containsCI_includes)
  show ?thesis using 1 2 by (rule conjI)
qed

lemma bonus_unlikeAgentic:
  "someTest (take 5 explicitDualEntityPatterns) unlikeAgentic \<and> comparisonBonusOf unlikeAgentic = 0.6"
  by code_simp

lemma intents_compareTools:
  "isComparisonQueryEarly compareTools \<and> \<not> isDefinitionQueryEarly compareTools
   \<and> extractEntityEarly compareTools = None \<and> comparisonScoring compareTools"
  by code_simp

lemma stages_toolsStore: "comparisonStages compareTools toolsStore = Inr [celonisChunk]"
  by code_simp

lemma no_section_toolsStore: "(InComparisonSection, celonisChunk) \<notin> set (categorizeAll None toolsStore)"
  by code_simp

lemma bonus_celonisAgentic: "comparisonBonusOf celonisAgentic = 0.4"
  by code_simp

lemma bonus_findsProblems: "comparisonBonusOf findsProblems = 0.6"
  by code_simp

lemma entities_findsProblems:
  "\<not> rx_test (bounded (stri ''celonis'')) (toLowerCase findsProblems)
   \<and> \<not> rx_test (bounded (stri ''agentic'')) (toLowerCase findsProblems)
   \<and> \<not> strIncludes (toLowerCase findsProblems) ''celonis''
   \<and> \<not> strIncludes (toLowerCase findsProblems) ''agentic''"
  by code_simp

text \<open>Claim C10, amended.  For a comparison query that is no definition and names no
  capitalized entity, every chunk the comparison filters keep is in a detected comparison
  section or holds the word ``celonis''.  The bonus of 0.4 goes only to chunks with contrast
  language that hold both words ``celonis'' and ``agentic''.  The bonus of 0.6 goes exactly to
  the chunks that match one of the ten explicit patterns of the source; a match of one of the
  first five holds both ``celonis'' and ``agentic'', the other five are phrases without either
  word, so this bonus does not need the two words.  None of it depends on the entities of the
  query.\<close>

theorem literal_entities:
  assumes "isComparisonQueryEarly query" and "\<not> isDefinitionQueryEarly query"
      and "extractEntityEarly query = None"
      and "comparisonStages query store = Inr kept" and "v \<in> set kept"
  shows "((InComparisonSection, v) \<in> set (categorizeAll None store)
          \<or> rx_test (bounded (stri ''celonis'')) (textOf (chunk v)))
         \<and> (comparisonBonusOf t = 0.4 \<longrightarrow> hasContrast t \<and> mentionsBothEntities t)
         \<and> (comparisonBonusOf t = 0.6 \<longleftrightarrow> someTest explicitDualEntityPatterns t)
         \<and> (someTest (take 5 explicitDualEntityPatterns) t \<longrightarrow>
              strIncludes (toLowerCase t) ''celonis'' \<and> strIncludes (toLowerCase t) ''agentic'')"
proof -
  have ne: "store \<noteq> []"
  proof
    assume "store = []"
    then have "kept = []" using assms(4) by (simp add: comparisonStages_Nil)
    then show False using assms(5) by simp
  qed
  have "tc5Filter None store = Inr kept"
    using assms(1,2,3,4) ne by (simp add: comparisonStages_def Let_def)
  then have a: "(InComparisonSection, v) \<in> set (categorizeAll None store)
                \<or> rx_test (entity1Pattern None) (textOf (chunk v))"
    using assms(5) by (rule tc5Filter_kept)
  have b: "comparisonBonusOf t = 0.4 \<longrightarrow> hasContrast t \<and> mentionsBothEntities t"
    by (simp add: comparisonBonusOf_def)
  have c: "comparisonBonusOf t = 0.6 \<longleftrightarrow> someTest explicitDualEntityPatterns t"
    by (simp add: comparisonBonusOf_def)
  have d: "someTest (take 5 explicitDualEntityPatterns) t \<longrightarrow>
             strIncludes (toLowerCase t) ''celonis'' \<and> strIncludes (toLowerCase t) ''agentic''"
    using first_five_entities by blast
  have a': "(InComparisonSection, v) \<in> set (categorizeAll None store)
            \<or> rx_test (bounded (stri ''celonis'')) (textOf (chunk v))"
    using a by (simp add: entity1Pattern_def)
  show ?thesis using a' b c d by blast
qed

theorem literal_entities_witness:
  "isComparisonQueryEarly compareTools \<and> \<not> isDefinitionQueryEarly compareTools
   \<and> extractEntityEarly compareTools = None
   \<and> comparisonStages compareTools toolsStore = Inr [celonisChunk]
   \<and> (InComparisonSection, celonisChunk) \<notin> set (categorizeAll None toolsStore)
   \<and> rx_test (bounded (stri ''celonis'')) (textOf (chunk celonisChunk))
   \<and> comparisonBonusOf celonisAgentic = 0.4
   \<and> hasContrast celonisAgentic \<and> mentionsBothEntities celonisAgentic
   \<and> comparisonBonusOf findsProblems = 0.6
   \<and> someTest explicitDualEntityPatterns findsProblems
   \<and> someTest (take 5 explicitDualEntityPatterns) unlikeAgentic
   \<and> strIncludes (toLowerCase unlikeAgentic) ''celonis''
   \<and> strIncludes (toLowerCase unlikeAgentic) ''agentic''"
proof -
  have q: "isComparisonQueryEarly compareTools" "\<not> isDefinitionQueryEarly compareTools"
    "extractEntityEarly compareTools = None"
    using intents_compareTools by simp_all
  have m: "celonisChunk \<in> set [celonisChunk]" by simp
  note w1 = literal_entities[OF q stages_toolsStore m, of celonisAgentic]
  note w2 = literal_entities[OF q stages_toolsStore m, of findsProblems]
  note w3 = literal_entities[OF q stages_toolsStore m, of unlikeAgentic]
  show ?thesis
    using w1 w2 w3 q stages_toolsStore no_section_toolsStore bonus_celonisAgentic bonus_findsProblems
      bonus_unlikeAgentic
    by blast
qed

text \<open>Claim C10 as it is written fails for the bonus of 0.6.  The chunk text ``It finds
  problems while we execute'' matches the explicit pattern \<open>finds?\s+problems?...\<close> and gets
  0.6 for a comparison query, and holds neither ``celonis'' nor ``agentic''.\<close>

theorem explicit_bonus_without_entities:
  "comparisonScoring compareTools
   \<and> comparisonBonusOf findsProblems = 0.6
   \<and> \<not> rx_test (bounded (stri ''celonis'')) (toLowerCase findsProblems)
   \<and> \<not> rx_test (bounded (stri ''agentic'')) (toLowerCase findsProblems)
   \<and> \<not> strIncludes (toLowerCase findsProblems) ''celonis''
   \<and> \<not> strIncludes (toLowerCase findsProblems) ''agentic''"
  using intents_compareTools bonus_findsProblems entities_findsProblems by simp

subsection \<open>C5: a definition query on a topic the documents do not cover\<close>

lemma subject_acmePricing: "definitionSubject acmePricing = Some ''Acme's pricing''"
  by code_simp

lemma early_acmePricing: "isDefinitionQueryEarly acmePricing"
  by code_simp

lemma lower_pricing: "map toLowerCh ''pricing'' = ''pricing''"
  by code_simp

lemma vectorsToSearch_subset: "set (vectorsToSearch query allVectors) \<subseteq> set allVectors"
  by (auto simp: vectorsToSearch_def Let_def split: option.splits)

lemma needs_isA: "needs w (isA w)"
  unfolding isA_def by (rule needs_seqs) (simp add: needs_stri)

lemma needs_tier1: "needs w (tier1Pattern w)"
  unfolding tier1Pattern_def by (rule needs_seqs) (simp add: needs_isA)

lemma needs_tier2: "p \<in> set (tier2Patterns w) \<Longrightarrow> needs w p"
  by (auto simp: tier2Patterns_def needs_stri intro!: needs_bounded needs_seqs)

lemma no_subject_without_pricing:
  assumes "\<not> strIncludes (toLowerCase s) ''pricing''"
  shows "\<not> containsCI ''Acme's pricing'' s"
proof
  assume "containsCI ''Acme's pricing'' s"
  then have "containsCI (''Acme's '' @ ''pricing'' @ []) s" by simp
  then have "containsCI ''pricing'' s" by (rule containsCI_part)
  then have "strIncludes (toLowerCase s) ''pricing''"
    using lower_pricing by (rule containsCI_includes)
  then show False using assms by simp
qed

lemma dedupBy_Nil: "dedupBy key seen [] = []"
  by simp

lemma scoreAll_makerStore:
  "scoreAll acmePricing makerStore [1] (vectorsToSearch acmePricing makerStore) = Inr [makerCandidate]"
  by code_simp

lemma words_makerStore:
  "strIncludes (toLowerCase ''Acme makes tools.'') ''acme''
   \<and> \<not> strIncludes (toLowerCase ''Acme makes tools.'') ''pricing''
   \<and> \<not> strIncludes (toLowerCase ''Acme makes tools.'') ''cost''"
  by code_simp

lemma search_makerStore:
  "search codeUnitLe acmePricing makerStore (Some [1]) =
     Json (Text ''No clear definition found in the provided documents.'') ''a.txt'' 0
       (Some ''Definition query could not be answered - no explicit definition, soft definition, or synthesizable intro content found'')"
  by code_simp

lemma topic_makerStore:
  "isDefinition acmePricing \<and> \<not> topicCoverageFails acmePricing makerStore makerCandidate
   \<and> topicWordsOf acmePricing = [''acme'', ''pricing'']"
  by code_simp

text \<open>Claim C5, amended.  ``What is Acme's pricing?'' is a definition query with the subject
  ``Acme's pricing'', and the topic coverage check is not made for a definition query.  For
  every store that is not empty and has no chunk with the text ``pricing'' in it (in any case of
  the letters), whenever the chunks can be scored, the response is ``No clear definition found
  in the provided documents.'' with the confidence 0 and the document of the first candidate as
  its source: it is no snippet of a chunk, and it is not the response on a missing topic.\<close>

theorem no_definition_of_pricing:
  assumes "store \<noteq> []"
      and "\<forall>v\<in>set store. \<not> strIncludes (toLowerCase (textOf (chunk v))) ''pricing''"
      and "scoreAll acmePricing store qe (vectorsToSearch acmePricing store) = Inr candidates"
  shows "search le acmePricing store (Some qe) =
           Json (Text ''No clear definition found in the provided documents.'')
             (case candidates of [] \<Rightarrow> [] | c # cs \<Rightarrow> sourceFile (chunk (vector c))) 0
             (Some ''Definition query could not be answered - no explicit definition, soft definition, or synthesizable intro content found'')"
proof -
  let ?subject = "''Acme's pricing''"
  have np: "\<not> containsCI ?subject (textOf (chunk v))" if v: "v \<in> set store" for v
    using assms(2) v no_subject_without_pricing by blast
  have cs: "comparisonStages acmePricing store = Inr store"
    using early_acmePricing by (rule comparisonStages_definition)
  have vin: "vector c \<in> set store" if c: "c \<in> set candidates" for c
    using scoreAll_vectors[OF assms(3) c] vectorsToSearch_subset by blast
  have t1: "tier1Candidates ?subject store candidates = []"
  proof -
    have "\<not> isTier1Chunk ?subject store (vector c)" if c: "c \<in> set candidates" for c
    proof
      assume "isTier1Chunk ?subject store (vector c)"
      then have "rx_test (tier1Pattern ?subject) (textOf (chunk (vector c)))"
        by (simp add: isTier1Chunk_def)
      then have "containsCI ?subject (textOf (chunk (vector c)))"
        using needs_tier1 rx_test_needs by blast
      then show False using np[OF vin[OF c]] by simp
    qed
    then show ?thesis unfolding tier1Candidates_def by (simp add: filter_empty_conv)
  qed
  have t2: "tier2Candidates ?subject store candidates = []"
  proof -
    have "\<not> isTier2Chunk ?subject store (vector c)" if c: "c \<in> set candidates" for c
    proof
      assume "isTier2Chunk ?subject store (vector c)"
      then obtain p i where p: "p \<in> set (tier2Patterns ?subject)"
          "rx_index p (textOf (chunk (vector c))) = Some i"
        unfolding isTier2Chunk_def list_ex_iff by (auto split: option.splits)
      have "containsCI ?subject (textOf (chunk (vector c)))"
        using needs_tier2[OF p(1)] p(2) by (rule rx_index_needs)
      then show False using np[OF vin[OF c]] by simp
    qed
    then have "filter (\<lambda>c. isTier2Chunk ?subject store (vector c)) candidates = []"
      by (simp add: filter_empty_conv)
    then show ?thesis unfolding tier2Candidates_def by (simp only: dedupBy_Nil)
  qed
  have ne: "\<not> introEligible ?subject store v" if v: "v \<in> set (vectorsToSearch acmePricing store)" for v
  proof
    assume "introEligible ?subject store v"
    then have "rx_test (bounded (stri ?subject)) (textOf (chunk v))"
      by (simp add: introEligible_def)
    then have "containsCI ?subject (textOf (chunk v))"
      using needs_bounded[OF needs_stri] rx_test_needs by blast
    then show False using np v vectorsToSearch_subset by blast
  qed
  have ns: "\<not> introEligible ?subject store v"
    if v: "v \<in> set (sortBy (byPosition le) (vectorsToSearch acmePricing store))" for v
  proof -
    have "v \<in> set (vectorsToSearch acmePricing store)" using v by (simp only: set_sortBy)
    then show ?thesis by (rule ne)
  qed
  have f0: "find (\<lambda>u. introEligible ?subject store u \<and> chunkIndex (chunk u) = 0)
              (sortBy (byPosition le) (vectorsToSearch acmePricing store)) = None"
    unfolding find_None_iff using ns by blast
  have f2: "find (\<lambda>u. introEligible ?subject store u \<and> archIndicatorCount (textOf (chunk u)) \<le> 2)
              (sortBy (byPosition le) (vectorsToSearch acmePricing store)) = None"
    unfolding find_None_iff using ns by blast
  have bi: "bestIntroChunk le ?subject store (vectorsToSearch acmePricing store) = None"
    unfolding bestIntroChunk_def pickIntroChunk_eq f0 f2 by simp
  have st: "definitionStage le acmePricing store candidates = Inl (noDefinitionResponse candidates)"
    using subject_acmePricing t1 t2 bi by (simp add: definitionStage_def)
  have q: "trim acmePricing \<noteq> []"
    using subject_acmePricing subject_isDefinition isDefinition_nonblank by blast
  have "search le acmePricing store (Some qe) = noDefinitionResponse candidates"
    using search_after_scoring[OF q assms(1) cs assms(3)] st by simp
  then show ?thesis by (simp add: noDefinitionResponse_def)
qed

theorem no_definition_of_pricing_witness:
  "makerStore \<noteq> []
   \<and> \<not> strIncludes (toLowerCase ''Acme makes tools.'') ''pricing''
   \<and> scoreAll acmePricing makerStore [1] (vectorsToSearch acmePricing makerStore) = Inr [makerCandidate]
   \<and> search codeUnitLe acmePricing makerStore (Some [1]) =
        Json (Text ''No clear definition found in the provided documents.'') ''a.txt'' 0
          (Some ''Definition query could not be answered - no explicit definition, soft definition, or synthesizable intro content found'')"
proof -
  have ne: "makerStore \<noteq> []" by (simp add: makerStore_def)
  have w: "\<forall>v\<in>set makerStore. \<not> strIncludes (toLowerCase (textOf (chunk v))) ''pricing''"
    using words_makerStore by (simp add: makerStore_def mkVector_def)
  have "search codeUnitLe acmePricing makerStore (Some [1]) =
          Json (Text ''No clear definition found in the provided documents.'')
            (case [makerCandidate] of [] \<Rightarrow> [] | c # cs \<Rightarrow> sourceFile (chunk (vector c))) 0
            (Some ''Definition query could not be answered - no explicit definition, soft definition, or synthesizable intro content found'')"
    by (rule no_definition_of_pricing[OF ne w scoreAll_makerStore])
  then have "search codeUnitLe acmePricing makerStore (Some [1]) =
        Json (Text ''No clear definition found in the provided documents.'') ''a.txt'' 0
          (Some ''Definition query could not be answered - no explicit definition, soft definition, or synthesizable intro content found'')"
    by (simp add: makerCandidate_def mkCandidate_def mkVector_def)
  then show ?thesis using ne words_makerStore scoreAll_makerStore by simp
qed

text \<open>Claim C5 as it is written fails.  The store below has one document, which mentions
  ``Acme'' and neither ``pricing'' nor ``cost''.  The query is a definition query, so the topic
  coverage check is skipped (and it would not fire: its topic words are ``acme'' and ``pricing'',
  and it fires only when the document holds none of them).  The response is the one of the
  strict definition policy, not the response on a missing topic.\<close>

theorem topic_check_skipped:
  "strIncludes (toLowerCase ''Acme makes tools.'') ''acme''
   \<and> \<not> strIncludes (toLowerCase ''Acme makes tools.'') ''pricing''
   \<and> \<not> strIncludes (toLowerCase ''Acme makes tools.'') ''cost''
   \<and> isDefinition acmePricing
   \<and> \<not> topicCoverageFails acmePricing makerStore makerCandidate
   \<and> search codeUnitLe acmePricing makerStore (Some [1]) =
        Json (Text ''No clear definition found in the provided documents.'') ''a.txt'' 0
          (Some ''Definition query could not be answered - no explicit definition, soft definition, or synthesizable intro content found'')
   \<and> answer (search codeUnitLe acmePricing makerStore (Some [1])) \<noteq>
        answer (noTopicResponse acmePricing makerStore makerCandidate)"
  using words_makerStore topic_makerStore search_makerStore
  by (simp add: noTopicResponse_def)

subsection \<open>C9: the cosine similarity and its zero denominator\<close>

lemma maxDouble_pos: "0 < maxDouble"
  by (simp add: maxDouble_def)

lemma maxDouble_big: "1 < maxDouble"
  by (simp add: maxDouble_def)

lemma fl_zero: "rd 0 = 0 \<Longrightarrow> fl rd 0 = Fin 0"
  using maxDouble_pos by (simp add: fl_def)

lemma fl_exact_zero: "fl (\<lambda>x. x) 0 = Fin 0"
  using maxDouble_pos by (simp add: fl_def)

lemma fl_exact_one: "fl (\<lambda>x. x) 1 = Fin 1"
  using maxDouble_big by (simp add: fl_def)

lemma ieee_loop:
  "length a = length b \<Longrightarrow>
   foldl (\<lambda>(dotProduct, normA, normB) (a, b).
            (dadd rd dotProduct (dmul rd a b), dadd rd normA (dmul rd a a), dadd rd normB (dmul rd b b)))
     (d, na, nb) (zip a b)
   = (foldl (\<lambda>dotProduct (a, b). dadd rd dotProduct (dmul rd a b)) d (zip a b),
      foldl (\<lambda>norm x. dadd rd norm (dmul rd x x)) na a,
      foldl (\<lambda>norm x. dadd rd norm (dmul rd x x)) nb b)"
proof (induction a b arbitrary: d na nb rule: list_induct2)
  case Nil
  then show ?case by simp
next
  case (Cons x xs y ys)
  then show ?case by simp
qed

lemma cosineSimilarityIEEE_eq:
  "length a = length b \<Longrightarrow>
   cosineSimilarityIEEE rd a b =
     Inr (if denominatorOf rd a b = Fin 0 then Fin 0
          else ddiv rd (dotProductOf rd a b) (denominatorOf rd a b))"
  by (simp add: cosineSimilarityIEEE_def ieee_loop denominatorOf_def dotProductOf_def squaredNorm_def)

lemma zeros_loop:
  assumes "rd 0 = 0" and "\<forall>x\<in>set v. x = Fin 0"
  shows "foldl (\<lambda>norm x. dadd rd norm (dmul rd x x)) (Fin 0) v = Fin 0"
  using assms(2)
proof (induction v)
  case Nil
  then show ?case by simp
next
  case (Cons y v)
  have y: "y = Fin 0" using Cons.prems by simp
  have v: "\<forall>x\<in>set v. x = Fin 0" using Cons.prems by simp
  have f: "fl rd 0 = Fin 0" using assms(1) by (rule fl_zero)
  have s: "dadd rd (Fin 0) (dmul rd y y) = Fin 0" unfolding y by (simp add: f)
  show ?case using Cons.IH[OF v] by (simp add: s)
qed

lemma squaredNorm_zeros:
  assumes "rd 0 = 0" and "\<forall>x\<in>set v. x = Fin 0"
  shows "squaredNorm rd v = Fin 0"
  unfolding squaredNorm_def using assms by (rule zeros_loop)

lemma zero_norm_left:
  assumes "rd 0 = 0" and "\<forall>x\<in>set a. x = Fin 0" and "dsqrt rd (squaredNorm rd b) = Fin s"
  shows "denominatorOf rd a b = Fin 0"
proof -
  have f: "fl rd 0 = Fin 0" using assms(1) by (rule fl_zero)
  have n: "squaredNorm rd a = Fin 0" using assms(1,2) by (rule squaredNorm_zeros)
  show ?thesis by (simp add: denominatorOf_def n assms(3) f)
qed

lemma zero_norm_right:
  assumes "rd 0 = 0" and "\<forall>x\<in>set b. x = Fin 0" and "dsqrt rd (squaredNorm rd a) = Fin s"
  shows "denominatorOf rd a b = Fin 0"
proof -
  have f: "fl rd 0 = Fin 0" using assms(1) by (rule fl_zero)
  have n: "squaredNorm rd b = Fin 0" using assms(1,2) by (rule squaredNorm_zeros)
  show ?thesis by (simp add: denominatorOf_def n assms(3) f)
qed

lemma ddiv_NaN: "ddiv rd x NaN = NaN"
  by (cases x) simp_all

lemma squaredNorm_unit: "squaredNorm (\<lambda>x. x) [Fin 1, Fin 0] = Fin 1"
  by (simp add: squaredNorm_def fl_exact_zero fl_exact_one)

lemma dsqrt_unit: "dsqrt (\<lambda>x. x) (squaredNorm (\<lambda>x. x) [Fin 1, Fin 0]) = Fin 1"
  by (simp add: squaredNorm_unit fl_exact_one)

lemma squaredNorm_zero: "squaredNorm (\<lambda>x. x) [Fin 0] = Fin 0"
  by (simp add: squaredNorm_def fl_exact_zero)

lemma overflow_square: "maxDouble < 2 ^ 700 * 2 ^ 700"
  by (simp add: maxDouble_def)

lemma squaredNorm_huge: "squaredNorm (\<lambda>x. x) [hugeDouble] = PInf"
  using overflow_square by (simp add: squaredNorm_def hugeDouble_def fl_def fl_exact_zero)

lemma denominator_huge: "denominatorOf (\<lambda>x. x) [Fin 0] [hugeDouble] = NaN"
  by (simp add: denominatorOf_def squaredNorm_zero squaredNorm_huge fl_exact_zero)

lemma cosine_huge: "cosineSimilarityIEEE (\<lambda>x. x) [Fin 0] [hugeDouble] = Inr NaN"
  by (simp add: cosineSimilarityIEEE_eq denominator_huge ddiv_NaN)

lemma unguarded_zero: "cosineUnguardedIEEE (\<lambda>x. x) [Fin 0, Fin 0] [Fin 1, Fin 0] = Inr NaN"
  by (simp add: cosineUnguardedIEEE_def fl_exact_zero fl_exact_one)

text \<open>Claim C9, amended.  On doubles, \<open>cosineSimilarity\<close> throws exactly when the two vectors
  differ in length.  For vectors of one length it returns a number: 0 when the denominator it
  has computed is 0, and the quotient otherwise, so it never divides by zero.  It returns 0 when
  all entries of one vector are zero and the norm it has computed for the other is finite.
  This holds for every rounding that rounds 0 to 0.  It does not return 0 for every vector of
  norm zero: when the squared norm of the other vector overflows, the denominator is zero times
  infinity, which is NaN and not 0, and the result is NaN.\<close>

theorem cosineSimilarityIEEE_guarded:
  assumes "rd 0 = 0"
  shows "(cosineSimilarityIEEE rd a b = Inl (Error ''Vectors must have the same length'')
            \<longleftrightarrow> length a \<noteq> length b)
         \<and> (length a = length b \<longrightarrow>
               cosineSimilarityIEEE rd a b =
                 Inr (if denominatorOf rd a b = Fin 0 then Fin 0
                      else ddiv rd (dotProductOf rd a b) (denominatorOf rd a b)))
         \<and> (length a = length b \<and> (\<forall>x\<in>set a. x = Fin 0) \<and> dsqrt rd (squaredNorm rd b) = Fin s
               \<longrightarrow> cosineSimilarityIEEE rd a b = Inr (Fin 0))
         \<and> (length a = length b \<and> (\<forall>x\<in>set b. x = Fin 0) \<and> dsqrt rd (squaredNorm rd a) = Fin s
               \<longrightarrow> cosineSimilarityIEEE rd a b = Inr (Fin 0))"
proof -
  have 1: "cosineSimilarityIEEE rd a b = Inl (Error ''Vectors must have the same length'')
             \<longleftrightarrow> length a \<noteq> length b"
  proof (cases "length a = length b")
    case True
    then show ?thesis by (simp add: cosineSimilarityIEEE_eq)
  next
    case False
    then show ?thesis by (simp add: cosineSimilarityIEEE_def)
  qed
  have 2: "length a = length b \<longrightarrow>
             cosineSimilarityIEEE rd a b =
               Inr (if denominatorOf rd a b = Fin 0 then Fin 0
                    else ddiv rd (dotProductOf rd a b) (denominatorOf rd a b))"
    using cosineSimilarityIEEE_eq by blast
  have 3: "length a = length b \<and> (\<forall>x\<in>set a. x = Fin 0) \<and> dsqrt rd (squaredNorm rd b) = Fin s
             \<longrightarrow> cosineSimilarityIEEE rd a b = Inr (Fin 0)"
    using zero_norm_left[of rd a b s] assms by (simp add: cosineSimilarityIEEE_eq)
  have 4: "length a = length b \<and> (\<forall>x\<in>set b. x = Fin 0) \<and> dsqrt rd (squaredNorm rd a) = Fin s
             \<longrightarrow> cosineSimilarityIEEE rd a b = Inr (Fin 0)"
    using zero_norm_right[of rd b a s] assms by (simp add: cosineSimilarityIEEE_eq)
  show ?thesis using 1 2 3 4 by blast
qed

theorem cosineSimilarityIEEE_guarded_witness:
  "dsqrt (\<lambda>x. x) (squaredNorm (\<lambda>x. x) [Fin 1, Fin 0]) = Fin 1
   \<and> cosineSimilarityIEEE (\<lambda>x. x) [Fin 0, Fin 0] [Fin 1, Fin 0] = Inr (Fin 0)
   \<and> cosineSimilarityIEEE (\<lambda>x. x) [Fin 1, Fin 0] [Fin 0, Fin 0] = Inr (Fin 0)
   \<and> cosineUnguardedIEEE (\<lambda>x. x) [Fin 0, Fin 0] [Fin 1, Fin 0] = Inr NaN
   \<and> cosineSimilarityIEEE (\<lambda>x. x) [Fin 1] [Fin 1, Fin 0] = Inl (Error ''Vectors must have the same length'')"
proof -
  note w1 = cosineSimilarityIEEE_guarded[of "\<lambda>x. x" "[Fin 0, Fin 0]" "[Fin 1, Fin 0]" 1, OF refl]
  note w2 = cosineSimilarityIEEE_guarded[of "\<lambda>x. x" "[Fin 1, Fin 0]" "[Fin 0, Fin 0]" 1, OF refl]
  note w3 = cosineSimilarityIEEE_guarded[of "\<lambda>x. x" "[Fin 1]" "[Fin 1, Fin 0]" 1, OF refl]
  have z: "length [Fin 0, Fin 0] = length [Fin 1, Fin 0] \<and> (\<forall>x\<in>set [Fin 0, Fin 0]. x = Fin 0)
           \<and> dsqrt (\<lambda>x. x) (squaredNorm (\<lambda>x. x) [Fin 1, Fin 0]) = Fin 1"
    using dsqrt_unit by simp
  have z': "length [Fin 1, Fin 0] = length [Fin 0, Fin 0] \<and> (\<forall>x\<in>set [Fin 0, Fin 0]. x = Fin 0)
           \<and> dsqrt (\<lambda>x. x) (squaredNorm (\<lambda>x. x) [Fin 1, Fin 0]) = Fin 1"
    using dsqrt_unit by simp
  have a: "cosineSimilarityIEEE (\<lambda>x. x) [Fin 0, Fin 0] [Fin 1, Fin 0] = Inr (Fin 0)"
    using w1 z by blast
  have b: "cosineSimilarityIEEE (\<lambda>x. x) [Fin 1, Fin 0] [Fin 0, Fin 0] = Inr (Fin 0)"
    using w2 z' by blast
  have l: "length [Fin 1] \<noteq> length [Fin 1, Fin 0]" by simp
  have c: "cosineSimilarityIEEE (\<lambda>x. x) [Fin 1] [Fin 1, Fin 0] = Inl (Error ''Vectors must have the same length'')"
    using w3 l by blast
  show ?thesis using a b c dsqrt_unit unguarded_zero by (simp only: simp_thms)
qed

text \<open>Claim C9 as it is written fails.  The vector \<open>[0]\<close> has the norm zero.  Against the
  vector \<open>[2^700]\<close> (and in the same way against \<open>[1e200]\<close>) the loop computes the squared norm
  \<open>2^1400\<close>, which is beyond the largest double and becomes \<open>Infinity\<close>; the denominator is
  \<open>0 * Infinity\<close>, NaN; \<open>NaN === 0\<close> is false, and the function returns \<open>0 / NaN\<close>, NaN, and
  not 0.\<close>

theorem overflow_gives_NaN:
  "squaredNorm (\<lambda>x. x) [Fin 0] = Fin 0
   \<and> squaredNorm (\<lambda>x. x) [hugeDouble] = PInf
   \<and> denominatorOf (\<lambda>x. x) [Fin 0] [hugeDouble] = NaN
   \<and> cosineSimilarityIEEE (\<lambda>x. x) [Fin 0] [hugeDouble] = Inr NaN
   \<and> cosineSimilarityIEEE (\<lambda>x. x) [Fin 0] [hugeDouble] \<noteq> Inr (Fin 0)"
  using squaredNorm_zero squaredNorm_huge denominator_huge cosine_huge by simp

end
